theory Spec2Isabelle
  imports Complex_Main "HOL-Library.List_Lexorder" "HOL-Library.Char_ord"
begin

section \<open>Data model\<close>

text \<open>
  A calendar date: year, month and day, ordered as dates are (by year, then month, then
  day). The observation timestamps of the upstream API carry no time of day, so a
  pandas Timestamp and the \<open>datetime.date\<close> a date widget returns are the same value
  here. \<open>year_of\<close> is the \<open>.year\<close> attribute.
\<close>

datatype date = Date (year_of: int) (month_of: nat) (day_of: nat)

instantiation date :: linorder
begin

definition less_eq_date :: "date \<Rightarrow> date \<Rightarrow> bool" where
  "less_eq_date a b =
     (year_of a < year_of b \<or>
      (year_of a = year_of b \<and>
       (month_of a < month_of b \<or> (month_of a = month_of b \<and> day_of a \<le> day_of b))))"

definition less_date :: "date \<Rightarrow> date \<Rightarrow> bool" where
  "less_date a b =
     (year_of a < year_of b \<or>
      (year_of a = year_of b \<and>
       (month_of a < month_of b \<or> (month_of a = month_of b \<and> day_of a < day_of b))))"

instance
proof
  fix x y z :: date
  show "(x < y) = (x \<le> y \<and> \<not> y \<le> x)"
    by (auto simp: less_eq_date_def less_date_def)
  show "x \<le> x"
    by (simp add: less_eq_date_def)
  show "x \<le> y \<Longrightarrow> y \<le> z \<Longrightarrow> x \<le> z"
    by (auto simp: less_eq_date_def)
  show "x \<le> y \<Longrightarrow> y \<le> x \<Longrightarrow> x = y"
    by (auto simp: less_eq_date_def intro: date.expand)
  show "x \<le> y \<or> y \<le> x"
    by (auto simp: less_eq_date_def)
qed

end

text \<open>
  One cell of a pandas column. \<open>Null\<close> stands for NaN, NaT and None alike. A float64
  value is modelled as an exact rational: the rounding error of floating-point
  arithmetic is outside the model.
\<close>

datatype cell = Null | Dt date | Num rat | Str string

text \<open>
  A DataFrame is column oriented: an association list from column names to columns,
  in column order. \<open>pd.DataFrame()\<close> is the frame with no column.
\<close>

type_synonym frame = "(string \<times> cell list) list"

datatype error = KeyError string | AttributeError | TypeError | StreamlitAPIException

text \<open>The messages \<open>get_series\<close> and \<open>load_county_data\<close> show through \<open>st.error\<close>.\<close>

datatype report =
  FetchFailed string | LoadFailed | NoParishColumn | NoDateParsed | NoDateOrYearColumn

definition DataFrame :: frame where
  "DataFrame = []"

definition nrows :: "frame \<Rightarrow> nat" where
  "nrows df = (case df of [] \<Rightarrow> 0 | (n, vs) # rest \<Rightarrow> length vs)"

text \<open>\<open>df.empty\<close>: no column or no row.\<close>

definition is_empty :: "frame \<Rightarrow> bool" where
  "is_empty df = (df = [] \<or> nrows df = 0)"

definition columns :: "frame \<Rightarrow> string list" where
  "columns df = map fst df"

text \<open>\<open>df[name]\<close> raises KeyError when the frame has no such column.\<close>

definition getitem :: "frame \<Rightarrow> string \<Rightarrow> error + cell list" where
  "getitem df name = (case map_of df name of None \<Rightarrow> Inl (KeyError name) | Some vs \<Rightarrow> Inr vs)"

text \<open>\<open>df[name] = vs\<close> replaces the column in place, or appends a new last column.\<close>

fun setitem :: "frame \<Rightarrow> string \<Rightarrow> cell list \<Rightarrow> frame" where
  "setitem [] name vs = [(name, vs)]"
| "setitem ((n, c) # df) name vs = (if n = name then (name, vs) # df else (n, c) # setitem df name vs)"

text \<open>\<open>df.rename(columns={old: new})\<close>; a name the frame lacks changes nothing.\<close>

definition rename :: "string \<Rightarrow> string \<Rightarrow> frame \<Rightarrow> frame" where
  "rename old new df = map (\<lambda>(n, vs). (if n = old then new else n, vs)) df"

text \<open>\<open>df[[n1, n2, ...]]\<close>: the named columns in the order asked, KeyError on a missing one.\<close>

fun getitems :: "frame \<Rightarrow> string list \<Rightarrow> error + frame" where
  "getitems df [] = Inr []"
| "getitems df (n # ns) =
     (case getitem df n of
        Inl e \<Rightarrow> Inl e
      | Inr vs \<Rightarrow> (case getitems df ns of Inl e \<Rightarrow> Inl e | Inr rest \<Rightarrow> Inr ((n, vs) # rest)))"

text \<open>Boolean-mask row selection, \<open>df.loc[mask]\<close> and \<open>df[mask]\<close>.\<close>

definition select :: "bool list \<Rightarrow> 'a list \<Rightarrow> 'a list" where
  "select keep vs = map snd (filter fst (zip keep vs))"

definition loc :: "bool list \<Rightarrow> frame \<Rightarrow> frame" where
  "loc keep df = map (\<lambda>(n, vs). (n, select keep vs)) df"

text \<open>
  \<open>pd.merge(left, right, on=key, how="left")\<close>. Every left row is kept, in order; a left
  row whose key occurs in no right row gets nulls in the right columns; a left row
  whose key occurs in several right rows is repeated once per match, in the right
  frame's order. The result has the left columns followed by the right columns other
  than the key. (pandas renames a right column whose name the left frame already has;
  the callers merge one column per selected state, and a multiselect returns each
  option at most once, so that renaming is not modelled.)
\<close>

definition matches :: "cell list \<Rightarrow> cell \<Rightarrow> nat list" where
  "matches rk k = filter (\<lambda>j. rk ! j = k) [0..<length rk]"

definition join_index :: "cell list \<Rightarrow> cell list \<Rightarrow> (nat \<times> nat option) list" where
  "join_index lk rk =
     concat (map (\<lambda>i. case matches rk (lk ! i) of
                          [] \<Rightarrow> [(i, None)]
                        | j # js \<Rightarrow> map (\<lambda>j'. (i, Some j')) (j # js))
                 [0..<length lk])"

definition take_left :: "(nat \<times> nat option) list \<Rightarrow> cell list \<Rightarrow> cell list" where
  "take_left ix vs = map (\<lambda>(i, j). vs ! i) ix"

definition take_right :: "(nat \<times> nat option) list \<Rightarrow> cell list \<Rightarrow> cell list" where
  "take_right ix vs = map (\<lambda>(i, j). case j of None \<Rightarrow> Null | Some j' \<Rightarrow> vs ! j') ix"

definition merge_left :: "string \<Rightarrow> frame \<Rightarrow> frame \<Rightarrow> error + frame" where
  "merge_left key left right =
     (case getitem left key of
        Inl e \<Rightarrow> Inl e
      | Inr lk \<Rightarrow>
          (case getitem right key of
             Inl e \<Rightarrow> Inl e
           | Inr rk \<Rightarrow>
               Inr (map (\<lambda>(n, vs). (n, take_left (join_index lk rk) vs)) left @
                    map (\<lambda>(n, vs). (n, take_right (join_index lk rk) vs))
                        (filter (\<lambda>(n, vs). n \<noteq> key) right))))"

section \<open>Region catalog\<close>

definition STATE_SERIES_IDS :: "(string \<times> string) list" where
  "STATE_SERIES_IDS =
    [(''Alabama'', ''ALUR''), (''Alaska'', ''AKUR''), (''Arizona'', ''AZUR''), (''Arkansas'', ''ARUR''),
     (''California'', ''CAUR''), (''Colorado'', ''COUR''), (''Connecticut'', ''CTUR''), (''Delaware'', ''DEUR''),
     (''District of Columbia'', ''DCUR''), (''Florida'', ''FLUR''), (''Georgia'', ''GAUR''), (''Hawaii'', ''HIUR''),
     (''Idaho'', ''IDUR''), (''Illinois'', ''ILUR''), (''Indiana'', ''INUR''), (''Iowa'', ''IAUR''), (''Kansas'', ''KSUR''),
     (''Kentucky'', ''KYUR''), (''Louisiana'', ''LAUR''), (''Maine'', ''MEUR''), (''Maryland'', ''MDUR''),
     (''Massachusetts'', ''MAUR''), (''Michigan'', ''MIUR''), (''Minnesota'', ''MNUR''), (''Mississippi'', ''MSUR''),
     (''Missouri'', ''MOUR''), (''Montana'', ''MTUR''), (''Nebraska'', ''NEUR''), (''Nevada'', ''NVUR''),
     (''New Hampshire'', ''NHUR''), (''New Jersey'', ''NJUR''), (''New Mexico'', ''NMUR''), (''New York'', ''NYUR''),
     (''North Carolina'', ''NCUR''), (''North Dakota'', ''NDUR''), (''Ohio'', ''OHUR''), (''Oklahoma'', ''OKUR''),
     (''Oregon'', ''ORUR''), (''Pennsylvania'', ''PAUR''), (''Rhode Island'', ''RIUR''), (''South Carolina'', ''SCUR''),
     (''South Dakota'', ''SDUR''), (''Tennessee'', ''TNUR''), (''Texas'', ''TXUR''), (''Utah'', ''UTUR''),
     (''Vermont'', ''VTUR''), (''Virginia'', ''VAUR''), (''Washington'', ''WAUR''), (''West Virginia'', ''WVUR''),
     (''Wisconsin'', ''WIUR''), (''Wyoming'', ''WYUR'')]"

section \<open>Fetching one series\<close>

text \<open>
  The upstream API client (\<open>fred.get_series\<close>) is outside the repository: it is a
  parameter, a function from a series identifier to the observations it returns, in
  the order it returns them, or \<open>None\<close> when the call raises. An observation is a date
  and a value, the value possibly missing.
\<close>

type_synonym observations = "(date \<times> rat option) list"
type_synonym api = "string \<Rightarrow> observations option"

definition num_cell :: "rat option \<Rightarrow> cell" where
  "num_cell v = (case v of None \<Rightarrow> Null | Some x \<Rightarrow> Num x)"

text \<open>
  \<open>get_series\<close> returns the frame together with the messages it shows through
  \<open>st.error\<close>. The \<open>except\<close> branch returns \<open>pd.DataFrame()\<close>, a frame without columns.
\<close>

definition get_series :: "api \<Rightarrow> string \<Rightarrow> frame \<times> report list" where
  "get_series fred series_id =
     (case fred series_id of
        Some data \<Rightarrow>
          ([(''Date'', map (\<lambda>ob. Dt (fst ob)) data),
            (''Unemployment Rate'', map (\<lambda>ob. num_cell (snd ob)) data)], [])
      | None \<Rightarrow> (DataFrame, [FetchFailed series_id]))"

section \<open>State-level comparison table\<close>

text \<open>
  The assembly loop, the same in both dashboards (economics_dashboard.py lines 58-66,
  economics_dashboard_3cols.py lines 146-153). A failed or empty state series is
  skipped: no column is added for it.
\<close>

fun merge_states :: "api \<Rightarrow> string list \<Rightarrow> frame \<Rightarrow> error + frame" where
  "merge_states fred [] comparison_df = Inr comparison_df"
| "merge_states fred (state # rest) comparison_df =
     (case map_of STATE_SERIES_IDS state of
        None \<Rightarrow> Inl (KeyError state)
      | Some series_id \<Rightarrow>
          (if \<not> is_empty (fst (get_series fred series_id))
           then (case merge_left ''Date'' comparison_df
                        (rename ''Unemployment Rate'' state (fst (get_series fred series_id))) of
                   Inl e \<Rightarrow> Inl e
                 | Inr merged \<Rightarrow> merge_states fred rest merged)
           else merge_states fred rest comparison_df))"

definition national :: "api \<Rightarrow> frame" where
  "national fred = rename ''Unemployment Rate'' ''United States'' (fst (get_series fred ''UNRATE''))"

definition build_comparison :: "api \<Rightarrow> string list \<Rightarrow> error + frame" where
  "build_comparison fred states_selected =
     (case getitems (national fred) [''Date'', ''United States''] of
        Inl e \<Rightarrow> Inl e
      | Inr comparison_df \<Rightarrow> merge_states fred states_selected comparison_df)"

subsection \<open>Common date range and the date widgets\<close>

fun dates_of :: "cell list \<Rightarrow> date list" where
  "dates_of [] = []"
| "dates_of (Dt d # cs) = d # dates_of cs"
| "dates_of (c # cs) = dates_of cs"

text \<open>
  \<open>Series.min()\<close> and \<open>Series.max()\<close> of the Date column of a fetched series. The
  column of a series with observations holds a date in every row. The column of a
  series without observations has no row, and pandas returns the float \<open>nan\<close> for it:
  that is the \<open>Null\<close> here.
\<close>

definition series_min :: "cell list \<Rightarrow> cell" where
  "series_min col = (case dates_of col of [] \<Rightarrow> Null | d # ds \<Rightarrow> Dt (fold min ds d))"

definition series_max :: "cell list \<Rightarrow> cell" where
  "series_max col = (case dates_of col of [] \<Rightarrow> Null | d # ds \<Rightarrow> Dt (fold max ds d))"

text \<open>
  The comparisons Python's built-in \<open>max\<close> and \<open>min\<close> make. Two dates compare as dates;
  \<open>nan\<close> against \<open>nan\<close> is false; a date against \<open>nan\<close>, in either order, raises
  TypeError.
\<close>

definition cell_gt :: "cell \<Rightarrow> cell \<Rightarrow> error + bool" where
  "cell_gt a b =
     (case (a, b) of
        (Dt x, Dt y) \<Rightarrow> Inr (y < x)
      | (Null, Null) \<Rightarrow> Inr False
      | _ \<Rightarrow> Inl TypeError)"

definition cell_lt :: "cell \<Rightarrow> cell \<Rightarrow> error + bool" where
  "cell_lt a b =
     (case (a, b) of
        (Dt x, Dt y) \<Rightarrow> Inr (x < y)
      | (Null, Null) \<Rightarrow> Inr False
      | _ \<Rightarrow> Inl TypeError)"

text \<open>
  \<open>max\<close> keeps the first item and replaces it by a later item when \<open>item > kept\<close>;
  \<open>min\<close> does the same with \<open>item < kept\<close>. The callers never pass an empty sequence,
  so the first item is an argument of its own.
\<close>

fun py_max :: "cell \<Rightarrow> cell list \<Rightarrow> error + cell" where
  "py_max kept [] = Inr kept"
| "py_max kept (item # items) =
     (case cell_gt item kept of
        Inl e \<Rightarrow> Inl e
      | Inr replace \<Rightarrow> py_max (if replace then item else kept) items)"

fun py_min :: "cell \<Rightarrow> cell list \<Rightarrow> error + cell" where
  "py_min kept [] = Inr kept"
| "py_min kept (item # items) =
     (case cell_lt item kept of
        Inl e \<Rightarrow> Inl e
      | Inr replace \<Rightarrow> py_min (if replace then item else kept) items)"

text \<open>
  Streamlit's \<open>date_input(label, value, min_value, max_value)\<close> is outside the
  repository. When the widget is created Streamlit checks the default \<open>value\<close> against
  the two bounds and raises StreamlitAPIException when it is outside them. The call
  returns the date the user picked, or \<open>value\<close> when the user picked none; the date
  returned is not checked by the call. The pick is an input of the model.
\<close>

definition date_input :: "date \<Rightarrow> date \<Rightarrow> date \<Rightarrow> date option \<Rightarrow> error + date" where
  "date_input val min_value max_value picked =
     (if min_value \<le> val \<and> val \<le> max_value
      then Inr (case picked of None \<Rightarrow> val | Some p \<Rightarrow> p)
      else Inl StreamlitAPIException)"

text \<open>
  The two sidebar widgets, both bounded by the common range, the first with the
  start of the range as its default and the second with its end. A default or a
  bound that is not a date (the \<open>nan\<close> of a column without rows) is refused by the
  widget with StreamlitAPIException.
\<close>

definition window_inputs ::
    "cell \<Rightarrow> cell \<Rightarrow> date option \<Rightarrow> date option \<Rightarrow> error + (date \<times> date)" where
  "window_inputs common_start common_end pick_start pick_end =
     (case (common_start, common_end) of
        (Dt lo, Dt hi) \<Rightarrow>
          (case date_input lo lo hi pick_start of
             Inl e \<Rightarrow> Inl e
           | Inr start_date \<Rightarrow>
               (case date_input hi lo hi pick_end of
                  Inl e \<Rightarrow> Inl e
                | Inr end_date \<Rightarrow> Inr (start_date, end_date)))
      | _ \<Rightarrow> Inl StreamlitAPIException)"

text \<open>
  economics_dashboard.py line 69: the Date column of every selected state's series,
  read without a guard, so a failed fetch (a frame without columns) raises KeyError.
\<close>

fun state_date_columns :: "api \<Rightarrow> string list \<Rightarrow> error + cell list list" where
  "state_date_columns fred [] = Inr []"
| "state_date_columns fred (s # rest) =
     (case map_of STATE_SERIES_IDS s of
        None \<Rightarrow> Inl (KeyError s)
      | Some series_id \<Rightarrow>
          (case getitem (fst (get_series fred series_id)) ''Date'' of
             Inl e \<Rightarrow> Inl e
           | Inr col \<Rightarrow>
               (case state_date_columns fred rest of
                  Inl e \<Rightarrow> Inl e
                | Inr cols \<Rightarrow> Inr (col # cols))))"

text \<open>
  economics_dashboard.py lines 69-71: the national series is the first of
  \<open>all_dates\<close>; line 70 takes the \<open>max\<close> of the first dates, line 71 the \<open>min\<close> of the
  last dates.
\<close>

definition common_range :: "api \<Rightarrow> string list \<Rightarrow> error + (cell \<times> cell)" where
  "common_range fred states_selected =
     (case getitem (national fred) ''Date'' of
        Inl e \<Rightarrow> Inl e
      | Inr us_dates \<Rightarrow>
          (case state_date_columns fred states_selected of
             Inl e \<Rightarrow> Inl e
           | Inr cols \<Rightarrow>
               (case py_max (series_min us_dates) (map series_min cols) of
                  Inl e \<Rightarrow> Inl e
                | Inr common_start \<Rightarrow>
                    (case py_min (series_max us_dates) (map series_max cols) of
                       Inl e \<Rightarrow> Inl e
                     | Inr common_end \<Rightarrow> Inr (common_start, common_end)))))"

text \<open>
  economics_dashboard_3cols.py lines 118-123: only the selected states whose series
  is not empty contribute; the national series is not in the list. \<open>None\<close> is the
  \<open>common_start, common_end = None, None\<close> branch.
\<close>

fun all_state_dates :: "api \<Rightarrow> string list \<Rightarrow> error + cell list list" where
  "all_state_dates fred [] = Inr []"
| "all_state_dates fred (s # rest) =
     (case map_of STATE_SERIES_IDS s of
        None \<Rightarrow> Inl (KeyError s)
      | Some series_id \<Rightarrow>
          (if \<not> is_empty (fst (get_series fred series_id))
           then (case getitem (fst (get_series fred series_id)) ''Date'' of
                   Inl e \<Rightarrow> Inl e
                 | Inr col \<Rightarrow>
                     (case all_state_dates fred rest of
                        Inl e \<Rightarrow> Inl e
                      | Inr cols \<Rightarrow> Inr (col # cols)))
           else all_state_dates fred rest))"

definition common_range_3cols :: "api \<Rightarrow> string list \<Rightarrow> error + (cell \<times> cell) option" where
  "common_range_3cols fred states_selected =
     (case all_state_dates fred states_selected of
        Inl e \<Rightarrow> Inl e
      | Inr [] \<Rightarrow> Inr None
      | Inr (col # cols) \<Rightarrow>
          (case py_max (series_min col) (map series_min cols) of
             Inl e \<Rightarrow> Inl e
           | Inr common_start \<Rightarrow>
               (case py_min (series_max col) (map series_max cols) of
                  Inl e \<Rightarrow> Inl e
                | Inr common_end \<Rightarrow> Inr (Some (common_start, common_end)))))"

subsection \<open>Window filter\<close>

text \<open>
  \<open>mask = (df["Date"] >= start) & (df["Date"] <= end); df = df.loc[mask]\<close>: a null date
  compares false on both sides.
\<close>

definition in_window :: "date \<Rightarrow> date \<Rightarrow> cell \<Rightarrow> bool" where
  "in_window start_date end_date c =
     (case c of Dt d \<Rightarrow> start_date \<le> d \<and> d \<le> end_date | _ \<Rightarrow> False)"

definition filter_window :: "date \<Rightarrow> date \<Rightarrow> frame \<Rightarrow> error + frame" where
  "filter_window start_date end_date comparison_df =
     (case getitem comparison_df ''Date'' of
        Inl e \<Rightarrow> Inl e
      | Inr dates \<Rightarrow> Inr (loc (map (in_window start_date end_date) dates) comparison_df))"

subsection \<open>Line chart\<close>

text \<open>A trace of the line chart: its legend name, its x column and its y column.\<close>

type_synonym trace = "string \<times> cell list \<times> cell list"

fun state_traces :: "frame \<Rightarrow> string list \<Rightarrow> error + trace list" where
  "state_traces comparison_df [] = Inr []"
| "state_traces comparison_df (state # rest) =
     (case getitem comparison_df ''Date'' of
        Inl e \<Rightarrow> Inl e
      | Inr x \<Rightarrow>
          (case getitem comparison_df state of
             Inl e \<Rightarrow> Inl e
           | Inr y \<Rightarrow>
               (case state_traces comparison_df rest of
                  Inl e \<Rightarrow> Inl e
                | Inr traces \<Rightarrow> Inr ((state, x, y) # traces))))"

definition line_chart :: "frame \<Rightarrow> string list \<Rightarrow> error + trace list" where
  "line_chart comparison_df states_selected =
     (case getitem comparison_df ''Date'' of
        Inl e \<Rightarrow> Inl e
      | Inr x \<Rightarrow>
          (case getitem comparison_df ''United States'' of
             Inl e \<Rightarrow> Inl e
           | Inr y \<Rightarrow>
               (case state_traces comparison_df states_selected of
                  Inl e \<Rightarrow> Inl e
                | Inr traces \<Rightarrow> Inr ((''United States'', x, y) # traces))))"

subsection \<open>The two state-level passes\<close>

text \<open>
  economics_dashboard.py lines 58-98, in statement order: assembly, common range,
  date widgets, window filter, chart. The result is the filtered table and the
  chart's traces; an exception ends the pass.
\<close>

definition state_level ::
    "api \<Rightarrow> string list \<Rightarrow> date option \<Rightarrow> date option \<Rightarrow> error + (frame \<times> trace list)" where
  "state_level fred states_selected pick_start pick_end =
     (case build_comparison fred states_selected of
        Inl e \<Rightarrow> Inl e
      | Inr comparison_df \<Rightarrow>
          (case common_range fred states_selected of
             Inl e \<Rightarrow> Inl e
           | Inr (common_start, common_end) \<Rightarrow>
               (case window_inputs common_start common_end pick_start pick_end of
                  Inl e \<Rightarrow> Inl e
                | Inr (start_date, end_date) \<Rightarrow>
                    (case filter_window start_date end_date comparison_df of
                       Inl e \<Rightarrow> Inl e
                     | Inr filtered \<Rightarrow>
                         (case line_chart filtered states_selected of
                            Inl e \<Rightarrow> Inl e
                          | Inr traces \<Rightarrow> Inr (filtered, traces))))))"

text \<open>
  economics_dashboard_3cols.py lines 118-175: the sidebar computes the window first
  (none when no selected state has data), then the main column assembles, filters
  when there is a window, and charts.
\<close>

definition window_3cols ::
    "api \<Rightarrow> string list \<Rightarrow> date option \<Rightarrow> date option \<Rightarrow> error + (date \<times> date) option" where
  "window_3cols fred states_selected pick_start pick_end =
     (case common_range_3cols fred states_selected of
        Inl e \<Rightarrow> Inl e
      | Inr None \<Rightarrow> Inr None
      | Inr (Some (common_start, common_end)) \<Rightarrow>
          (case window_inputs common_start common_end pick_start pick_end of
             Inl e \<Rightarrow> Inl e
           | Inr w \<Rightarrow> Inr (Some w)))"

definition filter_window_3cols :: "(date \<times> date) option \<Rightarrow> frame \<Rightarrow> error + frame" where
  "filter_window_3cols w comparison_df =
     (case w of
        None \<Rightarrow> Inr comparison_df
      | Some (start_date, end_date) \<Rightarrow> filter_window start_date end_date comparison_df)"

definition state_level_3cols ::
    "api \<Rightarrow> string list \<Rightarrow> date option \<Rightarrow> date option \<Rightarrow> error + (frame \<times> trace list)" where
  "state_level_3cols fred states_selected pick_start pick_end =
     (case window_3cols fred states_selected pick_start pick_end of
        Inl e \<Rightarrow> Inl e
      | Inr w \<Rightarrow>
          (case build_comparison fred states_selected of
             Inl e \<Rightarrow> Inl e
           | Inr comparison_df \<Rightarrow>
               (case filter_window_3cols w comparison_df of
                  Inl e \<Rightarrow> Inl e
                | Inr filtered \<Rightarrow>
                    (case line_chart filtered states_selected of
                       Inl e \<Rightarrow> Inl e
                     | Inr traces \<Rightarrow> Inr (filtered, traces)))))"

subsection \<open>Float64 arithmetic\<close>

text \<open>
  The rates are float64 values. A rational number stands for the float64 value that
  is equal to it, and an arithmetic operation returns the exact result rounded to
  the nearest float64, a tie going to the neighbour with the even significand
  (IEEE 754, the only rounding NumPy and pandas use). A float64 has 53 significant
  bits: a number of magnitude at least \<open>2 ^ e\<close> and below \<open>2 ^ (e + 1)\<close>, for \<open>e\<close> from
  \<open>-1022\<close> to \<open>1023\<close>, is rounded to a multiple of \<open>2 ^ (e - 52)\<close>, and a number of
  smaller magnitude to a multiple of \<open>2 ^ (-1074)\<close>. Infinities, the sign of zero and
  \<open>nan\<close> as a number are not modelled: a magnitude of \<open>2 ^ 1024\<close> or more is left as it
  is, and a missing value is a null cell.
\<close>

definition rint :: "rat \<Rightarrow> int" where
  "rint x =
     (if x - of_int \<lfloor>x\<rfloor> < 1 / 2 then \<lfloor>x\<rfloor>
      else if 1 / 2 < x - of_int \<lfloor>x\<rfloor> then \<lfloor>x\<rfloor> + 1
      else if even \<lfloor>x\<rfloor> then \<lfloor>x\<rfloor> else \<lfloor>x\<rfloor> + 1)"

definition exponents :: "int list" where
  "exponents = [- 1022..1023]"

definition exponent_of :: "rat \<Rightarrow> int option" where
  "exponent_of x = find (\<lambda>e. 2 powi e \<le> \<bar>x\<bar> \<and> \<bar>x\<bar> < 2 powi (e + 1)) exponents"

definition float64 :: "rat \<Rightarrow> rat" where
  "float64 x =
     (if \<bar>x\<bar> < 2 powi (- 1022) then of_int (rint (x / 2 powi (- 1074))) * 2 powi (- 1074)
      else (case exponent_of x of
              None \<Rightarrow> x
            | Some e \<Rightarrow> of_int (rint (x / 2 powi (e - 52))) * 2 powi (e - 52)))"

definition fadd :: "rat \<Rightarrow> rat \<Rightarrow> rat" where
  "fadd a b = float64 (a + b)"

definition fmul :: "rat \<Rightarrow> rat \<Rightarrow> rat" where
  "fmul a b = float64 (a * b)"

definition fdiv :: "rat \<Rightarrow> rat \<Rightarrow> rat" where
  "fdiv a b = float64 (a / b)"

subsection \<open>Mean and rounding of a column\<close>

text \<open>
  NumPy's sum of a contiguous float64 array (\<open>DOUBLE_pairwise_sum\<close>, behind
  \<open>ndarray.sum\<close>). Fewer than 8 values are added one after the other, starting from
  zero. Up to 128 values are added into 8 accumulators, the value at position \<open>i\<close>
  into accumulator \<open>i mod 8\<close>, for as many whole blocks of 8 as there are; the
  accumulators are then added pairwise, and the values after the last whole block
  are added to that one after the other. More than 128 values are split in two
  parts, the first of \<open>n div 2\<close> values rounded down to a multiple of 8, and the sums
  of the two parts are added.
\<close>

fun seq_sum :: "rat \<Rightarrow> rat list \<Rightarrow> rat" where
  "seq_sum res [] = res"
| "seq_sum res (a # as) = seq_sum (fadd res a) as"

fun add_blocks :: "rat list \<Rightarrow> rat list \<Rightarrow> rat list \<times> rat list" where
  "add_blocks r (a0 # a1 # a2 # a3 # a4 # a5 # a6 # a7 # rest) =
     add_blocks (map2 fadd r [a0, a1, a2, a3, a4, a5, a6, a7]) rest"
| "add_blocks r rest = (r, rest)"

fun combine8 :: "rat list \<Rightarrow> rat" where
  "combine8 [r0, r1, r2, r3, r4, r5, r6, r7] =
     fadd (fadd (fadd r0 r1) (fadd r2 r3)) (fadd (fadd r4 r5) (fadd r6 r7))"
| "combine8 r = 0"

function pairwise_sum :: "rat list \<Rightarrow> rat" where
  "pairwise_sum a =
     (if length a < 8 then seq_sum 0 a
      else if length a \<le> 128
      then seq_sum (combine8 (fst (add_blocks (take 8 a) (drop 8 a))))
                   (snd (add_blocks (take 8 a) (drop 8 a)))
      else fadd (pairwise_sum (take (length a div 2 - length a div 2 mod 8) a))
                (pairwise_sum (drop (length a div 2 - length a div 2 mod 8) a)))"
  by pat_completeness auto
termination
proof (relation "measure length")
  show "wf (measure length)" by simp
next
  fix a :: "rat list"
  assume "\<not> length a < 8" and big: "\<not> length a \<le> 128"
  from big have "length a div 2 - length a div 2 mod 8 < length a" by linarith
  then show "(take (length a div 2 - length a div 2 mod 8) a, a) \<in> measure length" by simp
next
  fix a :: "rat list"
  assume "\<not> length a < 8" and big: "\<not> length a \<le> 128"
  from big have "64 \<le> length a div 2" by linarith
  moreover have "length a div 2 mod 8 < 8" by simp
  ultimately have "0 < length a div 2 - length a div 2 mod 8" by linarith
  with big show "(drop (length a div 2 - length a div 2 mod 8) a, a) \<in> measure length" by simp
qed

fun nums_of :: "cell list \<Rightarrow> rat list" where
  "nums_of [] = []"
| "nums_of (Num x # cs) = x # nums_of cs"
| "nums_of (c # cs) = nums_of cs"

definition dropna :: "cell list \<Rightarrow> cell list" where
  "dropna col = filter (\<lambda>c. c \<noteq> Null) col"

text \<open>
  \<open>Series.mean()\<close> of a float64 column (\<open>pandas.core.nanops.nanmean\<close>): the nulls are
  replaced by zero, the column is summed by NumPy, and the sum is divided by the
  number of cells that are not null. (With the optional bottleneck package
  installed pandas adds the non-null values one after the other instead; below 8
  rows that is the same sum.) The caller asks for the mean only when \<open>dropna()\<close>
  leaves something, so the count is not zero.
\<close>

definition zero_filled :: "cell list \<Rightarrow> rat list" where
  "zero_filled col = map (\<lambda>c. case c of Num x \<Rightarrow> x | _ \<Rightarrow> 0) col"

definition mean :: "cell list \<Rightarrow> rat" where
  "mean col = fdiv (pairwise_sum (zero_filled col)) (of_nat (length (dropna col)))"

text \<open>
  \<open>round(avg_rate, 2)\<close> of a \<open>numpy.float64\<close>: NumPy multiplies by 100, rounds to the
  nearest integer with ties to the even one, and divides by 100, each step in
  float64.
\<close>

definition round2 :: "rat \<Rightarrow> rat" where
  "round2 x = fdiv (of_int (rint (fmul x 100))) 100"

subsection \<open>State map data for one year\<close>

definition in_year :: "int \<Rightarrow> cell \<Rightarrow> bool" where
  "in_year y c = (case c of Dt d \<Rightarrow> year_of d = y | _ \<Rightarrow> False)"

text \<open>economics_dashboard_3cols.py line 212.\<close>

definition filter_year :: "int \<Rightarrow> frame \<Rightarrow> error + frame" where
  "filter_year selected_year comparison_df =
     (case getitem comparison_df ''Date'' of
        Inl e \<Rightarrow> Inl e
      | Inr dates \<Rightarrow> Inr (loc (map (in_year selected_year) dates) comparison_df))"

text \<open>economics_dashboard_3cols.py lines 214-219.\<close>

fun state_map_data :: "frame \<Rightarrow> string list \<Rightarrow> (string \<times> rat) list" where
  "state_map_data df_year [] = []"
| "state_map_data df_year (state # rest) =
     (case map_of df_year state of
        None \<Rightarrow> state_map_data df_year rest
      | Some col \<Rightarrow>
          (if dropna col \<noteq> []
           then (state, round2 (mean col)) # state_map_data df_year rest
           else state_map_data df_year rest))"

definition project_for_year :: "frame \<Rightarrow> int \<Rightarrow> string list \<Rightarrow> error + (string \<times> rat) list" where
  "project_for_year comparison_df selected_year states_selected =
     (case filter_year selected_year comparison_df of
        Inl e \<Rightarrow> Inl e
      | Inr df_year \<Rightarrow> Inr (state_map_data df_year states_selected))"

section \<open>County data loader\<close>

definition LA_PARISH_FIPS :: "(string \<times> string) list" where
  "LA_PARISH_FIPS =
    [(''Acadia'', ''22001''), (''Allen'', ''22003''), (''Ascension'', ''22005''), (''Assumption'', ''22007''),
     (''Avoyelles'', ''22009''), (''Beauregard'', ''22011''), (''Bienville'', ''22013''), (''Bossier'', ''22015''),
     (''Caddo'', ''22017''), (''Calcasieu'', ''22019''), (''Caldwell'', ''22021''), (''Cameron'', ''22023''),
     (''Catahoula'', ''22025''), (''Claiborne'', ''22027''), (''Concordia'', ''22029''), (''De Soto'', ''22031''),
     (''East Baton Rouge'', ''22033''), (''East Carroll'', ''22035''), (''East Feliciana'', ''22037''), (''Evangeline'', ''22039''),
     (''Franklin'', ''22041''), (''Grant'', ''22043''), (''Iberia'', ''22045''), (''Iberville'', ''22047''),
     (''Jackson'', ''22049''), (''Jefferson'', ''22051''), (''Jefferson Davis'', ''22053''), (''Lafayette'', ''22055''),
     (''Lafourche'', ''22057''), (''LaSalle'', ''22059''), (''Lincoln'', ''22061''), (''Livingston'', ''22063''),
     (''Madison'', ''22065''), (''Morehouse'', ''22067''), (''Natchitoches'', ''22069''), (''Orleans'', ''22071''),
     (''Ouachita'', ''22073''), (''Plaquemines'', ''22075''), (''Pointe Coupee'', ''22077''), (''Rapides'', ''22079''),
     (''Red River'', ''22081''), (''Richland'', ''22083''), (''Sabine'', ''22085''), (''St. Bernard'', ''22087''),
     (''St. Charles'', ''22089''), (''St. Helena'', ''22091''), (''St. James'', ''22093''), (''St. John the Baptist'', ''22095''),
     (''St. Landry'', ''22097''), (''St. Martin'', ''22099''), (''St. Mary'', ''22101''), (''St. Tammany'', ''22103''),
     (''Tangipahoa'', ''22105''), (''Tensas'', ''22107''), (''Terrebonne'', ''22109''), (''Union'', ''22111''),
     (''Vermilion'', ''22113''), (''Vernon'', ''22115''), (''Washington'', ''22117''), (''Webster'', ''22119''),
     (''West Baton Rouge'', ''22121''), (''West Carroll'', ''22123''), (''West Feliciana'', ''22125''), (''Winn'', ''22127'')]"

text \<open>
  Python's \<open>str.strip()\<close> removes the whitespace at both ends. The ASCII whitespace
  characters are modelled; a string is a list of bytes here, and whitespace beyond
  ASCII is outside the model.
\<close>

definition is_space :: "char \<Rightarrow> bool" where
  "is_space c = (c \<in> set [CHR 0x09, CHR 0x0A, CHR 0x0B, CHR 0x0C, CHR 0x0D,
                            CHR 0x1C, CHR 0x1D, CHR 0x1E, CHR 0x1F, CHR 0x20])"

definition str_strip :: "string \<Rightarrow> string" where
  "str_strip s = rev (dropWhile is_space (rev (dropWhile is_space s)))"

definition strip_cell :: "cell \<Rightarrow> cell" where
  "strip_cell c = (case c of Str s \<Rightarrow> Str (str_strip s) | _ \<Rightarrow> Null)"

definition is_text :: "cell \<Rightarrow> bool" where
  "is_text c = (case c of Str s \<Rightarrow> True | _ \<Rightarrow> False)"

text \<open>
  \<open>col.str.strip()\<close>. The \<open>.str\<close> accessor raises AttributeError on a column that is
  not text: \<open>read_csv\<close> types a column with rows and without any text cell as numeric.
  In a text column, a cell that is not a string comes out null.
\<close>

definition str_strip_col :: "cell list \<Rightarrow> error + cell list" where
  "str_strip_col col =
     (if col \<noteq> [] \<and> \<not> list_ex is_text col then Inl AttributeError
      else Inr (map strip_cell col))"

text \<open>
  The pandas parsers are outside the repository and are parameters: \<open>parse_date\<close> is
  what \<open>pd.to_datetime(col, errors='coerce', infer_datetime_format=True)\<close> makes of one
  non-null cell of the column \<open>col\<close> (the format it infers may depend on the whole
  column), \<open>parse_num\<close> what \<open>pd.to_numeric(errors='coerce')\<close> makes of a string.
  \<open>None\<close> is a value that cannot be parsed.
\<close>

type_synonym date_parser = "cell list \<Rightarrow> cell \<Rightarrow> date option"
type_synonym num_parser = "string \<Rightarrow> rat option"

definition to_datetime :: "date_parser \<Rightarrow> cell list \<Rightarrow> cell list" where
  "to_datetime parse_date col =
     map (\<lambda>c. case c of
                 Null \<Rightarrow> Null
               | _ \<Rightarrow> (case parse_date col c of None \<Rightarrow> Null | Some d \<Rightarrow> Dt d)) col"

definition to_numeric :: "num_parser \<Rightarrow> cell list \<Rightarrow> cell list" where
  "to_numeric parse_num col =
     map (\<lambda>c. case c of
                 Num x \<Rightarrow> Num x
               | Str s \<Rightarrow> (case parse_num s of None \<Rightarrow> Null | Some x \<Rightarrow> Num x)
               | _ \<Rightarrow> Null) col"

text \<open>\<open>col.dt.year\<close>: null where the date is null.\<close>

definition dt_year :: "cell list \<Rightarrow> cell list" where
  "dt_year col = map (\<lambda>c. case c of Dt d \<Rightarrow> Num (of_int (year_of d)) | _ \<Rightarrow> Null) col"

text \<open>\<open>col.map(LA_PARISH_FIPS)\<close>: an exact lookup, null on a miss.\<close>

definition fips_cell :: "cell \<Rightarrow> cell" where
  "fips_cell c =
     (case c of
        Str s \<Rightarrow> (case map_of LA_PARISH_FIPS s of None \<Rightarrow> Null | Some code \<Rightarrow> Str code)
      | _ \<Rightarrow> Null)"

text \<open>
  Lines 224-234 (3cols: 299-309): the year comes from the Date column when the file
  has one, else from the year column. \<open>Inl\<close> is the branch that reports and returns
  an empty frame.
\<close>

definition derive_year :: "date_parser \<Rightarrow> num_parser \<Rightarrow> frame \<Rightarrow> report + frame" where
  "derive_year parse_date parse_num df =
     (case map_of df ''Date'' of
        Some dates \<Rightarrow>
          (if list_all (\<lambda>c. c = Null) (to_datetime parse_date dates) then Inl NoDateParsed
           else Inr (setitem (setitem df ''Date'' (to_datetime parse_date dates))
                       ''year'' (dt_year (to_datetime parse_date dates))))
      | None \<Rightarrow>
          (case map_of df ''year'' of
             Some years \<Rightarrow> Inr (setitem df ''year'' (to_numeric parse_num years))
           | None \<Rightarrow> Inl NoDateOrYearColumn))"

text \<open>Lines 304-305 (3cols: 330-331): the code column, then the rows without a code go.\<close>

definition add_fips :: "frame \<Rightarrow> error + frame" where
  "add_fips df =
     (case getitem df ''Parish'' of
        Inl e \<Rightarrow> Inl e
      | Inr parish \<Rightarrow>
          Inr (loc (map (\<lambda>c. fips_cell c \<noteq> Null) parish)
                 (setitem df ''fips'' (map fips_cell parish))))"

text \<open>\<open>df.columns = df.columns.str.strip()\<close>.\<close>

definition strip_columns :: "frame \<Rightarrow> frame" where
  "strip_columns df = map (\<lambda>(n, vs). (str_strip n, vs)) df"

text \<open>
  \<open>load_county_data\<close>, the same function in both dashboards. The file read is outside
  the repository: \<open>csv\<close> is the frame \<open>pd.read_csv\<close> returns, \<open>None\<close> when it raises. The
  result is the frame and the messages shown; the one exception that can leave the
  function is the \<open>.str\<close> accessor's. (\<open>read_csv\<close> gives distinct column names; names
  that collide after stripping are outside the model.)
\<close>

definition load_county_data ::
    "date_parser \<Rightarrow> num_parser \<Rightarrow> frame option \<Rightarrow> error + (frame \<times> report list)" where
  "load_county_data parse_date parse_num csv =
     (case csv of
        None \<Rightarrow> Inr (DataFrame, [LoadFailed])
      | Some raw \<Rightarrow>
          (case map_of (strip_columns raw) ''Parish'' of
             None \<Rightarrow> Inr (DataFrame, [NoParishColumn])
           | Some parish \<Rightarrow>
               (case str_strip_col parish of
                  Inl e \<Rightarrow> Inl e
                | Inr stripped \<Rightarrow>
                    (case derive_year parse_date parse_num
                            (rename ''Unemployment rate'' ''Unemployment Rate''
                               (setitem (strip_columns raw) ''Parish'' stripped)) of
                       Inl r \<Rightarrow> Inr (DataFrame, [r])
                     | Inr df \<Rightarrow>
                         (case add_fips df of
                            Inl e \<Rightarrow> Inl e
                          | Inr county_df \<Rightarrow> Inr (county_df, []))))))"

section \<open>County view of the three-column dashboard\<close>

text \<open>
  economics_dashboard_3cols.py lines 351-358: the parish widget. Its options are
  \<open>"Select All Parishes"\<close> and the sorted distinct names of the Parish column; its
  default is a fixed list of five parishes.
\<close>

definition default_parishes :: "string list" where
  "default_parishes =
     [''St. Tammany'', ''Tangipahoa'', ''Livingston'', ''Washington'', ''St. Helena'']"

text \<open>
  The names of a Parish column. Every cell of the Parish column of a loaded frame is
  a name, since a row without a name has no code and is dropped; \<open>sorted\<close> raises
  TypeError when it compares a name with a cell that is not text.
\<close>

fun names_of :: "cell list \<Rightarrow> error + string list" where
  "names_of [] = Inr []"
| "names_of (Str s # cs) = (case names_of cs of Inl e \<Rightarrow> Inl e | Inr names \<Rightarrow> Inr (s # names))"
| "names_of (c # cs) = Inl TypeError"

text \<open>
  Streamlit's \<open>multiselect(label, options, default)\<close> is outside the repository. When
  the widget is created Streamlit raises StreamlitAPIException unless every default
  value is one of the options. The call returns the user's selection, or the default
  when the user made none; the selection is an input of the model.
\<close>

definition multiselect ::
    "string list \<Rightarrow> string list \<Rightarrow> string list option \<Rightarrow> error + string list" where
  "multiselect opts defaults picked =
     (if list_all (\<lambda>d. d \<in> set opts) defaults
      then Inr (case picked of None \<Rightarrow> defaults | Some p \<Rightarrow> p)
      else Inl StreamlitAPIException)"

text \<open>economics_dashboard_3cols.py lines 365-366: the Date column is read without a guard.\<close>

definition county_date_range :: "frame \<Rightarrow> error + (cell \<times> cell)" where
  "county_date_range county_df =
     (case getitem county_df ''Date'' of
        Inl e \<Rightarrow> Inl e
      | Inr dates \<Rightarrow> Inr (series_min dates, series_max dates))"

text \<open>
  Lines 337-466. An empty frame shows the error state. Otherwise the sidebar comes
  first, in statement order: the metric selectbox (it offers four fixed options and
  cannot fail), the parish widget, the selected parishes, and the date range. Only
  then come the date widgets, the time-series chart, the year slider and the map:
  that rest is the parameter \<open>render\<close>, whatever it does with the selected parishes,
  the date range and the frame.
\<close>

datatype 'v county_page = CouldNotLoad | Rendered 'v

definition county_view ::
    "(string list \<Rightarrow> (cell \<times> cell) \<Rightarrow> frame \<Rightarrow> error + 'v) \<Rightarrow> string list option \<Rightarrow> frame \<Rightarrow>
     error + 'v county_page" where
  "county_view render picked county_df =
     (if is_empty county_df then Inr CouldNotLoad
      else (case getitem county_df ''Parish'' of
              Inl e \<Rightarrow> Inl e
            | Inr col \<Rightarrow>
                (case names_of col of
                   Inl e \<Rightarrow> Inl e
                 | Inr names \<Rightarrow>
                     (let parishes = sort (remdups names);
                          county_options = ''Select All Parishes'' # parishes
                      in case multiselect county_options default_parishes picked of
                           Inl e \<Rightarrow> Inl e
                         | Inr selected_county_options \<Rightarrow>
                             (let selected_parishes =
                                    (if ''Select All Parishes'' \<in> set selected_county_options
                                     then parishes else selected_county_options)
                              in case county_date_range county_df of
                                   Inl e \<Rightarrow> Inl e
                                 | Inr bounds \<Rightarrow>
                                     (case render selected_parishes bounds county_df of
                                        Inl e \<Rightarrow> Inl e
                                      | Inr v \<Rightarrow> Inr (Rendered v)))))))"

section \<open>Sample inputs\<close>

text \<open>
  The scenario of the specification: a national series with two monthly observations,
  a Texas series with the first of them only, and every other series unavailable.
\<close>

definition fred_sample :: api where
  "fred_sample sid =
     (if sid = ''UNRATE'' then Some [(Date 2020 1 1, Some 5), (Date 2020 2 1, Some (26 / 5))]
      else if sid = ''TXUR'' then Some [(Date 2020 1 1, Some 4)]
      else None)"

lemma map_of_Texas: "map_of STATE_SERIES_IDS ''Texas'' = Some ''TXUR''"
  by (simp add: STATE_SERIES_IDS_def)

lemma map_of_California: "map_of STATE_SERIES_IDS ''California'' = Some ''CAUR''"
  by (simp add: STATE_SERIES_IDS_def)

section \<open>Frames: selection and merge\<close>

lemma select_map_self: "select (map P xs) xs = filter P xs"
  by (induction xs) (auto simp: select_def)

lemma getitem_loc:
  "getitem df name = Inr vs \<Longrightarrow> getitem (loc keep df) name = Inr (select keep vs)"
  by (induction df) (auto simp: getitem_def loc_def split: option.splits if_splits)

lemma getitem_map_cols:
  "getitem (map (\<lambda>(n, vs). (n, f vs)) df @ more) name =
     (case map_of df name of Some vs \<Rightarrow> Inr (f vs) | None \<Rightarrow> getitem more name)"
  by (induction df) (auto simp: getitem_def split: option.splits)

text \<open>A right frame with distinct keys matches every left row at most once.\<close>

lemma matches_le_one:
  assumes "distinct rk"
  shows "length (matches rk k) \<le> 1"
proof -
  have d: "distinct (matches rk k)" by (simp add: matches_def)
  have "\<And>a b. a \<in> set (matches rk k) \<Longrightarrow> b \<in> set (matches rk k) \<Longrightarrow> a = b"
    using assms by (auto simp: matches_def nth_eq_iff_index_eq)
  then have "card (set (matches rk k)) \<le> 1"
    by (metis card_le_Suc0_iff_eq List.finite_set One_nat_def)
  then show ?thesis using d by (simp add: distinct_card)
qed

lemma join_index_fst:
  assumes "distinct rk"
  shows "map fst (join_index lk rk) = [0..<length lk]"
proof -
  have blk: "\<And>i. map fst (case matches rk (lk ! i) of [] \<Rightarrow> [(i, None)]
                 | j # js \<Rightarrow> map (\<lambda>j'. (i, Some j')) (j # js)) = [i]"
  proof -
    fix i
    from matches_le_one[OF assms, of "lk ! i"]
    show "map fst (case matches rk (lk ! i) of [] \<Rightarrow> [(i, None)]
                 | j # js \<Rightarrow> map (\<lambda>j'. (i, Some j')) (j # js)) = [i]"
      by (cases "matches rk (lk ! i)") auto
  qed
  have "map fst (join_index lk rk) = concat (map (\<lambda>i. [i]) [0..<length lk])"
    unfolding join_index_def map_concat map_map comp_def blk ..
  also have "\<dots> = [0..<length lk]" by simp
  finally show ?thesis .
qed

lemma take_left_distinct:
  assumes "distinct rk"
  shows "take_left (join_index lk rk) lk = lk"
proof -
  have "take_left (join_index lk rk) lk = map (\<lambda>i. lk ! i) (map fst (join_index lk rk))"
    by (simp add: take_left_def case_prod_beta comp_def)
  then show ?thesis by (simp add: join_index_fst[OF assms] map_nth)
qed

lemma merge_left_keeps_dates:
  assumes l: "getitem left ''Date'' = Inr lk"
    and r: "getitem right ''Date'' = Inr rk"
    and d: "distinct rk"
  shows "\<exists>merged. merge_left ''Date'' left right = Inr merged \<and> getitem merged ''Date'' = Inr lk"
proof -
  from l have m: "map_of left ''Date'' = Some lk"
    by (auto simp: getitem_def split: option.splits)
  show ?thesis
    unfolding merge_left_def l r
    by (simp add: getitem_map_cols m take_left_distinct[OF d])
qed

section \<open>The comparison table keeps the national dates\<close>

lemma get_series_dates:
  "fred sid = Some obs \<Longrightarrow>
   getitem (rename ''Unemployment Rate'' state (fst (get_series fred sid))) ''Date''
     = Inr (map Dt (map fst obs))"
  by (simp add: get_series_def rename_def getitem_def comp_def)

lemma get_series_empty_None: "fred sid = None \<Longrightarrow> is_empty (fst (get_series fred sid))"
  by (simp add: get_series_def is_empty_def DataFrame_def)

lemma distinct_map_Dt: "distinct (map Dt ds) = distinct ds"
  by (simp add: distinct_map inj_on_def)

lemma merge_states_keeps_dates:
  assumes "getitem df ''Date'' = Inr lk"
    and "\<forall>state \<in> set states. state \<in> fst ` set STATE_SERIES_IDS"
    and "\<forall>state \<in> set states. \<forall>sid obs. map_of STATE_SERIES_IDS state = Some sid \<longrightarrow>
            fred sid = Some obs \<longrightarrow> distinct (map fst obs)"
  shows "\<exists>out. merge_states fred states df = Inr out \<and> getitem out ''Date'' = Inr lk"
  using assms
proof (induction states arbitrary: df)
  case Nil
  then show ?case by simp
next
  case (Cons state rest)
  from Cons.prems(2) obtain sid where sid: "map_of STATE_SERIES_IDS state = Some sid"
    by (metis list.set_intros(1) weak_map_of_SomeI image_iff prod.collapse map_of_eq_None_iff not_Some_eq)
  show ?case
  proof (cases "is_empty (fst (get_series fred sid))")
    case True
    then show ?thesis using Cons sid by simp
  next
    case False
    then obtain obs where obs: "fred sid = Some obs"
      using get_series_empty_None by (cases "fred sid") auto
    with Cons.prems(3) sid have "distinct (map fst obs)" by simp
    then have dd: "distinct (map Dt (map fst obs))" by (simp only: distinct_map_Dt)
    have rd: "getitem (rename ''Unemployment Rate'' state (fst (get_series fred sid))) ''Date''
        = Inr (map Dt (map fst obs))"
      using get_series_dates[of fred sid obs state] obs by simp
    from merge_left_keeps_dates[OF Cons.prems(1) rd dd]
    obtain merged where mg: "merge_left ''Date'' df
        (rename ''Unemployment Rate'' state (fst (get_series fred sid))) = Inr merged"
      and md: "getitem merged ''Date'' = Inr lk" by blast
    from Cons.IH[OF md] Cons.prems(2,3)
    obtain out where "merge_states fred rest merged = Inr out" "getitem out ''Date'' = Inr lk"
      by auto
    then show ?thesis using sid False mg by simp
  qed
qed

lemma filter_in_window_Dt:
  "filter (in_window s e) (map Dt ds) = map Dt (filter (\<lambda>d. s \<le> d \<and> d \<le> e) ds)"
  by (induction ds) (auto simp: in_window_def)

lemma national_frame:
  "fred ''UNRATE'' = Some us_obs \<Longrightarrow>
   getitems (national fred) [''Date'', ''United States''] =
     Inr [(''Date'', map (\<lambda>ob. Dt (fst ob)) us_obs),
          (''United States'', map (\<lambda>ob. num_cell (snd ob)) us_obs)]"
  by (simp add: national_def get_series_def rename_def getitem_def)

text \<open>
  Claim C1. When the national series is fetched, the selected regions are options of
  the state selector, and every fetched region series has distinct dates (the data
  model's invariant of an observation series), the assembly succeeds for every
  selection, and after the window filter the table's Date column is exactly the
  national series' dates that lie in the window, in the national order: the left
  joins neither drop nor add a row. A failed or empty region series is skipped and
  does not change the rows either.
\<close>

theorem comparison_dates_are_national_dates:
  assumes "fred ''UNRATE'' = Some us_obs"
    and "\<forall>state \<in> set states_selected. state \<in> fst ` set STATE_SERIES_IDS"
    and "\<forall>state \<in> set states_selected. \<forall>sid obs. map_of STATE_SERIES_IDS state = Some sid \<longrightarrow>
            fred sid = Some obs \<longrightarrow> distinct (map fst obs)"
  shows "\<exists>comparison_df filtered.
           build_comparison fred states_selected = Inr comparison_df \<and>
           filter_window start_date end_date comparison_df = Inr filtered \<and>
           getitem filtered ''Date'' =
             Inr (map Dt (filter (\<lambda>d. start_date \<le> d \<and> d \<le> end_date) (map fst us_obs)))"
proof -
  let ?base = "[(''Date'', map (\<lambda>ob. Dt (fst ob)) us_obs),
                (''United States'', map (\<lambda>ob. num_cell (snd ob)) us_obs)]"
  let ?dates = "map Dt (map fst us_obs)"
  have b: "getitem ?base ''Date'' = Inr ?dates"
    by (simp add: getitem_def comp_def)
  from merge_states_keeps_dates[OF b assms(2,3)]
  obtain out where o: "merge_states fred states_selected ?base = Inr out"
    and od: "getitem out ''Date'' = Inr ?dates" by blast
  have bc: "build_comparison fred states_selected = Inr out"
    using national_frame[of fred us_obs] assms(1) by (simp add: build_comparison_def o)
  have fw: "filter_window start_date end_date out =
      Inr (loc (map (in_window start_date end_date) ?dates) out)"
    by (simp add: filter_window_def od)
  have "select (map (in_window start_date end_date) ?dates) ?dates
      = map Dt (filter (\<lambda>d. start_date \<le> d \<and> d \<le> end_date) (map fst us_obs))"
    by (simp only: select_map_self filter_in_window_Dt)
  with getitem_loc[OF od]
  have "getitem (loc (map (in_window start_date end_date) ?dates) out) ''Date''
      = Inr (map Dt (filter (\<lambda>d. start_date \<le> d \<and> d \<le> end_date) (map fst us_obs)))"
    by simp
  with bc fw show ?thesis by blast
qed

theorem comparison_dates_witness:
  "\<exists>comparison_df filtered.
     build_comparison fred_sample [''Texas'', ''California''] = Inr comparison_df \<and>
     filter_window (Date 2020 1 15) (Date 2020 12 31) comparison_df = Inr filtered \<and>
     getitem filtered ''Date'' = Inr [Dt (Date 2020 2 1)]"
proof -
  have u: "fred_sample ''UNRATE'' = Some [(Date 2020 1 1, Some 5), (Date 2020 2 1, Some (26 / 5))]"
    by (simp add: fred_sample_def)
  have k: "\<forall>state \<in> set [''Texas'', ''California'']. state \<in> fst ` set STATE_SERIES_IDS"
    using map_of_Texas map_of_California by (auto dest!: map_of_SomeD intro: rev_image_eqI)
  have d: "\<forall>state \<in> set [''Texas'', ''California'']. \<forall>sid obs.
             map_of STATE_SERIES_IDS state = Some sid \<longrightarrow>
             fred_sample sid = Some obs \<longrightarrow> distinct (map fst obs)"
    by (auto simp: map_of_Texas map_of_California fred_sample_def split: if_splits)
  show ?thesis
    using comparison_dates_are_national_dates [OF u k d, of "Date 2020 1 15" "Date 2020 12 31"]
    by (simp add: less_eq_date_def)
qed

text \<open>The scenario of the specification: the region's missing month is a null.\<close>

lemma scenario_table:
  "build_comparison fred_sample [''Texas''] =
     Inr [(''Date'', [Dt (Date 2020 1 1), Dt (Date 2020 2 1)]),
          (''United States'', [Num 5, Num (26 / 5)]),
          (''Texas'', [Num 4, Null])]"
  by (simp add: build_comparison_def national_def get_series_def fred_sample_def rename_def
        getitem_def map_of_Texas is_empty_def nrows_def DataFrame_def
        merge_left_def join_index_def matches_def take_left_def take_right_def num_cell_def)

text \<open>
  The invariant of distinct dates is needed: a region series that repeats a date
  makes the left join repeat the national row, once per match.
\<close>

definition fred_repeated :: api where
  "fred_repeated sid =
     (if sid = ''UNRATE'' then Some [(Date 2020 1 1, Some 5)]
      else if sid = ''TXUR'' then Some [(Date 2020 1 1, Some 4), (Date 2020 1 1, Some 6)]
      else None)"

lemma repeated_date_repeats_row:
  "build_comparison fred_repeated [''Texas''] =
     Inr [(''Date'', [Dt (Date 2020 1 1), Dt (Date 2020 1 1)]),
          (''United States'', [Num 5, Num 5]),
          (''Texas'', [Num 4, Num 6])]"
  by (simp add: build_comparison_def national_def get_series_def fred_repeated_def rename_def
        getitem_def map_of_Texas is_empty_def nrows_def DataFrame_def
        merge_left_def join_index_def matches_def take_left_def take_right_def num_cell_def)

section \<open>What a fetch returns\<close>

text \<open>
  Claim C6, amended. A successful retrieval gives the frame with exactly the columns
  Date and Unemployment Rate, holding the API's observations in the API's order
  (the function neither parses nor sorts), and reports nothing. A failed retrieval
  gives \<open>pd.DataFrame()\<close>: an empty frame with no column at all, whose Date column
  cannot be read, and reports the failure. Either way the function returns.
\<close>

theorem get_series_result:
  "(case fred series_id of
      Some data \<Rightarrow>
        columns (fst (get_series fred series_id)) = [''Date'', ''Unemployment Rate''] \<and>
        getitem (fst (get_series fred series_id)) ''Date'' = Inr (map Dt (map fst data)) \<and>
        getitem (fst (get_series fred series_id)) ''Unemployment Rate'' =
          Inr (map num_cell (map snd data)) \<and>
        snd (get_series fred series_id) = []
    | None \<Rightarrow>
        columns (fst (get_series fred series_id)) = [] \<and>
        is_empty (fst (get_series fred series_id)) \<and>
        getitem (fst (get_series fred series_id)) ''Date'' = Inl (KeyError ''Date'') \<and>
        snd (get_series fred series_id) = [FetchFailed series_id])"
  by (simp add: get_series_def columns_def getitem_def is_empty_def DataFrame_def comp_def
           split: option.splits)

text \<open>The claim as stated fails on a failed retrieval: the frame returned has no column.\<close>

theorem get_series_failed_has_no_columns:
  "fred_sample ''CAUR'' = None \<and>
   columns (fst (get_series fred_sample ''CAUR'')) \<noteq> [''Date'', ''Unemployment Rate''] \<and>
   length (columns (fst (get_series fred_sample ''CAUR''))) = 0"
  by (simp add: fred_sample_def get_series_def columns_def DataFrame_def)

section \<open>A failed region fetch\<close>

text \<open>
  Claim C2, evaluated where the California series cannot be fetched. The failure is
  reported and the assembly loop completes, but it adds no California column. In
  economics_dashboard.py the pass then ends at line 69, where the Date column of the
  failed frame is read; in economics_dashboard_3cols.py it ends in the chart loop,
  at line 172, where the missing California column is read.
\<close>

theorem failed_fetch_aborts_the_pass:
  "get_series fred_sample ''CAUR'' = (DataFrame, [FetchFailed ''CAUR'']) \<and>
   build_comparison fred_sample [''California''] =
     Inr [(''Date'', [Dt (Date 2020 1 1), Dt (Date 2020 2 1)]), (''United States'', [Num 5, Num (26 / 5)])] \<and>
   state_level fred_sample [''California''] None None = Inl (KeyError ''Date'') \<and>
   state_level_3cols fred_sample [''California''] None None = Inl (KeyError ''California'')"
proof -
  have g: "get_series fred_sample ''CAUR'' = (DataFrame, [FetchFailed ''CAUR''])"
    by (simp add: get_series_def fred_sample_def)
  have n: "national fred_sample =
     [(''Date'', [Dt (Date 2020 1 1), Dt (Date 2020 2 1)]), (''United States'', [Num 5, Num (26 / 5)])]"
    by (simp add: national_def get_series_def fred_sample_def rename_def num_cell_def)
  have b: "build_comparison fred_sample [''California''] =
     Inr [(''Date'', [Dt (Date 2020 1 1), Dt (Date 2020 2 1)]), (''United States'', [Num 5, Num (26 / 5)])]"
    by (simp add: build_comparison_def n getitem_def map_of_California g is_empty_def DataFrame_def)
  have c: "common_range fred_sample [''California''] = Inl (KeyError ''Date'')"
    by (simp add: common_range_def n getitem_def map_of_California g DataFrame_def)
  have s: "state_level fred_sample [''California''] None None = Inl (KeyError ''Date'')"
    by (simp add: state_level_def b c)
  have w: "window_3cols fred_sample [''California''] None None = Inr None"
    by (simp add: window_3cols_def common_range_3cols_def map_of_California g is_empty_def DataFrame_def)
  have t: "state_level_3cols fred_sample [''California''] None None = Inl (KeyError ''California'')"
    by (simp add: state_level_3cols_def w b filter_window_3cols_def line_chart_def getitem_def)
  from g b s t show ?thesis by simp
qed

section \<open>The date window\<close>

text \<open>
  A date lies within the available range of a series when the series has an
  observation at or before it and one at or after it.
\<close>

definition series_covers :: "observations \<Rightarrow> date \<Rightarrow> bool" where
  "series_covers obs d = (list_ex (\<lambda>a. a \<le> d) (map fst obs) \<and> list_ex (\<lambda>b. d \<le> b) (map fst obs))"

text \<open>What the user's pick and the widget's default make of a date widget's value.\<close>

definition picked_or :: "date option \<Rightarrow> date \<Rightarrow> date" where
  "picked_or picked val = (case picked of None \<Rightarrow> val | Some p \<Rightarrow> p)"

lemma dates_of_map_Dt: "dates_of (map Dt ds) = ds"
  by (induction ds) auto

lemma dates_of_map_comp: "dates_of (map (Dt \<circ> f) xs) = map f xs"
  by (induction xs) auto

lemma fold_min_in: "fold min ds (d::date) \<in> set (d # ds)"
proof (induction ds arbitrary: d)
  case Nil
  then show ?case by simp
next
  case (Cons a ds)
  from Cons.IH[of "min a d"] show ?case by (auto simp: min_def split: if_splits)
qed

lemma fold_max_in: "fold max ds (d::date) \<in> set (d # ds)"
proof (induction ds arbitrary: d)
  case Nil
  then show ?case by simp
next
  case (Cons a ds)
  from Cons.IH[of "max a d"] show ?case by (auto simp: max_def split: if_splits)
qed

lemma fold_min_le: "x \<in> set (d # ds) \<Longrightarrow> fold min ds (d::date) \<le> x"
proof (induction ds arbitrary: d x)
  case Nil
  then show ?case by simp
next
  case (Cons a ds)
  have m: "fold min ds (min a d) \<le> min a d" using Cons.IH[of "min a d" "min a d"] by simp
  from Cons.prems consider "x = d" | "x = a" | "x \<in> set ds" by auto
  then show ?case
  proof cases
    case 1
    with m show ?thesis by (simp add: min_le_iff_disj)
  next
    case 2
    with m show ?thesis by (simp add: min_le_iff_disj)
  next
    case 3
    with Cons.IH[of x "min a d"] show ?thesis by simp
  qed
qed

lemma fold_max_ge: "x \<in> set (d # ds) \<Longrightarrow> x \<le> fold max ds (d::date)"
proof (induction ds arbitrary: d x)
  case Nil
  then show ?case by simp
next
  case (Cons a ds)
  have m: "max a d \<le> fold max ds (max a d)" using Cons.IH[of "max a d" "max a d"] by simp
  from Cons.prems consider "x = d" | "x = a" | "x \<in> set ds" by auto
  then show ?case
  proof cases
    case 1
    with m show ?thesis by (simp add: le_max_iff_disj)
  next
    case 2
    with m show ?thesis by (simp add: le_max_iff_disj)
  next
    case 3
    with Cons.IH[of x "max a d"] show ?thesis by simp
  qed
qed

lemma series_min_Dt:
  "series_min col = Dt m \<Longrightarrow> m \<in> set (dates_of col) \<and> (\<forall>x \<in> set (dates_of col). m \<le> x)"
  using fold_min_in fold_min_le by (cases "dates_of col") (auto simp: series_min_def)

lemma series_max_Dt:
  "series_max col = Dt m \<Longrightarrow> m \<in> set (dates_of col) \<and> (\<forall>x \<in> set (dates_of col). x \<le> m)"
  using fold_max_in fold_max_ge by (cases "dates_of col") (auto simp: series_max_def)

lemma series_covers_iff:
  assumes "series_min (map Dt (map fst obs)) = Dt m" and "series_max (map Dt (map fst obs)) = Dt M"
  shows "series_covers obs d = (m \<le> d \<and> d \<le> M)"
proof -
  from series_min_Dt[OF assms(1)] have m: "m \<in> fst ` set obs" "\<forall>x \<in> fst ` set obs. m \<le> x"
    by (simp_all add: dates_of_map_comp)
  from series_max_Dt[OF assms(2)] have M: "M \<in> fst ` set obs" "\<forall>x \<in> fst ` set obs. x \<le> M"
    by (simp_all add: dates_of_map_comp)
  show ?thesis
  proof
    assume "series_covers obs d"
    then obtain a b where "a \<in> fst ` set obs" "a \<le> d" "b \<in> fst ` set obs" "d \<le> b"
      unfolding series_covers_def list_ex_iff by auto
    with m(2) M(2) show "m \<le> d \<and> d \<le> M" by (meson order_trans)
  next
    assume "m \<le> d \<and> d \<le> M"
    with m(1) M(1) show "series_covers obs d"
      unfolding series_covers_def list_ex_iff by auto
  qed
qed

lemma series_min_max_empty: "series_min (map Dt (map fst obs)) = Dt m \<Longrightarrow> obs \<noteq> []"
  by (auto simp: series_min_def)

lemma series_max_of_min:
  "series_min col = Dt m \<Longrightarrow> \<exists>M. series_max col = Dt M"
  by (cases "dates_of col") (auto simp: series_min_def series_max_def)

lemma py_max_Dt:
  "py_max x xs = Inr (Dt lo) \<Longrightarrow>
   (\<forall>c \<in> set (x # xs). \<exists>d. c = Dt d \<and> d \<le> lo) \<and> Dt lo \<in> set (x # xs)"
proof (induction xs arbitrary: x)
  case Nil
  then show ?case by simp
next
  case (Cons y ys)
  from Cons.prems obtain g where g: "cell_gt y x = Inr g"
    and r: "py_max (if g then y else x) ys = Inr (Dt lo)"
    by (auto split: sum.splits)
  from Cons.IH[OF r] have ih: "\<forall>c \<in> set ((if g then y else x) # ys). \<exists>d. c = Dt d \<and> d \<le> lo"
    "Dt lo \<in> set ((if g then y else x) # ys)" by simp_all
  from ih(1) obtain k where k: "(if g then y else x) = Dt k" "k \<le> lo" by auto
  from g k obtain a b where ab: "x = Dt a" "y = Dt b" "g = (a < b)"
    by (cases x; cases y) (auto simp: cell_gt_def split: if_splits)
  from ab k have "a \<le> lo" "b \<le> lo" by (auto split: if_splits)
  with ab ih show ?case by (auto split: if_splits)
qed

lemma py_min_Dt:
  "py_min x xs = Inr (Dt hi) \<Longrightarrow>
   (\<forall>c \<in> set (x # xs). \<exists>d. c = Dt d \<and> hi \<le> d) \<and> Dt hi \<in> set (x # xs)"
proof (induction xs arbitrary: x)
  case Nil
  then show ?case by simp
next
  case (Cons y ys)
  from Cons.prems obtain g where g: "cell_lt y x = Inr g"
    and r: "py_min (if g then y else x) ys = Inr (Dt hi)"
    by (auto split: sum.splits)
  from Cons.IH[OF r] have ih: "\<forall>c \<in> set ((if g then y else x) # ys). \<exists>d. c = Dt d \<and> hi \<le> d"
    "Dt hi \<in> set ((if g then y else x) # ys)" by simp_all
  from ih(1) obtain k where k: "(if g then y else x) = Dt k" "hi \<le> k" by auto
  from g k obtain a b where ab: "x = Dt a" "y = Dt b" "g = (b < a)"
    by (cases x; cases y) (auto simp: cell_lt_def split: if_splits)
  from ab k have "hi \<le> a" "hi \<le> b" by (auto split: if_splits)
  with ab ih show ?case by (auto split: if_splits)
qed

text \<open>
  The range the two folds compute is the intersection of the ranges of the columns:
  every column has a date, and a date lies within the range exactly when every
  column has a date at or before it and one at or after it.
\<close>

lemma range_is_intersection:
  assumes lo: "py_max (series_min c) (map series_min cs) = Inr (Dt lo)"
    and hi: "py_min (series_max c) (map series_max cs) = Inr (Dt hi)"
  shows "(lo \<le> d \<and> d \<le> hi) =
         (\<forall>col \<in> set (c # cs). (\<exists>a \<in> set (dates_of col). a \<le> d) \<and> (\<exists>b \<in> set (dates_of col). d \<le> b))"
    and "\<forall>col \<in> set (c # cs). dates_of col \<noteq> []"
proof -
  from py_max_Dt[OF lo] have L: "\<forall>col \<in> set (c # cs). \<exists>m. series_min col = Dt m \<and> m \<le> lo"
    and L0: "\<exists>col \<in> set (c # cs). series_min col = Dt lo" by (auto simp: image_iff)
  from py_min_Dt[OF hi] have H: "\<forall>col \<in> set (c # cs). \<exists>m. series_max col = Dt m \<and> hi \<le> m"
    and H0: "\<exists>col \<in> set (c # cs). series_max col = Dt hi" by (auto simp: image_iff)
  show "\<forall>col \<in> set (c # cs). dates_of col \<noteq> []"
  proof
    fix col assume "col \<in> set (c # cs)"
    with L obtain m where "series_min col = Dt m" by blast
    then show "dates_of col \<noteq> []" by (auto simp: series_min_def)
  qed
  show "(lo \<le> d \<and> d \<le> hi) =
         (\<forall>col \<in> set (c # cs). (\<exists>a \<in> set (dates_of col). a \<le> d) \<and> (\<exists>b \<in> set (dates_of col). d \<le> b))"
  proof
    assume in_range: "lo \<le> d \<and> d \<le> hi"
    show "\<forall>col \<in> set (c # cs). (\<exists>a \<in> set (dates_of col). a \<le> d) \<and> (\<exists>b \<in> set (dates_of col). d \<le> b)"
    proof
      fix col assume col: "col \<in> set (c # cs)"
      from L col obtain m where m: "series_min col = Dt m" "m \<le> lo" by blast
      from H col obtain M where M: "series_max col = Dt M" "hi \<le> M" by blast
      from series_min_Dt[OF m(1)] m(2) in_range have 1: "\<exists>a \<in> set (dates_of col). a \<le> d"
        by (meson order_trans)
      from series_max_Dt[OF M(1)] M(2) in_range have 2: "\<exists>b \<in> set (dates_of col). d \<le> b"
        by (meson order_trans)
      from 1 2 show "(\<exists>a \<in> set (dates_of col). a \<le> d) \<and> (\<exists>b \<in> set (dates_of col). d \<le> b)" ..
    qed
  next
    assume all: "\<forall>col \<in> set (c # cs). (\<exists>a \<in> set (dates_of col). a \<le> d) \<and> (\<exists>b \<in> set (dates_of col). d \<le> b)"
    from L0 obtain c0 where c0: "c0 \<in> set (c # cs)" "series_min c0 = Dt lo" by blast
    from H0 obtain c1 where c1: "c1 \<in> set (c # cs)" "series_max c1 = Dt hi" by blast
    from all c0(1) obtain a where a: "a \<in> set (dates_of c0)" "a \<le> d" by blast
    from all c1(1) obtain b where b: "b \<in> set (dates_of c1)" "d \<le> b" by blast
    from series_min_Dt[OF c0(2)] a have 1: "lo \<le> d" by (meson order_trans)
    from series_max_Dt[OF c1(2)] b have 2: "d \<le> hi" by (meson order_trans)
    from 1 2 show "lo \<le> d \<and> d \<le> hi" ..
  qed
qed

lemma covers_column:
  "series_covers obs d =
   ((\<exists>a \<in> set (dates_of (map Dt (map fst obs))). a \<le> d) \<and>
    (\<exists>b \<in> set (dates_of (map Dt (map fst obs))). d \<le> b))"
  by (simp add: series_covers_def list_ex_iff dates_of_map_comp)

lemma date_input_value:
  "date_input v lo hi picked = (if lo \<le> v \<and> v \<le> hi then Inr (picked_or picked v) else Inl StreamlitAPIException)"
  by (simp add: date_input_def picked_or_def)

lemma window_inputs_value:
  "window_inputs (Dt lo) (Dt hi) p q =
     (if lo \<le> hi then Inr (picked_or p lo, picked_or q hi) else Inl StreamlitAPIException)"
  by (simp add: window_inputs_def date_input_value)

lemma window_inputs_bounds:
  assumes "window_inputs cs ce p q = Inr (s, e)"
  shows "\<exists>lo hi. cs = Dt lo \<and> ce = Dt hi \<and> lo \<le> hi \<and> s = picked_or p lo \<and> e = picked_or q hi"
proof -
  from assms obtain lo hi where c: "cs = Dt lo" "ce = Dt hi"
    by (cases cs; cases ce) (auto simp: window_inputs_def)
  from assms show ?thesis unfolding c window_inputs_value by (auto split: if_splits)
qed

lemma fetched_date_column:
  "getitem (fst (get_series fred sid)) ''Date'' = Inr col \<Longrightarrow>
   \<exists>obs. fred sid = Some obs \<and> col = map Dt (map fst obs)"
  by (cases "fred sid") (auto simp: get_series_def getitem_def DataFrame_def comp_def)

lemma state_date_columns_fetched:
  "state_date_columns fred states = Inr cols \<Longrightarrow> state \<in> set states \<Longrightarrow>
   \<exists>sid obs. map_of STATE_SERIES_IDS state = Some sid \<and> fred sid = Some obs \<and>
             map Dt (map fst obs) \<in> set cols"
proof (induction states arbitrary: cols)
  case Nil
  then show ?case by simp
next
  case (Cons s rest)
  from Cons.prems(1) obtain sid col cols' where
    sid: "map_of STATE_SERIES_IDS s = Some sid"
    and col: "getitem (fst (get_series fred sid)) ''Date'' = Inr col"
    and rest: "state_date_columns fred rest = Inr cols'" and cols: "cols = col # cols'"
    by (auto split: option.splits sum.splits)
  from fetched_date_column[OF col] obtain obs where obs: "fred sid = Some obs" and c: "col = map Dt (map fst obs)"
    by blast
  show ?case
  proof (cases "state = s")
    case True
    then show ?thesis using sid obs c cols by auto
  next
    case False
    with Cons.prems(2) have "state \<in> set rest" by simp
    from Cons.IH[OF rest this] show ?thesis using cols by auto
  qed
qed

lemma state_date_columns_selected:
  "state_date_columns fred states = Inr cols \<Longrightarrow> col \<in> set cols \<Longrightarrow>
   \<exists>state sid obs. state \<in> set states \<and> map_of STATE_SERIES_IDS state = Some sid \<and>
     fred sid = Some obs \<and> col = map Dt (map fst obs)"
proof (induction states arbitrary: cols)
  case Nil
  then show ?case by simp
next
  case (Cons s rest)
  from Cons.prems(1) obtain sid c cols' where
    sid: "map_of STATE_SERIES_IDS s = Some sid"
    and c: "getitem (fst (get_series fred sid)) ''Date'' = Inr c"
    and rest: "state_date_columns fred rest = Inr cols'" and cols: "cols = c # cols'"
    by (auto split: option.splits sum.splits)
  from fetched_date_column[OF c] obtain obs where obs: "fred sid = Some obs" "c = map Dt (map fst obs)"
    by blast
  from Cons.prems(2) cols consider "col = c" | "col \<in> set cols'" by auto
  then show ?case
  proof cases
    case 1
    with sid obs show ?thesis by auto
  next
    case 2
    from Cons.IH[OF rest 2] show ?thesis by auto
  qed
qed

lemma all_state_dates_fetched:
  "all_state_dates fred states = Inr cols \<Longrightarrow> state \<in> set states \<Longrightarrow>
   map_of STATE_SERIES_IDS state = Some sid \<Longrightarrow> fred sid = Some obs \<Longrightarrow> obs \<noteq> [] \<Longrightarrow>
   map Dt (map fst obs) \<in> set cols"
proof (induction states arbitrary: cols)
  case Nil
  then show ?case by simp
next
  case (Cons s rest)
  show ?case
  proof (cases "state = s")
    case True
    have ne: "\<not> is_empty (fst (get_series fred sid))"
      using Cons.prems(4,5) by (cases obs) (auto simp: get_series_def is_empty_def nrows_def)
    have g: "getitem (fst (get_series fred sid)) ''Date'' = Inr (map Dt (map fst obs))"
      using Cons.prems(4) by (simp add: get_series_def getitem_def comp_def)
    from Cons.prems(1) True Cons.prems(3) ne g show ?thesis
      by (auto split: sum.splits)
  next
    case False
    with Cons.prems(2) have in_rest: "state \<in> set rest" by simp
    have "\<exists>cols'. all_state_dates fred rest = Inr cols' \<and> set cols' \<subseteq> set cols"
      using Cons.prems(1) by (auto split: option.splits sum.splits if_splits)
    then obtain cols' where r: "all_state_dates fred rest = Inr cols'" and "set cols' \<subseteq> set cols"
      by blast
    from Cons.IH[OF r in_rest Cons.prems(3,4,5)] \<open>set cols' \<subseteq> set cols\<close> show ?thesis by auto
  qed
qed

lemma all_state_dates_selected:
  "all_state_dates fred states = Inr cols \<Longrightarrow> col \<in> set cols \<Longrightarrow>
   \<exists>state sid obs. state \<in> set states \<and> map_of STATE_SERIES_IDS state = Some sid \<and>
     fred sid = Some obs \<and> obs \<noteq> [] \<and> col = map Dt (map fst obs)"
proof (induction states arbitrary: cols)
  case Nil
  then show ?case by simp
next
  case (Cons s rest)
  from Cons.prems(1) obtain sid where sid: "map_of STATE_SERIES_IDS s = Some sid"
    by (auto split: option.splits)
  show ?case
  proof (cases "is_empty (fst (get_series fred sid))")
    case True
    with Cons.prems(1) sid have "all_state_dates fred rest = Inr cols" by simp
    from Cons.IH[OF this Cons.prems(2)] show ?thesis by auto
  next
    case False
    with Cons.prems(1) sid obtain c cols' where
      c: "getitem (fst (get_series fred sid)) ''Date'' = Inr c"
      and rest: "all_state_dates fred rest = Inr cols'" and cols: "cols = c # cols'"
      by (auto split: sum.splits)
    from fetched_date_column[OF c] obtain obs where obs: "fred sid = Some obs" "c = map Dt (map fst obs)"
      by blast
    from False obs(1) have ne: "obs \<noteq> []"
      by (auto simp: get_series_def is_empty_def nrows_def)
    from Cons.prems(2) cols consider "col = c" | "col \<in> set cols'" by auto
    then show ?thesis
    proof cases
      case 1
      with sid obs ne show ?thesis by auto
    next
      case 2
      from Cons.IH[OF rest 2] show ?thesis by auto
    qed
  qed
qed

text \<open>No selected state has data exactly when the list of date columns is empty.\<close>

lemma all_state_dates_none:
  "(all_state_dates fred states = Inr []) =
   (\<forall>state \<in> set states. \<exists>sid. map_of STATE_SERIES_IDS state = Some sid \<and>
                                 is_empty (fst (get_series fred sid)))"
  by (induction states) (auto split: option.splits sum.splits)

lemma national_dates:
  "fred ''UNRATE'' = Some us_obs \<Longrightarrow> getitem (national fred) ''Date'' = Inr (map Dt (map fst us_obs))"
  by (simp add: national_def get_series_def rename_def getitem_def comp_def)

lemma national_fetched:
  "getitem (national fred) ''Date'' = Inr col \<Longrightarrow>
   \<exists>us_obs. fred ''UNRATE'' = Some us_obs \<and> col = map Dt (map fst us_obs)"
  by (cases "fred ''UNRATE''")
     (auto simp: national_def get_series_def rename_def getitem_def DataFrame_def comp_def)

lemma window_state_level:
  assumes cr: "common_range fred states_selected = Inr (cs, ce)"
    and wi: "window_inputs cs ce pick_start pick_end = Inr (start_date, end_date)"
  shows "\<exists>us_obs lo hi.
     fred ''UNRATE'' = Some us_obs \<and> us_obs \<noteq> [] \<and> cs = Dt lo \<and> ce = Dt hi \<and> lo \<le> hi \<and>
     start_date = picked_or pick_start lo \<and> end_date = picked_or pick_end hi \<and>
     (\<forall>state \<in> set states_selected. \<exists>sid obs.
        map_of STATE_SERIES_IDS state = Some sid \<and> fred sid = Some obs \<and> obs \<noteq> []) \<and>
     (\<forall>d. (lo \<le> d \<and> d \<le> hi) =
           (series_covers us_obs d \<and>
            (\<forall>state \<in> set states_selected. \<forall>sid obs.
               map_of STATE_SERIES_IDS state = Some sid \<longrightarrow> fred sid = Some obs \<longrightarrow>
               series_covers obs d)))"
proof -
  from cr obtain usc cols where
    n: "getitem (national fred) ''Date'' = Inr usc"
    and sd: "state_date_columns fred states_selected = Inr cols"
    and mx: "py_max (series_min usc) (map series_min cols) = Inr cs"
    and mn: "py_min (series_max usc) (map series_max cols) = Inr ce"
    by (auto simp: common_range_def split: sum.splits)
  from national_fetched[OF n] obtain us_obs where
    us: "fred ''UNRATE'' = Some us_obs" and usc: "usc = map Dt (map fst us_obs)" by blast
  from window_inputs_bounds[OF wi] obtain lo hi where
    b: "cs = Dt lo" "ce = Dt hi" "lo \<le> hi"
       "start_date = picked_or pick_start lo" "end_date = picked_or pick_end hi"
    by blast
  note ri = range_is_intersection[OF mx[unfolded b] mn[unfolded b]]
  from ri(2) have une: "us_obs \<noteq> []" by (auto simp: usc)
  have fetched: "\<forall>state \<in> set states_selected. \<exists>sid obs.
        map_of STATE_SERIES_IDS state = Some sid \<and> fred sid = Some obs \<and> obs \<noteq> []"
  proof
    fix state assume "state \<in> set states_selected"
    from state_date_columns_fetched[OF sd this] obtain sid obs where
      f: "map_of STATE_SERIES_IDS state = Some sid" "fred sid = Some obs"
         "map Dt (map fst obs) \<in> set cols" by blast
    with ri(2) have "dates_of (map Dt (map fst obs)) \<noteq> []" by simp
    then have "obs \<noteq> []" by auto
    with f show "\<exists>sid obs. map_of STATE_SERIES_IDS state = Some sid \<and> fred sid = Some obs \<and> obs \<noteq> []"
      by blast
  qed
  have inter: "\<forall>d. (lo \<le> d \<and> d \<le> hi) =
           (series_covers us_obs d \<and>
            (\<forall>state \<in> set states_selected. \<forall>sid obs.
               map_of STATE_SERIES_IDS state = Some sid \<longrightarrow> fred sid = Some obs \<longrightarrow>
               series_covers obs d))"
  proof
    fix d
    let ?P = "\<lambda>col. (\<exists>a \<in> set (dates_of col). a \<le> d) \<and> (\<exists>b \<in> set (dates_of col). d \<le> b)"
    have "(\<forall>col \<in> set (usc # cols). ?P col) =
          (series_covers us_obs d \<and>
            (\<forall>state \<in> set states_selected. \<forall>sid obs.
               map_of STATE_SERIES_IDS state = Some sid \<longrightarrow> fred sid = Some obs \<longrightarrow>
               series_covers obs d))"
    proof
      assume all: "\<forall>col \<in> set (usc # cols). ?P col"
      then have 1: "series_covers us_obs d" unfolding covers_column usc by simp
      have "\<forall>state \<in> set states_selected. \<forall>sid obs.
               map_of STATE_SERIES_IDS state = Some sid \<longrightarrow> fred sid = Some obs \<longrightarrow>
               series_covers obs d"
      proof (intro ballI allI impI)
        fix state sid obs
        assume st: "state \<in> set states_selected" and sid: "map_of STATE_SERIES_IDS state = Some sid"
          and obs: "fred sid = Some obs"
        from state_date_columns_fetched[OF sd st] sid obs have "map Dt (map fst obs) \<in> set cols"
          by auto
        with all show "series_covers obs d" unfolding covers_column by simp
      qed
      with 1 show "series_covers us_obs d \<and>
            (\<forall>state \<in> set states_selected. \<forall>sid obs.
               map_of STATE_SERIES_IDS state = Some sid \<longrightarrow> fred sid = Some obs \<longrightarrow>
               series_covers obs d)" ..
    next
      assume r: "series_covers us_obs d \<and>
            (\<forall>state \<in> set states_selected. \<forall>sid obs.
               map_of STATE_SERIES_IDS state = Some sid \<longrightarrow> fred sid = Some obs \<longrightarrow>
               series_covers obs d)"
      show "\<forall>col \<in> set (usc # cols). ?P col"
      proof
        fix col assume "col \<in> set (usc # cols)"
        then consider "col = usc" | "col \<in> set cols" by auto
        then show "?P col"
        proof cases
          case 1
          with r show ?thesis unfolding covers_column usc by simp
        next
          case 2
          from state_date_columns_selected[OF sd 2] obtain state sid obs where
            "state \<in> set states_selected" "map_of STATE_SERIES_IDS state = Some sid"
            "fred sid = Some obs" "col = map Dt (map fst obs)" by blast
          with r have "series_covers obs d" by blast
          then show ?thesis unfolding covers_column \<open>col = map Dt (map fst obs)\<close> by simp
        qed
      qed
    qed
    with ri(1)[of d] show "(lo \<le> d \<and> d \<le> hi) =
           (series_covers us_obs d \<and>
            (\<forall>state \<in> set states_selected. \<forall>sid obs.
               map_of STATE_SERIES_IDS state = Some sid \<longrightarrow> fred sid = Some obs \<longrightarrow>
               series_covers obs d))" by simp
  qed
  from us une b fetched inter show ?thesis by blast
qed

lemma window_3cols_states_only:
  assumes w: "window_3cols fred states_selected pick_start pick_end = Inr (Some (start_date, end_date))"
  shows "\<exists>lo hi.
     common_range_3cols fred states_selected = Inr (Some (Dt lo, Dt hi)) \<and> lo \<le> hi \<and>
     start_date = picked_or pick_start lo \<and> end_date = picked_or pick_end hi \<and>
     (\<forall>d. (lo \<le> d \<and> d \<le> hi) =
           (\<forall>state \<in> set states_selected. \<forall>sid obs.
              map_of STATE_SERIES_IDS state = Some sid \<longrightarrow> fred sid = Some obs \<longrightarrow> obs \<noteq> [] \<longrightarrow>
              series_covers obs d))"
proof -
  from w obtain cs ce where
    c3: "common_range_3cols fred states_selected = Inr (Some (cs, ce))"
    and wi: "window_inputs cs ce pick_start pick_end = Inr (start_date, end_date)"
    by (auto simp: window_3cols_def split: sum.splits option.splits)
  from c3 obtain col cols where
    ad: "all_state_dates fred states_selected = Inr (col # cols)"
    and mx: "py_max (series_min col) (map series_min cols) = Inr cs"
    and mn: "py_min (series_max col) (map series_max cols) = Inr ce"
    by (auto simp: common_range_3cols_def split: sum.splits list.splits)
  from window_inputs_bounds[OF wi] obtain lo hi where
    b: "cs = Dt lo" "ce = Dt hi" "lo \<le> hi"
       "start_date = picked_or pick_start lo" "end_date = picked_or pick_end hi"
    by blast
  note ri = range_is_intersection[OF mx[unfolded b] mn[unfolded b]]
  have inter: "\<forall>d. (lo \<le> d \<and> d \<le> hi) =
           (\<forall>state \<in> set states_selected. \<forall>sid obs.
              map_of STATE_SERIES_IDS state = Some sid \<longrightarrow> fred sid = Some obs \<longrightarrow> obs \<noteq> [] \<longrightarrow>
              series_covers obs d)"
  proof
    fix d
    let ?P = "\<lambda>col. (\<exists>a \<in> set (dates_of col). a \<le> d) \<and> (\<exists>b \<in> set (dates_of col). d \<le> b)"
    have "(\<forall>c \<in> set (col # cols). ?P c) =
          (\<forall>state \<in> set states_selected. \<forall>sid obs.
              map_of STATE_SERIES_IDS state = Some sid \<longrightarrow> fred sid = Some obs \<longrightarrow> obs \<noteq> [] \<longrightarrow>
              series_covers obs d)"
    proof
      assume all: "\<forall>c \<in> set (col # cols). ?P c"
      show "\<forall>state \<in> set states_selected. \<forall>sid obs.
              map_of STATE_SERIES_IDS state = Some sid \<longrightarrow> fred sid = Some obs \<longrightarrow> obs \<noteq> [] \<longrightarrow>
              series_covers obs d"
      proof (intro ballI allI impI)
        fix state sid obs
        assume "state \<in> set states_selected" "map_of STATE_SERIES_IDS state = Some sid"
          "fred sid = Some obs" "obs \<noteq> []"
        from all_state_dates_fetched[OF ad this] all show "series_covers obs d"
          unfolding covers_column by blast
      qed
    next
      assume r: "\<forall>state \<in> set states_selected. \<forall>sid obs.
              map_of STATE_SERIES_IDS state = Some sid \<longrightarrow> fred sid = Some obs \<longrightarrow> obs \<noteq> [] \<longrightarrow>
              series_covers obs d"
      show "\<forall>c \<in> set (col # cols). ?P c"
      proof
        fix c assume "c \<in> set (col # cols)"
        from all_state_dates_selected[OF ad this] obtain state sid obs where
          "state \<in> set states_selected" "map_of STATE_SERIES_IDS state = Some sid"
          "fred sid = Some obs" "obs \<noteq> []" and c: "c = map Dt (map fst obs)" by blast
        with r have "series_covers obs d" by blast
        then show "?P c" unfolding covers_column c by simp
      qed
    qed
    with ri(1)[of d] show "(lo \<le> d \<and> d \<le> hi) =
           (\<forall>state \<in> set states_selected. \<forall>sid obs.
              map_of STATE_SERIES_IDS state = Some sid \<longrightarrow> fred sid = Some obs \<longrightarrow> obs \<noteq> [] \<longrightarrow>
              series_covers obs d)" by simp
  qed
  from c3 b inter show ?thesis by blast
qed

lemma window_3cols_none:
  "(window_3cols fred states_selected pick_start pick_end = Inr None) =
   (\<forall>state \<in> set states_selected. \<exists>sid. map_of STATE_SERIES_IDS state = Some sid \<and>
                                          is_empty (fst (get_series fred sid)))"
proof -
  have "(window_3cols fred states_selected pick_start pick_end = Inr None) =
        (all_state_dates fred states_selected = Inr [])"
    by (auto simp: window_3cols_def common_range_3cols_def split: sum.splits list.splits option.splits)
  then show ?thesis by (simp add: all_state_dates_none)
qed

lemma filter_window_dates:
  "getitem df ''Date'' = Inr dates \<Longrightarrow>
   \<exists>filtered. filter_window s e df = Inr filtered \<and>
              getitem filtered ''Date'' = Inr (filter (in_window s e) dates)"
  using getitem_loc[of df "''Date''" dates "map (in_window s e) dates"]
  by (simp add: filter_window_def select_map_self)

text \<open>
  Claim C5, amended. In economics_dashboard.py the two date widgets get as bounds,
  and as defaults, the two ends of the common range, and when they return, the
  national series and every selected state's series are fetched and have
  observations, and the common range is exactly the intersection of their ranges:
  a date lies within it if and only if each of them covers the date. In
  economics_dashboard_3cols.py the common range is the intersection of the ranges
  of the selected states that have observations, and the national series is not
  consulted; there is no window exactly when no selected state has data, and then
  the table is left unfiltered. In both, the start (end) of the window is the user's
  pick, or the start (end) of the common range when the user picked none: the
  widgets are created only when the common range is not empty, and the program
  applies no check of its own to the dates they return. The window filter keeps
  exactly the rows whose date is in the window, both ends included.
\<close>

theorem window_within_contributing_ranges:
  "(common_range fred states_selected = Inr (cs, ce) \<longrightarrow>
    window_inputs cs ce pick_start pick_end = Inr (start_date, end_date) \<longrightarrow>
      (\<exists>us_obs lo hi.
         fred ''UNRATE'' = Some us_obs \<and> us_obs \<noteq> [] \<and> cs = Dt lo \<and> ce = Dt hi \<and> lo \<le> hi \<and>
         start_date = picked_or pick_start lo \<and> end_date = picked_or pick_end hi \<and>
         (\<forall>state \<in> set states_selected. \<exists>sid obs.
            map_of STATE_SERIES_IDS state = Some sid \<and> fred sid = Some obs \<and> obs \<noteq> []) \<and>
         (\<forall>d. (lo \<le> d \<and> d \<le> hi) =
               (series_covers us_obs d \<and>
                (\<forall>state \<in> set states_selected. \<forall>sid obs.
                   map_of STATE_SERIES_IDS state = Some sid \<longrightarrow> fred sid = Some obs \<longrightarrow>
                   series_covers obs d))))) \<and>
   (window_3cols fred states_selected pick_start pick_end = Inr (Some (start_date, end_date)) \<longrightarrow>
      (\<exists>lo hi.
         common_range_3cols fred states_selected = Inr (Some (Dt lo, Dt hi)) \<and> lo \<le> hi \<and>
         start_date = picked_or pick_start lo \<and> end_date = picked_or pick_end hi \<and>
         (\<forall>d. (lo \<le> d \<and> d \<le> hi) =
               (\<forall>state \<in> set states_selected. \<forall>sid obs.
                  map_of STATE_SERIES_IDS state = Some sid \<longrightarrow> fred sid = Some obs \<longrightarrow>
                  obs \<noteq> [] \<longrightarrow> series_covers obs d)))) \<and>
   ((window_3cols fred states_selected pick_start pick_end = Inr None) =
      (\<forall>state \<in> set states_selected. \<exists>sid.
         map_of STATE_SERIES_IDS state = Some sid \<and> is_empty (fst (get_series fred sid)))) \<and>
   filter_window_3cols None df = Inr df \<and>
   window_inputs (Dt common_start) (Dt common_end) pick_start pick_end =
     (if common_start \<le> common_end
      then Inr (picked_or pick_start common_start, picked_or pick_end common_end)
      else Inl StreamlitAPIException) \<and>
   (getitem df ''Date'' = Inr dates \<longrightarrow>
      (\<exists>filtered. filter_window start_date end_date df = Inr filtered \<and>
         getitem filtered ''Date'' = Inr (filter (in_window start_date end_date) dates)))"
proof -
  have a: "common_range fred states_selected = Inr (cs, ce) \<longrightarrow>
    window_inputs cs ce pick_start pick_end = Inr (start_date, end_date) \<longrightarrow>
      (\<exists>us_obs lo hi.
         fred ''UNRATE'' = Some us_obs \<and> us_obs \<noteq> [] \<and> cs = Dt lo \<and> ce = Dt hi \<and> lo \<le> hi \<and>
         start_date = picked_or pick_start lo \<and> end_date = picked_or pick_end hi \<and>
         (\<forall>state \<in> set states_selected. \<exists>sid obs.
            map_of STATE_SERIES_IDS state = Some sid \<and> fred sid = Some obs \<and> obs \<noteq> []) \<and>
         (\<forall>d. (lo \<le> d \<and> d \<le> hi) =
               (series_covers us_obs d \<and>
                (\<forall>state \<in> set states_selected. \<forall>sid obs.
                   map_of STATE_SERIES_IDS state = Some sid \<longrightarrow> fred sid = Some obs \<longrightarrow>
                   series_covers obs d))))"
    using window_state_level[of fred states_selected cs ce pick_start pick_end start_date end_date]
    by blast
  have b: "window_3cols fred states_selected pick_start pick_end = Inr (Some (start_date, end_date)) \<longrightarrow>
      (\<exists>lo hi.
         common_range_3cols fred states_selected = Inr (Some (Dt lo, Dt hi)) \<and> lo \<le> hi \<and>
         start_date = picked_or pick_start lo \<and> end_date = picked_or pick_end hi \<and>
         (\<forall>d. (lo \<le> d \<and> d \<le> hi) =
               (\<forall>state \<in> set states_selected. \<forall>sid obs.
                  map_of STATE_SERIES_IDS state = Some sid \<longrightarrow> fred sid = Some obs \<longrightarrow>
                  obs \<noteq> [] \<longrightarrow> series_covers obs d)))"
    using window_3cols_states_only[of fred states_selected pick_start pick_end start_date end_date]
    by blast
  have c: "filter_window_3cols None df = Inr df" by (simp add: filter_window_3cols_def)
  have d: "getitem df ''Date'' = Inr dates \<longrightarrow>
      (\<exists>filtered. filter_window start_date end_date df = Inr filtered \<and>
         getitem filtered ''Date'' = Inr (filter (in_window start_date end_date) dates))"
    using filter_window_dates[of df dates start_date end_date] by blast
  from a b c d window_3cols_none[of fred states_selected pick_start pick_end]
    window_inputs_value[of common_start common_end pick_start pick_end]
  show ?thesis by (intro conjI)
qed

text \<open>
  A national series from 2018 to 2021, a Texas series from 2019 to 2022, a Utah
  series from 2017 to 2020, and a California series without observations.
\<close>

definition fred_ranges :: api where
  "fred_ranges sid =
     (if sid = ''UNRATE''
      then Some [(Date 2018 1 1, Some 4), (Date 2019 1 1, Some 4), (Date 2020 1 1, Some 5),
                 (Date 2021 1 1, Some 6)]
      else if sid = ''TXUR''
      then Some [(Date 2019 1 1, Some 4), (Date 2020 1 1, Some 4), (Date 2021 1 1, Some 6),
                 (Date 2022 1 1, Some 4)]
      else if sid = ''UTUR''
      then Some [(Date 2017 1 1, Some 3), (Date 2018 1 1, Some 3), (Date 2019 1 1, Some 3),
                 (Date 2020 1 1, Some 3)]
      else if sid = ''CAUR'' then Some []
      else None)"

text \<open>A national series narrower than the one selected state's.\<close>

definition fred_narrow :: api where
  "fred_narrow sid =
     (if sid = ''UNRATE'' then Some [(Date 2020 1 1, Some 5)]
      else if sid = ''TXUR'' then Some [(Date 2019 1 1, Some 4), (Date 2021 1 1, Some 6)]
      else None)"

lemma map_of_Utah: "map_of STATE_SERIES_IDS ''Utah'' = Some ''UTUR''"
  by (simp add: STATE_SERIES_IDS_def)

lemma ranges_columns:
  "getitem (national fred_ranges) ''Date'' =
     Inr [Dt (Date 2018 1 1), Dt (Date 2019 1 1), Dt (Date 2020 1 1), Dt (Date 2021 1 1)]"
  "getitem (fst (get_series fred_ranges ''TXUR'')) ''Date'' =
     Inr [Dt (Date 2019 1 1), Dt (Date 2020 1 1), Dt (Date 2021 1 1), Dt (Date 2022 1 1)]"
  "getitem (fst (get_series fred_ranges ''UTUR'')) ''Date'' =
     Inr [Dt (Date 2017 1 1), Dt (Date 2018 1 1), Dt (Date 2019 1 1), Dt (Date 2020 1 1)]"
  "getitem (fst (get_series fred_ranges ''CAUR'')) ''Date'' = Inr []"
  "\<not> is_empty (fst (get_series fred_ranges ''TXUR''))"
  "\<not> is_empty (fst (get_series fred_ranges ''UTUR''))"
  "is_empty (fst (get_series fred_ranges ''CAUR''))"
  by (simp_all add: national_def get_series_def fred_ranges_def rename_def getitem_def
        is_empty_def nrows_def)

lemma ranges_bounds:
  "series_min [Dt (Date 2018 1 1), Dt (Date 2019 1 1), Dt (Date 2020 1 1), Dt (Date 2021 1 1)]
     = Dt (Date 2018 1 1)"
  "series_max [Dt (Date 2018 1 1), Dt (Date 2019 1 1), Dt (Date 2020 1 1), Dt (Date 2021 1 1)]
     = Dt (Date 2021 1 1)"
  "series_min [Dt (Date 2019 1 1), Dt (Date 2020 1 1), Dt (Date 2021 1 1), Dt (Date 2022 1 1)]
     = Dt (Date 2019 1 1)"
  "series_max [Dt (Date 2019 1 1), Dt (Date 2020 1 1), Dt (Date 2021 1 1), Dt (Date 2022 1 1)]
     = Dt (Date 2022 1 1)"
  "series_min [Dt (Date 2017 1 1), Dt (Date 2018 1 1), Dt (Date 2019 1 1), Dt (Date 2020 1 1)]
     = Dt (Date 2017 1 1)"
  "series_max [Dt (Date 2017 1 1), Dt (Date 2018 1 1), Dt (Date 2019 1 1), Dt (Date 2020 1 1)]
     = Dt (Date 2020 1 1)"
  "series_min [] = Null" "series_max [] = Null"
  by (simp_all add: series_min_def series_max_def min_def max_def less_eq_date_def)

lemma ranges_common:
  "common_range fred_ranges [''Texas'', ''Utah''] = Inr (Dt (Date 2019 1 1), Dt (Date 2020 1 1))"
  "common_range fred_ranges [''Texas'', ''California''] = Inl TypeError"
  "common_range_3cols fred_ranges [''Texas'', ''California'', ''Utah''] =
     Inr (Some (Dt (Date 2019 1 1), Dt (Date 2020 1 1)))"
  "common_range_3cols fred_ranges [''Texas'', ''Utah''] =
     Inr (Some (Dt (Date 2019 1 1), Dt (Date 2020 1 1)))"
  by (simp_all add: common_range_def common_range_3cols_def ranges_columns ranges_bounds
        map_of_Texas map_of_Utah map_of_California cell_gt_def cell_lt_def less_date_def
        less_eq_date_def del: One_nat_def)

lemma ranges_windows:
  "window_inputs (Dt (Date 2019 1 1)) (Dt (Date 2020 1 1)) None None =
     Inr (Date 2019 1 1, Date 2020 1 1)"
  "window_3cols fred_ranges [''Texas'', ''Utah''] None None =
     Inr (Some (Date 2019 1 1, Date 2020 1 1))"
  by (simp_all add: window_3cols_def ranges_common window_inputs_value picked_or_def
        less_eq_date_def del: One_nat_def)

lemma ranges_fetched:
  "fred_ranges ''UNRATE'' =
     Some [(Date 2018 1 1, Some 4), (Date 2019 1 1, Some 4), (Date 2020 1 1, Some 5),
           (Date 2021 1 1, Some 6)]"
  "fred_ranges ''TXUR'' =
     Some [(Date 2019 1 1, Some 4), (Date 2020 1 1, Some 4), (Date 2021 1 1, Some 6),
           (Date 2022 1 1, Some 4)]"
  "fred_ranges ''UTUR'' =
     Some [(Date 2017 1 1, Some 3), (Date 2018 1 1, Some 3), (Date 2019 1 1, Some 3),
           (Date 2020 1 1, Some 3)]"
  "fred_ranges ''CAUR'' = Some []"
  by (simp_all add: fred_ranges_def)

theorem window_within_ranges_witness:
  "common_range fred_ranges [''Texas'', ''Utah''] = Inr (Dt (Date 2019 1 1), Dt (Date 2020 1 1)) \<and>
   window_inputs (Dt (Date 2019 1 1)) (Dt (Date 2020 1 1)) None None =
     Inr (Date 2019 1 1, Date 2020 1 1) \<and>
   (\<forall>d. (Date 2019 1 1 \<le> d \<and> d \<le> Date 2020 1 1) =
      (series_covers [(Date 2018 1 1, Some 4), (Date 2019 1 1, Some 4), (Date 2020 1 1, Some 5),
                      (Date 2021 1 1, Some 6)] d \<and>
       series_covers [(Date 2019 1 1, Some 4), (Date 2020 1 1, Some 4), (Date 2021 1 1, Some 6),
                      (Date 2022 1 1, Some 4)] d \<and>
       series_covers [(Date 2017 1 1, Some 3), (Date 2018 1 1, Some 3), (Date 2019 1 1, Some 3),
                      (Date 2020 1 1, Some 3)] d)) \<and>
   window_3cols fred_ranges [''Texas'', ''Utah''] None None =
     Inr (Some (Date 2019 1 1, Date 2020 1 1)) \<and>
   (\<exists>filtered.
      filter_window (Date 2019 1 1) (Date 2020 1 1)
        [(''Date'', [Dt (Date 2018 1 1), Dt (Date 2019 1 1), Dt (Date 2020 1 1), Dt (Date 2021 1 1)]),
         (''United States'', [Num 4, Num 4, Num 5, Num 6])] = Inr filtered \<and>
      getitem filtered ''Date'' = Inr [Dt (Date 2019 1 1), Dt (Date 2020 1 1)]) \<and>
   window_3cols fred_ranges [''California''] None None = Inr None \<and>
   is_empty (fst (get_series fred_ranges ''CAUR'')) \<and>
   common_range fred_ranges [''Texas'', ''California''] = Inl TypeError \<and>
   window_inputs (Dt (Date 2019 1 1)) (Dt (Date 2020 1 1)) None (Some (Date 2030 1 1)) =
     Inr (Date 2019 1 1, Date 2030 1 1) \<and>
   window_inputs (Dt (Date 2020 1 1)) (Dt (Date 2019 1 1)) None None = Inl StreamlitAPIException"
proof -
  let ?us = "[(Date 2018 1 1, Some 4), (Date 2019 1 1, Some 4), (Date 2020 1 1, Some 5),
              (Date 2021 1 1, Some (6::rat))]"
  let ?df = "[(''Date'', [Dt (Date 2018 1 1), Dt (Date 2019 1 1), Dt (Date 2020 1 1), Dt (Date 2021 1 1)]),
              (''United States'', [Num 4, Num 4, Num 5, Num 6])]"
  let ?dates = "[Dt (Date 2018 1 1), Dt (Date 2019 1 1), Dt (Date 2020 1 1), Dt (Date 2021 1 1)]"
  note t = window_within_contributing_ranges [of fred_ranges "[''Texas'', ''Utah'']"
      "Dt (Date 2019 1 1)" "Dt (Date 2020 1 1)" None None "Date 2019 1 1" "Date 2020 1 1"
      ?df "Date 2019 1 1" "Date 2020 1 1" ?dates]
  from t ranges_common(1) ranges_windows(1) obtain us_obs lo hi where
    u: "fred_ranges ''UNRATE'' = Some us_obs" and l: "Dt (Date 2019 1 1) = Dt lo"
    and h: "Dt (Date 2020 1 1) = Dt hi"
    and i: "\<forall>d. (lo \<le> d \<and> d \<le> hi) =
               (series_covers us_obs d \<and>
                (\<forall>state \<in> set [''Texas'', ''Utah'']. \<forall>sid obs.
                   map_of STATE_SERIES_IDS state = Some sid \<longrightarrow> fred_ranges sid = Some obs \<longrightarrow>
                   series_covers obs d))"
    by blast
  from u have us: "us_obs = ?us" by (simp add: ranges_fetched)
  from l h have lh: "lo = Date 2019 1 1" "hi = Date 2020 1 1" by simp_all
  have inter: "\<forall>d. (Date 2019 1 1 \<le> d \<and> d \<le> Date 2020 1 1) =
      (series_covers ?us d \<and>
       series_covers [(Date 2019 1 1, Some 4), (Date 2020 1 1, Some 4), (Date 2021 1 1, Some 6),
                      (Date 2022 1 1, Some 4)] d \<and>
       series_covers [(Date 2017 1 1, Some 3), (Date 2018 1 1, Some 3), (Date 2019 1 1, Some 3),
                      (Date 2020 1 1, Some 3)] d)"
    using i unfolding us lh by (simp add: map_of_Texas map_of_Utah ranges_fetched del: One_nat_def)
  have g: "getitem ?df ''Date'' = Inr ?dates" by (simp add: getitem_def)
  have f: "filter (in_window (Date 2019 1 1) (Date 2020 1 1)) ?dates =
      [Dt (Date 2019 1 1), Dt (Date 2020 1 1)]"
    by (simp add: in_window_def less_eq_date_def)
  from t g f have fw: "\<exists>filtered.
      filter_window (Date 2019 1 1) (Date 2020 1 1) ?df = Inr filtered \<and>
      getitem filtered ''Date'' = Inr [Dt (Date 2019 1 1), Dt (Date 2020 1 1)]"
    by simp
  have e: "\<forall>state \<in> set [''California'']. \<exists>sid.
      map_of STATE_SERIES_IDS state = Some sid \<and> is_empty (fst (get_series fred_ranges sid))"
    by (simp add: map_of_California ranges_columns)
  from window_within_contributing_ranges [of fred_ranges "[''California'']" _ _ None None] e
  have n: "window_3cols fred_ranges [''California''] None None = Inr None" by blast
  from window_within_contributing_ranges [of _ _ _ _ None "Some (Date 2030 1 1)" _ _ _
      "Date 2019 1 1" "Date 2020 1 1"]
  have p: "window_inputs (Dt (Date 2019 1 1)) (Dt (Date 2020 1 1)) None (Some (Date 2030 1 1)) =
     Inr (Date 2019 1 1, Date 2030 1 1)"
    by (simp add: picked_or_def less_eq_date_def)
  from window_within_contributing_ranges [of _ _ _ _ None None _ _ _
      "Date 2020 1 1" "Date 2019 1 1"]
  have r: "window_inputs (Dt (Date 2020 1 1)) (Dt (Date 2019 1 1)) None None = Inl StreamlitAPIException"
    by (simp add: less_eq_date_def)
  from ranges_common(1,2) ranges_windows inter fw n ranges_columns(7) p r
  show ?thesis by (intro conjI)
qed

text \<open>
  The claim as stated fails in economics_dashboard_3cols.py: with a national series
  of one observation in 2020 and a Texas series from 2019 to 2021, the window the
  widgets offer and return by default is 2019-01-01 to 2021-01-01, which the
  national series does not cover.
\<close>

theorem window_3cols_ignores_national:
  "window_3cols fred_narrow [''Texas''] None None = Inr (Some (Date 2019 1 1, Date 2021 1 1)) \<and>
   fred_narrow ''UNRATE'' = Some [(Date 2020 1 1, Some 5)] \<and>
   \<not> series_covers [(Date 2020 1 1, Some 5)] (Date 2019 1 1) \<and>
   \<not> series_covers [(Date 2020 1 1, Some 5)] (Date 2021 1 1)"
proof -
  have g: "fst (get_series fred_narrow ''TXUR'') =
     [(''Date'', [Dt (Date 2019 1 1), Dt (Date 2021 1 1)]), (''Unemployment Rate'', [Num 4, Num 6])]"
    by (simp add: get_series_def fred_narrow_def num_cell_def)
  have a: "all_state_dates fred_narrow [''Texas''] = Inr [[Dt (Date 2019 1 1), Dt (Date 2021 1 1)]]"
    by (simp add: map_of_Texas g is_empty_def nrows_def getitem_def)
  have c: "common_range_3cols fred_narrow [''Texas''] = Inr (Some (Dt (Date 2019 1 1), Dt (Date 2021 1 1)))"
    unfolding common_range_3cols_def a
    by (simp add: series_min_def series_max_def min_def max_def less_eq_date_def)
  have w: "window_3cols fred_narrow [''Texas''] None None = Inr (Some (Date 2019 1 1, Date 2021 1 1))"
    unfolding window_3cols_def c
    by (simp add: window_inputs_def date_input_def less_eq_date_def)
  show ?thesis
    by (simp add: w fred_narrow_def series_covers_def less_eq_date_def)
qed

section \<open>State map data: columns of an assembled table\<close>

text \<open>A cell of a numeric column: a number or a null.\<close>

definition numeric :: "cell \<Rightarrow> bool" where
  "numeric c = (case c of Null \<Rightarrow> True | Num x \<Rightarrow> True | _ \<Rightarrow> False)"

lemma sum_list_lower: "(\<forall>x \<in> set xs. lo \<le> x) \<Longrightarrow> of_nat (length xs) * lo \<le> sum_list (xs :: rat list)"
  by (induction xs) (auto simp: algebra_simps)

lemma sum_list_upper: "(\<forall>x \<in> set xs. x \<le> hi) \<Longrightarrow> sum_list (xs :: rat list) \<le> of_nat (length xs) * hi"
  by (induction xs) (auto simp: algebra_simps)

lemma mean_between:
  assumes "vs \<noteq> []"
  shows "Min (set vs) \<le> sum_list vs / of_nat (length vs) \<and>
         sum_list vs / of_nat (length vs) \<le> Max (set (vs :: rat list))"
proof -
  have n: "0 < (of_nat (length vs) :: rat)" using assms by simp
  have "of_nat (length vs) * Min (set vs) \<le> sum_list vs"
    by (rule sum_list_lower) simp
  moreover have "sum_list vs \<le> of_nat (length vs) * Max (set vs)"
    by (rule sum_list_upper) simp
  ultimately show ?thesis using n
    by (simp add: pos_le_divide_eq pos_divide_le_eq mult.commute)
qed

lemma set_select: "set (select keep vs) \<subseteq> set vs"
  unfolding select_def by (auto dest: set_zip_rightD)

lemma numeric_select: "list_all numeric col \<Longrightarrow> list_all numeric (select keep col)"
  using set_select by (fastforce simp: list_all_iff)

lemma dropna_numeric: "list_all numeric col \<Longrightarrow> dropna col = map Num (nums_of col)"
  by (induction col rule: nums_of.induct) (auto simp: dropna_def numeric_def)

lemma map_of_map_cols:
  "map_of (map (\<lambda>(n, vs). (n, f vs)) df) name = map_option f (map_of df name)"
  by (induction df) auto

lemma map_of_loc: "map_of (loc keep df) name = map_option (select keep) (map_of df name)"
  by (simp add: loc_def map_of_map_cols)

lemma map_of_state_map_data:
  "map_of (state_map_data df_year states) state =
     (if state \<in> set states
      then (case map_of df_year state of
              None \<Rightarrow> None
            | Some col \<Rightarrow> if dropna col = [] then None else Some (round2 (mean col)))
      else None)"
  by (induction states) (auto split: option.splits)

lemma state_map_data_subset: "fst ` set (state_map_data df_year states) \<subseteq> set states"
  by (induction states) (auto split: option.splits if_splits)


text \<open>
  The invariant of the assembly: the table has a Date column, its columns have one
  length, and every column other than Date holds numbers and nulls only.
\<close>

definition table_ok :: "frame \<Rightarrow> bool" where
  "table_ok df =
     (map_of df ''Date'' \<noteq> None \<and>
      (\<exists>n. \<forall>(name, col) \<in> set df. length col = n \<and> (name \<noteq> ''Date'' \<longrightarrow> list_all numeric col)))"

lemma join_index_in_range:
  assumes "(i, j) \<in> set (join_index lk rk)"
  shows "i < length lk \<and> (case j of None \<Rightarrow> True | Some j' \<Rightarrow> j' < length rk)"
proof -
  from assms obtain i' where i': "i' < length lk"
    and b: "(i, j) \<in> set (case matches rk (lk ! i') of [] \<Rightarrow> [(i', None)]
                          | a # as \<Rightarrow> map (\<lambda>j'. (i', Some j')) (a # as))"
    by (auto simp: join_index_def)
  show ?thesis
  proof (cases "matches rk (lk ! i')")
    case Nil
    with b i' show ?thesis by simp
  next
    case (Cons a as)
    with b obtain j' where j: "i = i'" "j = Some j'" "j' \<in> set (matches rk (lk ! i'))" by auto
    then have "j' < length rk" by (simp add: matches_def)
    with j i' show ?thesis by simp
  qed
qed

lemma take_left_numeric:
  assumes "list_all numeric vs" "length vs = length lk"
  shows "list_all numeric (take_left (join_index lk rk) vs)"
  unfolding take_left_def list_all_iff
proof
  fix c assume "c \<in> set (map (\<lambda>(i, j). vs ! i) (join_index lk rk))"
  then obtain i j where ij: "(i, j) \<in> set (join_index lk rk)" "c = vs ! i" by auto
  from join_index_in_range[OF ij(1)] assms(2) have "i < length vs" by simp
  with assms(1) ij(2) show "numeric c" by (simp add: list_all_length)
qed

lemma take_right_numeric:
  assumes "list_all numeric vs" "length vs = length rk"
  shows "list_all numeric (take_right (join_index lk rk) vs)"
  unfolding take_right_def list_all_iff
proof
  fix c assume "c \<in> set (map (\<lambda>(i, j). case j of None \<Rightarrow> Null | Some j' \<Rightarrow> vs ! j') (join_index lk rk))"
  then obtain i j where ij: "(i, j) \<in> set (join_index lk rk)"
    "c = (case j of None \<Rightarrow> Null | Some j' \<Rightarrow> vs ! j')" by auto
  show "numeric c"
  proof (cases j)
    case None
    with ij(2) show ?thesis by (simp add: numeric_def)
  next
    case (Some j')
    with join_index_in_range[OF ij(1)] assms(2) have "j' < length vs" by simp
    with assms(1) ij(2) Some show ?thesis by (simp add: list_all_length)
  qed
qed

lemma merge_left_ok:
  assumes l: "table_ok left" and r: "table_ok right"
  shows "\<exists>merged. merge_left ''Date'' left right = Inr merged \<and> table_ok merged"
proof -
  from l obtain lk n where lk: "map_of left ''Date'' = Some lk"
    and ln: "\<forall>(name, col) \<in> set left. length col = n \<and> (name \<noteq> ''Date'' \<longrightarrow> list_all numeric col)"
    by (auto simp: table_ok_def)
  from r obtain rk m where rk: "map_of right ''Date'' = Some rk"
    and rm: "\<forall>(name, col) \<in> set right. length col = m \<and> (name \<noteq> ''Date'' \<longrightarrow> list_all numeric col)"
    by (auto simp: table_ok_def)
  from lk ln have n: "length lk = n" by (auto dest: map_of_SomeD)
  from rk rm have m: "length rk = m" by (auto dest: map_of_SomeD)
  let ?ix = "join_index lk rk"
  let ?merged = "map (\<lambda>(n, vs). (n, take_left ?ix vs)) left @
                 map (\<lambda>(n, vs). (n, take_right ?ix vs)) (filter (\<lambda>(n, vs). n \<noteq> ''Date'') right)"
  have mg: "merge_left ''Date'' left right = Inr ?merged"
    by (simp add: merge_left_def getitem_def lk rk)
  have d: "map_of ?merged ''Date'' \<noteq> None"
    by (simp add: map_of_map_cols lk)
  have "\<forall>(name, col) \<in> set ?merged. length col = length ?ix \<and> (name \<noteq> ''Date'' \<longrightarrow> list_all numeric col)"
  proof (clarify, intro conjI impI)
    fix name col assume "(name, col) \<in> set ?merged"
    then show "length col = length ?ix"
      by (auto simp: take_left_def take_right_def)
  next
    fix name col assume in_m: "(name, col) \<in> set ?merged" and nd: "name \<noteq> ''Date''"
    from in_m consider vs where "(name, vs) \<in> set left" "col = take_left ?ix vs"
      | vs where "(name, vs) \<in> set right" "col = take_right ?ix vs"
      by auto
    then show "list_all numeric col"
    proof cases
      case 1
      with ln nd n show ?thesis by (auto intro: take_left_numeric)
    next
      case 2
      with rm nd m show ?thesis by (auto intro: take_right_numeric)
    qed
  qed
  with d have "table_ok ?merged" unfolding table_ok_def by blast
  with mg show ?thesis by blast
qed

lemma map_of_Date_key: "map_of STATE_SERIES_IDS ''Date'' = None"
  by (simp add: STATE_SERIES_IDS_def)

lemma num_cell_numeric: "numeric (num_cell v)"
  by (cases v) (simp_all add: num_cell_def numeric_def)

lemma get_series_ok:
  "fred sid = Some obs \<Longrightarrow> name \<noteq> ''Date'' \<Longrightarrow>
   table_ok (rename ''Unemployment Rate'' name (fst (get_series fred sid)))"
  by (auto simp: table_ok_def get_series_def rename_def list_all_iff num_cell_numeric)

lemma merge_states_ok:
  "table_ok df \<Longrightarrow> merge_states fred states df = Inr out \<Longrightarrow> table_ok out"
proof (induction states arbitrary: df)
  case Nil
  then show ?case by simp
next
  case (Cons state rest)
  from Cons.prems(2) obtain sid where sid: "map_of STATE_SERIES_IDS state = Some sid"
    by (auto split: option.splits)
  with map_of_Date_key have nd: "state \<noteq> ''Date''" by auto
  show ?case
  proof (cases "is_empty (fst (get_series fred sid))")
    case True
    with Cons sid show ?thesis by simp
  next
    case False
    then obtain obs where obs: "fred sid = Some obs"
      using get_series_empty_None by (cases "fred sid") auto
    from merge_left_ok[OF Cons.prems(1) get_series_ok[of fred sid obs state]] obs nd
    obtain merged where mg: "merge_left ''Date'' df
        (rename ''Unemployment Rate'' state (fst (get_series fred sid))) = Inr merged"
      and ok: "table_ok merged" by auto
    from Cons.prems(2) sid False mg have "merge_states fred rest merged = Inr out" by simp
    from Cons.IH[OF ok this] show ?thesis .
  qed
qed

lemma build_comparison_ok:
  assumes "build_comparison fred states = Inr df"
  shows "table_ok df"
proof -
  from assms obtain us_obs where us: "fred ''UNRATE'' = Some us_obs"
    by (cases "fred ''UNRATE''")
       (auto simp: build_comparison_def national_def get_series_def rename_def getitem_def DataFrame_def)
  let ?base = "[(''Date'', map (\<lambda>ob. Dt (fst ob)) us_obs),
                (''United States'', map (\<lambda>ob. num_cell (snd ob)) us_obs)]"
  have "table_ok ?base"
    by (auto simp: table_ok_def list_all_iff num_cell_numeric)
  moreover have "merge_states fred states ?base = Inr df"
    using assms national_frame[of fred us_obs] us by (simp add: build_comparison_def)
  ultimately show ?thesis by (rule merge_states_ok)
qed

lemma length_select_eq:
  "length a = length b \<Longrightarrow> length (select keep a) = length (select keep b)"
proof (induction keep arbitrary: a b)
  case Nil
  then show ?case by (simp add: select_def)
next
  case (Cons k keep)
  then show ?case by (cases a; cases b) (auto simp: select_def)
qed

lemma loc_ok: "table_ok df \<Longrightarrow> table_ok (loc keep df)"
proof -
  assume ok: "table_ok df"
  then obtain n where n: "\<forall>(name, col) \<in> set df. length col = n \<and> (name \<noteq> ''Date'' \<longrightarrow> list_all numeric col)"
    by (auto simp: table_ok_def)
  have "\<forall>(name, col) \<in> set (loc keep df).
          length col = length (select keep (replicate n Null)) \<and> (name \<noteq> ''Date'' \<longrightarrow> list_all numeric col)"
  proof (clarify, intro conjI impI)
    fix name col assume "(name, col) \<in> set (loc keep df)"
    then obtain vs where vs: "(name, vs) \<in> set df" "col = select keep vs"
      by (auto simp: loc_def)
    with n have "length vs = length (replicate n Null)" by auto
    from length_select_eq[OF this, of keep] vs(2)
    show "length col = length (select keep (replicate n Null))" by simp
  next
    fix name col assume "(name, col) \<in> set (loc keep df)" and nd: "name \<noteq> ''Date''"
    then obtain vs where vs: "(name, vs) \<in> set df" "col = select keep vs"
      by (auto simp: loc_def)
    with n nd show "list_all numeric col" by (auto intro: numeric_select)
  qed
  moreover from ok have "map_of (loc keep df) ''Date'' \<noteq> None"
    by (simp add: table_ok_def map_of_loc)
  ultimately show ?thesis unfolding table_ok_def by blast
qed

lemma filter_window_3cols_ok:
  "table_ok df \<Longrightarrow> filter_window_3cols w df = Inr out \<Longrightarrow> table_ok out"
  by (cases w) (auto simp: filter_window_3cols_def filter_window_def getitem_def loc_ok
                      split: option.splits)

lemma table_ok_state_column:
  assumes "table_ok df" "map_of df state = Some col" "state \<noteq> ''Date''"
  shows "list_all numeric col"
  using assms by (auto simp: table_ok_def dest!: map_of_SomeD)

section \<open>Float64 values\<close>

declare pairwise_sum.simps [simp del]

lemma set_exponents: "set exponents = {- 1022..1023}"
  unfolding exponents_def by (rule set_upto)

lemma exponent_unique:
  fixes x :: rat
  assumes "2 powi e \<le> \<bar>x\<bar>" "\<bar>x\<bar> < 2 powi (e + 1)" "2 powi e' \<le> \<bar>x\<bar>" "\<bar>x\<bar> < 2 powi (e' + 1)"
  shows "e = e'"
proof (rule ccontr)
  assume "e \<noteq> e'"
  then consider "e + 1 \<le> e'" | "e' + 1 \<le> e" by linarith
  then show False
  proof cases
    case 1
    then have "(2::rat) powi (e + 1) \<le> 2 powi e'" by (intro power_int_increasing) auto
    with assms show False by linarith
  next
    case 2
    then have "(2::rat) powi (e' + 1) \<le> 2 powi e" by (intro power_int_increasing) auto
    with assms show False by linarith
  qed
qed

lemma exponent_of_eq:
  assumes "2 powi e \<le> \<bar>x\<bar>" "\<bar>x\<bar> < 2 powi (e + 1)" "- 1022 \<le> e" "e \<le> 1023"
  shows "exponent_of x = Some e"
proof -
  let ?P = "\<lambda>e. 2 powi e \<le> \<bar>x\<bar> \<and> \<bar>x\<bar> < 2 powi (e + 1)"
  have "e \<in> set exponents" using assms(3,4) by (simp add: set_exponents)
  with assms(1,2) have "\<exists>a \<in> set exponents. ?P a" by blast
  then obtain e' where f: "find ?P exponents = Some e'"
    by (cases "find ?P exponents") (auto simp: find_None_iff)
  then have "?P e'" by (auto simp: find_Some_iff)
  with assms(1,2) have "e = e'" using exponent_unique by blast
  with f show ?thesis by (simp add: exponent_of_def)
qed

lemma normal_range:
  fixes x :: rat
  assumes "2 powi e \<le> \<bar>x\<bar>" "- 1022 \<le> e"
  shows "\<not> \<bar>x\<bar> < 2 powi (- 1022)"
proof -
  from assms(2) have "(2::rat) powi (- 1022) \<le> 2 powi e" by (intro power_int_increasing) auto
  with assms(1) show ?thesis by linarith
qed

lemma rint_near: "\<bar>x - of_int k\<bar> < 1 / 2 \<Longrightarrow> rint x = k"
proof -
  assume a: "\<bar>x - of_int k\<bar> < 1 / 2"
  have f: "of_int \<lfloor>x\<rfloor> \<le> x" "x < of_int \<lfloor>x\<rfloor> + 1" by linarith+
  from a have b: "of_int k - 1 / 2 < x" "x < of_int k + 1 / 2" by linarith+
  have "\<lfloor>x\<rfloor> = k \<or> \<lfloor>x\<rfloor> = k - 1"
  proof -
    from b f have "(of_int \<lfloor>x\<rfloor> :: rat) < of_int k + 1 / 2" "(of_int k :: rat) - 3 / 2 < of_int \<lfloor>x\<rfloor>"
      by linarith+
    then have "(of_int \<lfloor>x\<rfloor> :: rat) < of_int (k + 1)" "(of_int (k - 2) :: rat) < of_int \<lfloor>x\<rfloor>"
      by simp_all
    then have "\<lfloor>x\<rfloor> < k + 1" "k - 2 < \<lfloor>x\<rfloor>" by (simp_all only: of_int_less_iff)
    then show ?thesis by linarith
  qed
  then show ?thesis
  proof
    assume e: "\<lfloor>x\<rfloor> = k"
    with b show ?thesis by (simp add: rint_def)
  next
    assume e: "\<lfloor>x\<rfloor> = k - 1"
    with b have "1 / 2 < x - of_int \<lfloor>x\<rfloor>" by simp
    with e show ?thesis by (simp add: rint_def)
  qed
qed

lemma rint_tie: "x = of_int k + 1 / 2 \<or> x = of_int k - 1 / 2 \<Longrightarrow> even k \<Longrightarrow> rint x = k"
proof -
  assume a: "x = of_int k + 1 / 2 \<or> x = of_int k - 1 / 2" and ev: "even k"
  from a show ?thesis
  proof
    assume x: "x = of_int k + 1 / 2"
    then have "\<lfloor>x\<rfloor> = k" by (simp add: floor_eq_iff)
    with x ev show ?thesis by (simp add: rint_def)
  next
    assume x: "x = of_int k - 1 / 2"
    then have fl: "\<lfloor>x\<rfloor> = k - 1" by (simp add: floor_eq_iff)
    with x ev show ?thesis by (simp add: rint_def)
  qed
qed

text \<open>How a float64 value is computed from the exponent and the significand.\<close>

lemma float64_near:
  assumes "2 powi e \<le> \<bar>x\<bar>" "\<bar>x\<bar> < 2 powi (e + 1)" "- 1022 \<le> e" "e \<le> 1023"
    and "\<bar>x / 2 powi (e - 52) - of_int k\<bar> < 1 / 2"
  shows "float64 x = of_int k * 2 powi (e - 52)"
  using normal_range[OF assms(1,3)]
  by (simp add: float64_def exponent_of_eq[OF assms(1-4)] rint_near[OF assms(5)])

lemma float64_tie:
  assumes "2 powi e \<le> \<bar>x\<bar>" "\<bar>x\<bar> < 2 powi (e + 1)" "- 1022 \<le> e" "e \<le> 1023"
    and "x / 2 powi (e - 52) = of_int k + 1 / 2 \<or> x / 2 powi (e - 52) = of_int k - 1 / 2" "even k"
  shows "float64 x = of_int k * 2 powi (e - 52)"
  using normal_range[OF assms(1,3)]
  by (simp add: float64_def exponent_of_eq[OF assms(1-4)] rint_tie[OF assms(5,6)])

lemma float64_zero: "float64 0 = 0"
  by (simp add: float64_def rint_def)

text \<open>
  The float64 values nearest to 4.1, 3.456 and 3.458, and the results of the
  operations on them that are used below.
\<close>

lemma float64_rates:
  "float64 (41 / 10) = 2308094809027379 / 562949953421312"
  "float64 (432 / 125) = 7782220156096217 / 2251799813685248"
  "float64 (1729 / 500) = 1946680938930897 / 562949953421312"
  using float64_near [of 2 "41 / 10" 4616189618054758]
    float64_near [of 1 "432 / 125" 7782220156096217]
    float64_near [of 1 "1729 / 500" 7786723755723588]
  by simp_all

lemma float64_value_1: "float64 4 = 4"
  using float64_near [of 2 4 4503599627370496] by simp

lemma float64_value_2: "float64 8 = 8"
  using float64_near [of 3 8 4503599627370496] by simp

lemma float64_value_3: "float64 12 = 12"
  using float64_near [of 3 12 6755399441055744] by simp

lemma float64_value_4: "float64 (9063494250083123 / 562949953421312) = 2265873562520781 / 140737488355328"
  using float64_tie [of 4 "9063494250083123 / 562949953421312" 4531747125041562] by simp

lemma float64_value_5: "float64 (2265873562520781 / 562949953421312) = 2265873562520781 / 562949953421312"
  using float64_near [of 2 "2265873562520781 / 562949953421312" 4531747125041562] by simp

lemma float64_value_6: "float64 (56646839063019525 / 140737488355328) = 7080854882877441 / 17592186044416"
  using float64_near [of 8 "56646839063019525 / 140737488355328" 7080854882877441] by simp

lemma float64_value_7: "float64 (403 / 100) = 4537376624575775 / 1125899906842624"
  using float64_near [of 2 "403 / 100" 4537376624575775] by simp

lemma float64_value_8: "float64 (7782220156096217 / 2251799813685248) = 7782220156096217 / 2251799813685248"
  using float64_near [of 1 "7782220156096217 / 2251799813685248" 7782220156096217] by simp

lemma float64_value_9: "float64 (15568943911819805 / 2251799813685248) = 3892235977954951 / 562949953421312"
  using float64_tie [of 2 "15568943911819805 / 2251799813685248" 7784471955909902] by simp

lemma float64_value_10: "float64 (3892235977954951 / 1125899906842624) = 3892235977954951 / 1125899906842624"
  using float64_near [of 1 "3892235977954951 / 1125899906842624" 7784471955909902] by simp

lemma float64_value_11: "float64 (97305899448873775 / 281474976710656) = 6081618715554611 / 17592186044416"
  using float64_near [of 8 "97305899448873775 / 281474976710656" 6081618715554611] by simp

lemma float64_value_12: "float64 (173 / 50) = 3895613677675479 / 1125899906842624"
  using float64_near [of 1 "173 / 50" 7791227355350958] by simp


lemmas float64_values =
  float64_value_1 float64_value_2 float64_value_3 float64_value_4 float64_value_5 float64_value_6
  float64_value_7 float64_value_8 float64_value_9 float64_value_10 float64_value_11 float64_value_12

lemma float64_sums:
  "fadd 0 4 = 4"
  "fadd 4 4 = 8"
  "fadd 8 0 = 8"
  "fadd 8 4 = 12"
  "fadd 12 (2308094809027379 / 562949953421312) = 2265873562520781 / 140737488355328"
  "fdiv (2265873562520781 / 140737488355328) 4 = 2265873562520781 / 562949953421312"
  "fmul (2265873562520781 / 562949953421312) 100 = 7080854882877441 / 17592186044416"
  "fdiv 403 100 = 4537376624575775 / 1125899906842624"
  "fadd 0 (7782220156096217 / 2251799813685248) = 7782220156096217 / 2251799813685248"
  "fadd (7782220156096217 / 2251799813685248) (1946680938930897 / 562949953421312) = 3892235977954951 / 562949953421312"
  "fdiv (3892235977954951 / 562949953421312) 2 = 3892235977954951 / 1125899906842624"
  "fmul (3892235977954951 / 1125899906842624) 100 = 6081618715554611 / 17592186044416"
  "fdiv 346 100 = 3895613677675479 / 1125899906842624"
  by (simp_all add: fadd_def fmul_def fdiv_def float64_zero float64_values)

lemma rint_values:
  "rint (7080854882877441 / 17592186044416) = 403"
  "rint (6081618715554611 / 17592186044416) = 346"
  using rint_near [of "7080854882877441 / 17592186044416" 403]
    rint_near [of "6081618715554611 / 17592186044416" 346]
  by simp_all

section \<open>State map data of an assembled table\<close>

text \<open>The cells of a column at the rows whose date falls in the calendar year.\<close>

definition rows_of_year :: "int \<Rightarrow> cell list \<Rightarrow> cell list \<Rightarrow> cell list" where
  "rows_of_year y dates col = map snd (filter (\<lambda>(d, c). in_year y d) (zip dates col))"

text \<open>
  The arithmetic mean the claims speak of, in exact arithmetic, to compare with the
  value the program computes.
\<close>

definition arithmetic_mean :: "rat list \<Rightarrow> rat" where
  "arithmetic_mean vs = sum_list vs / of_nat (length vs)"

text \<open>
  A national series of eight months from December 2019 to February 2021. The Texas
  series has no observation for March 2020; its rates from January to May 2020 are
  4.0, 4.0, 4.0 and 4.1, and those of 2021 are 3.456 and 3.458. The Utah series has a
  rate for December 2019 and a missing value for February 2021.
\<close>

definition fred_rates :: api where
  "fred_rates sid =
     (if sid = ''UNRATE''
      then Some [(Date 2019 12 1, Some (7 / 2)), (Date 2020 1 1, Some (7 / 2)),
                 (Date 2020 2 1, Some (7 / 2)), (Date 2020 3 1, Some (9 / 2)),
                 (Date 2020 4 1, Some 15), (Date 2020 5 1, Some 13),
                 (Date 2021 1 1, Some (13 / 2)), (Date 2021 2 1, Some 6)]
      else if sid = ''TXUR''
      then Some [(Date 2019 12 1, Some (7 / 2)), (Date 2020 1 1, Some 4),
                 (Date 2020 2 1, Some 4), (Date 2020 4 1, Some 4),
                 (Date 2020 5 1, Some (float64 (41 / 10))),
                 (Date 2021 1 1, Some (float64 (432 / 125))),
                 (Date 2021 2 1, Some (float64 (1729 / 500)))]
      else if sid = ''UTUR'' then Some [(Date 2019 12 1, Some 3), (Date 2021 2 1, None)]
      else None)"

text \<open>The table assembled from it for Texas and Utah, and its rows from January 2020 on.\<close>

definition rates_assembled :: frame where
  "rates_assembled =
     [(''Date'', [Dt (Date 2019 12 1), Dt (Date 2020 1 1), Dt (Date 2020 2 1), Dt (Date 2020 3 1),
                  Dt (Date 2020 4 1), Dt (Date 2020 5 1), Dt (Date 2021 1 1), Dt (Date 2021 2 1)]),
      (''United States'', [Num (7 / 2), Num (7 / 2), Num (7 / 2), Num (9 / 2), Num 15, Num 13,
                           Num (13 / 2), Num 6]),
      (''Texas'', [Num (7 / 2), Num 4, Num 4, Null, Num 4, Num (float64 (41 / 10)),
                   Num (float64 (432 / 125)), Num (float64 (1729 / 500))]),
      (''Utah'', [Num 3, Null, Null, Null, Null, Null, Null, Null])]"

definition rates_table :: frame where
  "rates_table =
     [(''Date'', [Dt (Date 2020 1 1), Dt (Date 2020 2 1), Dt (Date 2020 3 1),
                  Dt (Date 2020 4 1), Dt (Date 2020 5 1), Dt (Date 2021 1 1), Dt (Date 2021 2 1)]),
      (''United States'', [Num (7 / 2), Num (7 / 2), Num (9 / 2), Num 15, Num 13,
                           Num (13 / 2), Num 6]),
      (''Texas'', [Num 4, Num 4, Null, Num 4, Num (float64 (41 / 10)),
                   Num (float64 (432 / 125)), Num (float64 (1729 / 500))]),
      (''Utah'', [Null, Null, Null, Null, Null, Null, Null])]"

lemma rates_national:
  "national fred_rates =
     [(''Date'', [Dt (Date 2019 12 1), Dt (Date 2020 1 1), Dt (Date 2020 2 1), Dt (Date 2020 3 1),
                  Dt (Date 2020 4 1), Dt (Date 2020 5 1), Dt (Date 2021 1 1), Dt (Date 2021 2 1)]),
      (''United States'', [Num (7 / 2), Num (7 / 2), Num (7 / 2), Num (9 / 2), Num 15, Num 13,
                           Num (13 / 2), Num 6])]"
  by (simp add: national_def get_series_def fred_rates_def rename_def num_cell_def)

lemma rates_texas:
  "fst (get_series fred_rates ''TXUR'') =
     [(''Date'', [Dt (Date 2019 12 1), Dt (Date 2020 1 1), Dt (Date 2020 2 1),
                  Dt (Date 2020 4 1), Dt (Date 2020 5 1), Dt (Date 2021 1 1), Dt (Date 2021 2 1)]),
      (''Unemployment Rate'', [Num (7 / 2), Num 4, Num 4, Num 4, Num (float64 (41 / 10)),
                   Num (float64 (432 / 125)), Num (float64 (1729 / 500))])]"
  by (simp add: get_series_def fred_rates_def num_cell_def)

lemma rates_utah:
  "fst (get_series fred_rates ''UTUR'') =
     [(''Date'', [Dt (Date 2019 12 1), Dt (Date 2021 2 1)]), (''Unemployment Rate'', [Num 3, Null])]"
  by (simp add: get_series_def fred_rates_def num_cell_def)

lemma rates_merge_texas:
  "merge_left ''Date'' (national fred_rates)
     (rename ''Unemployment Rate'' ''Texas'' (fst (get_series fred_rates ''TXUR''))) =
   Inr [(''Date'', [Dt (Date 2019 12 1), Dt (Date 2020 1 1), Dt (Date 2020 2 1), Dt (Date 2020 3 1),
                  Dt (Date 2020 4 1), Dt (Date 2020 5 1), Dt (Date 2021 1 1), Dt (Date 2021 2 1)]),
      (''United States'', [Num (7 / 2), Num (7 / 2), Num (7 / 2), Num (9 / 2), Num 15, Num 13,
                           Num (13 / 2), Num 6]),
      (''Texas'', [Num (7 / 2), Num 4, Num 4, Null, Num 4, Num (float64 (41 / 10)),
                   Num (float64 (432 / 125)), Num (float64 (1729 / 500))])]"
  unfolding rates_national rates_texas
  by (simp add: rename_def merge_left_def getitem_def join_index_def matches_def
        take_left_def take_right_def)

lemma rates_build: "build_comparison fred_rates [''Texas'', ''Utah''] = Inr rates_assembled"
proof -
  have n: "getitems (national fred_rates) [''Date'', ''United States''] = Inr (national fred_rates)"
    by (simp add: rates_national getitem_def)
  have t: "\<not> is_empty (fst (get_series fred_rates ''TXUR''))"
    by (simp add: rates_texas is_empty_def nrows_def)
  have u: "\<not> is_empty (fst (get_series fred_rates ''UTUR''))"
    by (simp add: rates_utah is_empty_def nrows_def)
  have m: "merge_left ''Date''
     [(''Date'', [Dt (Date 2019 12 1), Dt (Date 2020 1 1), Dt (Date 2020 2 1), Dt (Date 2020 3 1),
                  Dt (Date 2020 4 1), Dt (Date 2020 5 1), Dt (Date 2021 1 1), Dt (Date 2021 2 1)]),
      (''United States'', [Num (7 / 2), Num (7 / 2), Num (7 / 2), Num (9 / 2), Num 15, Num 13,
                           Num (13 / 2), Num 6]),
      (''Texas'', [Num (7 / 2), Num 4, Num 4, Null, Num 4, Num (float64 (41 / 10)),
                   Num (float64 (432 / 125)), Num (float64 (1729 / 500))])]
     (rename ''Unemployment Rate'' ''Utah'' (fst (get_series fred_rates ''UTUR''))) =
     Inr rates_assembled"
    unfolding rates_utah
    by (simp add: rename_def merge_left_def getitem_def join_index_def matches_def
          take_left_def take_right_def rates_assembled_def)
  show ?thesis
    unfolding build_comparison_def n
    by (simp add: map_of_Texas map_of_Utah t u rates_merge_texas m del: One_nat_def)
qed

lemma rates_window:
  "filter_window_3cols (Some (Date 2020 1 1, Date 2021 2 1)) rates_assembled = Inr rates_table"
  by (simp add: filter_window_3cols_def filter_window_def rates_assembled_def getitem_def
        in_window_def less_eq_date_def loc_def select_def rates_table_def)

lemma rates_2020:
  "project_for_year rates_table 2020 [''Texas'', ''Utah''] = Inr [(''Texas'', float64 (403 / 100))]"
proof -
  have y: "filter_year 2020 rates_table =
     Inr [(''Date'', [Dt (Date 2020 1 1), Dt (Date 2020 2 1), Dt (Date 2020 3 1),
                      Dt (Date 2020 4 1), Dt (Date 2020 5 1)]),
          (''United States'', [Num (7 / 2), Num (7 / 2), Num (9 / 2), Num 15, Num 13]),
          (''Texas'', [Num 4, Num 4, Null, Num 4, Num (float64 (41 / 10))]),
          (''Utah'', [Null, Null, Null, Null, Null])]"
    by (simp add: filter_year_def rates_table_def getitem_def in_year_def loc_def select_def)
  have s: "pairwise_sum [4, 4, 0, 4, 2308094809027379 / 562949953421312] =
      2265873562520781 / 140737488355328"
    by (simp add: pairwise_sum.simps float64_sums)
  have m: "mean [Num 4, Num 4, Null, Num 4, Num (float64 (41 / 10))] =
      2265873562520781 / 562949953421312"
    by (simp add: mean_def zero_filled_def dropna_def float64_rates s float64_sums)
  have r: "round2 (2265873562520781 / 562949953421312) = float64 (403 / 100)"
    by (simp add: round2_def float64_sums rint_values float64_values)
  show ?thesis
    unfolding project_for_year_def y
    by (simp add: dropna_def m r)
qed

lemma rates_2021:
  "project_for_year rates_table 2021 [''Texas'', ''Utah''] = Inr [(''Texas'', float64 (173 / 50))]"
proof -
  have y: "filter_year 2021 rates_table =
     Inr [(''Date'', [Dt (Date 2021 1 1), Dt (Date 2021 2 1)]),
          (''United States'', [Num (13 / 2), Num 6]),
          (''Texas'', [Num (float64 (432 / 125)), Num (float64 (1729 / 500))]),
          (''Utah'', [Null, Null])]"
    by (simp add: filter_year_def rates_table_def getitem_def in_year_def loc_def select_def)
  have s: "pairwise_sum [7782220156096217 / 2251799813685248, 1946680938930897 / 562949953421312] =
      3892235977954951 / 562949953421312"
    by (simp add: pairwise_sum.simps float64_sums)
  have m: "mean [Num (float64 (432 / 125)), Num (float64 (1729 / 500))] =
      3892235977954951 / 1125899906842624"
    by (simp add: mean_def zero_filled_def dropna_def float64_rates s float64_sums)
  have r: "round2 (3892235977954951 / 1125899906842624) = float64 (173 / 50)"
    by (simp add: round2_def float64_sums rint_values float64_values)
  show ?thesis
    unfolding project_for_year_def y
    by (simp add: dropna_def m r)
qed

lemma select_rows_of_year: "select (map (in_year y) dates) col = rows_of_year y dates col"
  unfolding select_def rows_of_year_def
  by (induction dates arbitrary: col) (auto simp: zip_Cons1 split: list.splits)

lemma assembled_has_dates:
  "table_ok df \<Longrightarrow> \<exists>dates. getitem df ''Date'' = Inr dates"
  by (auto simp: table_ok_def getitem_def)

lemma project_for_year_lookup:
  assumes d: "getitem comparison_df ''Date'' = Inr dates"
  shows "\<exists>m. project_for_year comparison_df y states = Inr m \<and>
     (\<forall>state. map_of m state =
        (if state \<in> set states
         then (case map_of comparison_df state of
                 None \<Rightarrow> None
               | Some col \<Rightarrow>
                   if dropna (rows_of_year y dates col) = [] then None
                   else Some (round2 (mean (rows_of_year y dates col))))
         else None))"
  by (auto simp: project_for_year_def filter_year_def d map_of_state_map_data map_of_loc
        select_rows_of_year split: option.splits)

lemma merge_states_keys:
  "merge_states fred states df = Inr out \<Longrightarrow> \<forall>state \<in> set states. state \<noteq> ''Date''"
proof (induction states arbitrary: df)
  case Nil
  then show ?case by simp
next
  case (Cons state rest)
  from Cons.prems obtain sid where sid: "map_of STATE_SERIES_IDS state = Some sid"
    by (auto split: option.splits)
  with map_of_Date_key have nd: "state \<noteq> ''Date''" by auto
  from Cons.prems sid obtain df' where "merge_states fred rest df' = Inr out"
    by (auto split: if_splits sum.splits)
  from Cons.IH[OF this] nd show ?case by simp
qed

lemma build_comparison_keys:
  "build_comparison fred states = Inr df \<Longrightarrow> \<forall>state \<in> set states. state \<noteq> ''Date''"
  by (auto simp: build_comparison_def split: sum.splits dest: merge_states_keys)

lemma numeric_rows_of_year:
  "list_all numeric col \<Longrightarrow> list_all numeric (rows_of_year y dates col)"
  using numeric_select[of col "map (in_year y) dates"] by (simp add: select_rows_of_year)

lemma state_map_data_entry:
  "(state, v) \<in> set (state_map_data df_year states) \<Longrightarrow>
   state \<in> set states \<and>
   (\<exists>col. map_of df_year state = Some col \<and> dropna col \<noteq> [] \<and> v = round2 (mean col))"
  by (induction states) (auto split: option.splits if_splits)

lemma rates_dates:
  "getitem rates_table ''Date'' =
     Inr [Dt (Date 2020 1 1), Dt (Date 2020 2 1), Dt (Date 2020 3 1),
          Dt (Date 2020 4 1), Dt (Date 2020 5 1), Dt (Date 2021 1 1), Dt (Date 2021 2 1)]"
  by (simp add: rates_table_def getitem_def)

lemma rates_columns:
  "map_of rates_table ''Texas'' =
     Some [Num 4, Num 4, Null, Num 4, Num (float64 (41 / 10)),
           Num (float64 (432 / 125)), Num (float64 (1729 / 500))]"
  "map_of rates_table ''Utah'' = Some [Null, Null, Null, Null, Null, Null, Null]"
  by (simp_all add: rates_table_def)

lemma rates_rows:
  "rows_of_year 2020
     [Dt (Date 2020 1 1), Dt (Date 2020 2 1), Dt (Date 2020 3 1),
      Dt (Date 2020 4 1), Dt (Date 2020 5 1), Dt (Date 2021 1 1), Dt (Date 2021 2 1)]
     [Num 4, Num 4, Null, Num 4, Num (float64 (41 / 10)),
      Num (float64 (432 / 125)), Num (float64 (1729 / 500))] =
   [Num 4, Num 4, Null, Num 4, Num (float64 (41 / 10))]"
  "rows_of_year 2020
     [Dt (Date 2020 1 1), Dt (Date 2020 2 1), Dt (Date 2020 3 1),
      Dt (Date 2020 4 1), Dt (Date 2020 5 1), Dt (Date 2021 1 1), Dt (Date 2021 2 1)]
     [Null, Null, Null, Null, Null, Null, Null] =
   [Null, Null, Null, Null, Null]"
  by (simp_all add: rows_of_year_def in_year_def)

text \<open>
  Claim C3, amended. For every table the assembly produces and the window filter
  leaves, every year and every selection, the state map data is built, and it maps
  a region to a value exactly when the region is selected, has a column in the
  table (its series was fetched), and that column has a number among the rows of
  the year. The value is then \<open>round(mean, 2)\<close> of those rows: the float64 mean that
  pandas computes over the cells that are not null, rounded to two decimals by
  NumPy. Every other region is left out of the mapping. In a selected region's
  column the cells that are not null are exactly the numbers.
\<close>

theorem state_map_data_is_rounded_yearly_mean:
  assumes "build_comparison fred states_selected = Inr assembled"
    and "filter_window_3cols w assembled = Inr comparison_df"
  shows "\<exists>dates m.
     getitem comparison_df ''Date'' = Inr dates \<and>
     project_for_year comparison_df y states_selected = Inr m \<and>
     (\<forall>state. map_of m state =
        (if state \<in> set states_selected
         then (case map_of comparison_df state of
                 None \<Rightarrow> None
               | Some col \<Rightarrow>
                   if nums_of (rows_of_year y dates col) = [] then None
                   else Some (round2 (mean (rows_of_year y dates col))))
         else None)) \<and>
     (\<forall>state \<in> set states_selected. \<forall>col. map_of comparison_df state = Some col \<longrightarrow>
        dropna (rows_of_year y dates col) = map Num (nums_of (rows_of_year y dates col)))"
proof -
  have ok: "table_ok comparison_df"
    using build_comparison_ok[OF assms(1)] assms(2) by (rule filter_window_3cols_ok)
  from assembled_has_dates[OF ok] obtain dates where d: "getitem comparison_df ''Date'' = Inr dates"
    by blast
  have num: "\<And>state col. state \<in> set states_selected \<Longrightarrow> map_of comparison_df state = Some col \<Longrightarrow>
      dropna (rows_of_year y dates col) = map Num (nums_of (rows_of_year y dates col))"
  proof -
    fix state col
    assume "state \<in> set states_selected" and c: "map_of comparison_df state = Some col"
    with build_comparison_keys[OF assms(1)] have "state \<noteq> ''Date''" by blast
    from table_ok_state_column[OF ok c this] show
      "dropna (rows_of_year y dates col) = map Num (nums_of (rows_of_year y dates col))"
      by (intro dropna_numeric numeric_rows_of_year)
  qed
  from project_for_year_lookup[OF d, of y states_selected] obtain m where
    m: "project_for_year comparison_df y states_selected = Inr m"
    and lk: "\<forall>state. map_of m state =
        (if state \<in> set states_selected
         then (case map_of comparison_df state of
                 None \<Rightarrow> None
               | Some col \<Rightarrow>
                   if dropna (rows_of_year y dates col) = [] then None
                   else Some (round2 (mean (rows_of_year y dates col))))
         else None)" by blast
  have "\<forall>state. map_of m state =
        (if state \<in> set states_selected
         then (case map_of comparison_df state of
                 None \<Rightarrow> None
               | Some col \<Rightarrow>
                   if nums_of (rows_of_year y dates col) = [] then None
                   else Some (round2 (mean (rows_of_year y dates col))))
         else None)"
  proof
    fix state
    show "map_of m state =
        (if state \<in> set states_selected
         then (case map_of comparison_df state of
                 None \<Rightarrow> None
               | Some col \<Rightarrow>
                   if nums_of (rows_of_year y dates col) = [] then None
                   else Some (round2 (mean (rows_of_year y dates col))))
         else None)"
    proof (cases "state \<in> set states_selected")
      case False
      with lk show ?thesis by simp
    next
      case True
      show ?thesis
      proof (cases "map_of comparison_df state")
        case None
        with lk True show ?thesis by simp
      next
        case (Some col)
        from num[OF True Some] lk True Some show ?thesis by simp
      qed
    qed
  qed
  with d m num show ?thesis by blast
qed

theorem rounded_yearly_mean_witness:
  "build_comparison fred_rates [''Texas'', ''Utah''] = Inr rates_assembled \<and>
   filter_window_3cols (Some (Date 2020 1 1, Date 2021 2 1)) rates_assembled = Inr rates_table \<and>
   (\<exists>dates m.
      getitem rates_table ''Date'' = Inr dates \<and>
      project_for_year rates_table 2020 [''Texas'', ''Utah''] = Inr m \<and>
      m = [(''Texas'', float64 (403 / 100))] \<and>
      map_of m ''Texas'' =
        Some (round2 (mean [Num 4, Num 4, Null, Num 4, Num (float64 (41 / 10))])) \<and>
      map_of m ''Utah'' = None \<and> map_of m ''California'' = None \<and>
      dropna [Num 4, Num 4, Null, Num 4, Num (float64 (41 / 10))] =
        map Num [4, 4, 4, float64 (41 / 10)])"
proof -
  from state_map_data_is_rounded_yearly_mean [OF rates_build rates_window, of 2020]
  obtain dates m where
    d: "getitem rates_table ''Date'' = Inr dates"
    and m: "project_for_year rates_table 2020 [''Texas'', ''Utah''] = Inr m"
    and lk: "\<forall>state. map_of m state =
        (if state \<in> set [''Texas'', ''Utah'']
         then (case map_of rates_table state of
                 None \<Rightarrow> None
               | Some col \<Rightarrow>
                   if nums_of (rows_of_year 2020 dates col) = [] then None
                   else Some (round2 (mean (rows_of_year 2020 dates col))))
         else None)"
    and dn: "\<forall>state \<in> set [''Texas'', ''Utah'']. \<forall>col. map_of rates_table state = Some col \<longrightarrow>
        dropna (rows_of_year 2020 dates col) = map Num (nums_of (rows_of_year 2020 dates col))"
    by blast
  from d rates_dates have ds: "dates =
     [Dt (Date 2020 1 1), Dt (Date 2020 2 1), Dt (Date 2020 3 1),
      Dt (Date 2020 4 1), Dt (Date 2020 5 1), Dt (Date 2021 1 1), Dt (Date 2021 2 1)]" by simp
  from m rates_2020 have mv: "m = [(''Texas'', float64 (403 / 100))]" by simp
  have t: "map_of m ''Texas'' =
        Some (round2 (mean [Num 4, Num 4, Null, Num 4, Num (float64 (41 / 10))]))"
    using lk[rule_format, of "''Texas''"]
    by (simp add: ds rates_columns rates_rows del: One_nat_def)
  have u: "map_of m ''Utah'' = None"
    using lk[rule_format, of "''Utah''"]
    by (simp add: ds rates_columns rates_rows del: One_nat_def)
  have c: "map_of m ''California'' = None"
    using lk[rule_format, of "''California''"] by simp
  have n: "dropna [Num 4, Num 4, Null, Num 4, Num (float64 (41 / 10))] =
        map Num [4, 4, 4, float64 (41 / 10)]"
    using dn[rule_format, of "''Texas''"]
    by (simp add: ds rates_columns rates_rows del: One_nat_def)
  from rates_build rates_window d m mv t u c n show ?thesis by blast
qed

text \<open>
  The claim as stated fails: with the Texas rates 4.0, 4.0, 4.0 and 4.1 of 2020 the
  mapping holds the float64 value 4.03, which is not the arithmetic mean of the four
  rates.
\<close>

theorem state_map_value_is_not_the_mean:
  "build_comparison fred_rates [''Texas'', ''Utah''] = Inr rates_assembled \<and>
   filter_window_3cols (Some (Date 2020 1 1, Date 2021 2 1)) rates_assembled = Inr rates_table \<and>
   project_for_year rates_table 2020 [''Texas'', ''Utah''] = Inr [(''Texas'', float64 (403 / 100))] \<and>
   nums_of (rows_of_year 2020
     [Dt (Date 2020 1 1), Dt (Date 2020 2 1), Dt (Date 2020 3 1),
      Dt (Date 2020 4 1), Dt (Date 2020 5 1), Dt (Date 2021 1 1), Dt (Date 2021 2 1)]
     [Num 4, Num 4, Null, Num 4, Num (float64 (41 / 10)),
      Num (float64 (432 / 125)), Num (float64 (1729 / 500))]) = [4, 4, 4, float64 (41 / 10)] \<and>
   float64 (403 / 100) \<noteq> arithmetic_mean [4, 4, 4, float64 (41 / 10)]"
proof -
  have a: "float64 (403 / 100) \<noteq> arithmetic_mean [4, 4, 4, float64 (41 / 10)]"
    by (simp add: arithmetic_mean_def float64_rates float64_values)
  from rates_build rates_window rates_2020 a show ?thesis
    unfolding rates_rows by simp
qed

text \<open>
  Claim C4, amended. Every region of the state map data is a selected region that
  has a column in the table and at least one observation in the year. Its value is
  \<open>round(mean, 2)\<close> of the year's rows of that column, computed in float64. The
  arithmetic mean of the year's observations lies between their minimum and their
  maximum; the value stored need not.
\<close>

theorem state_map_value_bounds:
  assumes "build_comparison fred states_selected = Inr assembled"
    and "filter_window_3cols w assembled = Inr comparison_df"
    and "project_for_year comparison_df y states_selected = Inr m"
    and "(state, v) \<in> set m"
  shows "state \<in> set states_selected \<and>
     (\<exists>dates col vs.
        getitem comparison_df ''Date'' = Inr dates \<and> map_of comparison_df state = Some col \<and>
        dropna (rows_of_year y dates col) = map Num vs \<and> vs \<noteq> [] \<and>
        v = round2 (mean (rows_of_year y dates col)) \<and>
        Min (set vs) \<le> arithmetic_mean vs \<and> arithmetic_mean vs \<le> Max (set vs))"
proof -
  have ok: "table_ok comparison_df"
    using build_comparison_ok[OF assms(1)] assms(2) by (rule filter_window_3cols_ok)
  from assembled_has_dates[OF ok] obtain dates where d: "getitem comparison_df ''Date'' = Inr dates"
    by blast
  from assms(3) d have m: "m = state_map_data (loc (map (in_year y) dates) comparison_df) states_selected"
    by (simp add: project_for_year_def filter_year_def)
  from state_map_data_entry[OF assms(4)[unfolded m]] obtain ycol where
    sel: "state \<in> set states_selected"
    and yc: "map_of (loc (map (in_year y) dates) comparison_df) state = Some ycol"
    and ne: "dropna ycol \<noteq> []" and v: "v = round2 (mean ycol)" by blast
  from yc obtain col where col: "map_of comparison_df state = Some col"
    and ycol: "ycol = rows_of_year y dates col"
    by (auto simp: map_of_loc select_rows_of_year)
  from build_comparison_keys[OF assms(1)] sel have "state \<noteq> ''Date''" by blast
  from table_ok_state_column[OF ok col this] have "list_all numeric ycol"
    unfolding ycol by (rule numeric_rows_of_year)
  then have dn: "dropna ycol = map Num (nums_of ycol)" by (rule dropna_numeric)
  let ?vs = "nums_of ycol"
  from dn ne have vne: "?vs \<noteq> []" by auto
  from mean_between[OF vne] have mb: "Min (set ?vs) \<le> arithmetic_mean ?vs"
    "arithmetic_mean ?vs \<le> Max (set ?vs)" by (simp_all add: arithmetic_mean_def)
  from d col dn[unfolded ycol] vne mb v sel show ?thesis
    unfolding ycol by blast
qed

theorem state_map_value_bounds_witness:
  "project_for_year rates_table 2020 [''Texas'', ''Utah''] = Inr [(''Texas'', float64 (403 / 100))] \<and>
   (\<exists>dates col vs.
        getitem rates_table ''Date'' = Inr dates \<and> map_of rates_table ''Texas'' = Some col \<and>
        rows_of_year 2020 dates col = [Num 4, Num 4, Null, Num 4, Num (float64 (41 / 10))] \<and>
        dropna (rows_of_year 2020 dates col) = map Num vs \<and> vs = [4, 4, 4, float64 (41 / 10)] \<and>
        float64 (403 / 100) = round2 (mean (rows_of_year 2020 dates col)) \<and>
        Min (set vs) \<le> arithmetic_mean vs \<and> arithmetic_mean vs \<le> Max (set vs))"
proof -
  have i: "(''Texas'', float64 (403 / 100)) \<in> set [(''Texas'', float64 (403 / 100))]" by simp
  from state_map_value_bounds [OF rates_build rates_window rates_2020 i]
  obtain dates col vs where
    d: "getitem rates_table ''Date'' = Inr dates" and c: "map_of rates_table ''Texas'' = Some col"
    and dn: "dropna (rows_of_year 2020 dates col) = map Num vs"
    and v: "float64 (403 / 100) = round2 (mean (rows_of_year 2020 dates col))"
    and mb: "Min (set vs) \<le> arithmetic_mean vs" "arithmetic_mean vs \<le> Max (set vs)"
    by blast
  from d rates_dates have ds: "dates =
     [Dt (Date 2020 1 1), Dt (Date 2020 2 1), Dt (Date 2020 3 1),
      Dt (Date 2020 4 1), Dt (Date 2020 5 1), Dt (Date 2021 1 1), Dt (Date 2021 2 1)]" by simp
  from c rates_columns(1) have cs: "col =
     [Num 4, Num 4, Null, Num 4, Num (float64 (41 / 10)),
      Num (float64 (432 / 125)), Num (float64 (1729 / 500))]" by simp
  have r: "rows_of_year 2020 dates col = [Num 4, Num 4, Null, Num 4, Num (float64 (41 / 10))]"
    unfolding ds cs by (rule rates_rows(1))
  from dn have "map Num vs = [Num 4, Num 4, Num 4, Num (float64 (41 / 10))]"
    unfolding r by (simp add: dropna_def)
  then have vs: "vs = [4, 4, 4, float64 (41 / 10)]" by (auto simp: map_eq_Cons_conv)
  from rates_2020 d c r dn vs v mb show ?thesis by blast
qed

text \<open>
  The claim as stated fails: with the Texas rates 3.456 and 3.458 of 2021 the value
  stored is the float64 value 3.46, which is above both.
\<close>

theorem state_map_value_exceeds_maximum:
  "project_for_year rates_table 2021 [''Texas'', ''Utah''] = Inr [(''Texas'', float64 (173 / 50))] \<and>
   rows_of_year 2021
     [Dt (Date 2020 1 1), Dt (Date 2020 2 1), Dt (Date 2020 3 1),
      Dt (Date 2020 4 1), Dt (Date 2020 5 1), Dt (Date 2021 1 1), Dt (Date 2021 2 1)]
     [Num 4, Num 4, Null, Num 4, Num (float64 (41 / 10)),
      Num (float64 (432 / 125)), Num (float64 (1729 / 500))] =
     [Num (float64 (432 / 125)), Num (float64 (1729 / 500))] \<and>
   Max (set [float64 (432 / 125), float64 (1729 / 500)]) = float64 (1729 / 500) \<and>
   \<not> float64 (173 / 50) \<le> Max (set [float64 (432 / 125), float64 (1729 / 500)])"
proof -
  have r: "rows_of_year 2021
     [Dt (Date 2020 1 1), Dt (Date 2020 2 1), Dt (Date 2020 3 1),
      Dt (Date 2020 4 1), Dt (Date 2020 5 1), Dt (Date 2021 1 1), Dt (Date 2021 2 1)]
     [Num 4, Num 4, Null, Num 4, Num (float64 (41 / 10)),
      Num (float64 (432 / 125)), Num (float64 (1729 / 500))] =
     [Num (float64 (432 / 125)), Num (float64 (1729 / 500))]"
    by (simp add: rows_of_year_def in_year_def)
  have x: "Max (set [float64 (432 / 125), float64 (1729 / 500)]) = float64 (1729 / 500)"
    by (simp add: float64_rates)
  have g: "\<not> float64 (173 / 50) \<le> float64 (1729 / 500)"
    by (simp add: float64_rates float64_values)
  from rates_2021 r x g show ?thesis by simp
qed

section \<open>Frames: column assignment\<close>

lemma map_of_setitem: "map_of (setitem df name vs) = (map_of df)(name \<mapsto> vs)"
  by (induction df) (auto simp: fun_eq_iff)

lemma getitem_setitem_same: "getitem (setitem df name vs) name = Inr vs"
  by (simp add: getitem_def map_of_setitem)

lemma getitem_setitem_other: "other \<noteq> name \<Longrightarrow> getitem (setitem df name vs) other = getitem df other"
  by (simp add: getitem_def map_of_setitem)

lemma map_of_rename_other:
  "name \<noteq> old \<Longrightarrow> name \<noteq> new \<Longrightarrow> map_of (rename old new df) name = map_of df name"
  by (induction df) (auto simp: rename_def)

lemma select_map_both: "select (map P xs) (map f xs) = map f (filter P xs)"
  by (induction xs) (auto simp: select_def)

lemma fips_cell_Str:
  "fips_cell c \<noteq> Null \<Longrightarrow> \<exists>name code. c = Str name \<and> map_of LA_PARISH_FIPS name = Some code \<and> fips_cell c = Str code"
  by (cases c) (auto simp: fips_cell_def split: option.splits)

text \<open>What \<open>add_fips\<close> leaves of a frame with a Parish column.\<close>

lemma add_fips_columns:
  assumes "map_of df ''Parish'' = Some parish" and "add_fips df = Inr out"
  shows "getitem out ''Parish'' = Inr (filter (\<lambda>c. fips_cell c \<noteq> Null) parish)"
    and "getitem out ''fips'' = Inr (map fips_cell (filter (\<lambda>c. fips_cell c \<noteq> Null) parish))"
    and "\<And>name col. name \<noteq> ''fips'' \<Longrightarrow> map_of df name = Some col \<Longrightarrow>
           getitem out name = Inr (select (map (\<lambda>c. fips_cell c \<noteq> Null) parish) col)"
    and "\<And>name. name \<noteq> ''fips'' \<Longrightarrow> map_of df name = None \<Longrightarrow> map_of out name = None"
proof -
  let ?keep = "map (\<lambda>c. fips_cell c \<noteq> Null) parish"
  have a: "out = loc ?keep (setitem df ''fips'' (map fips_cell parish))"
    using assms by (simp add: add_fips_def getitem_def)
  have p: "getitem (setitem df ''fips'' (map fips_cell parish)) ''Parish'' = Inr parish"
    by (simp add: getitem_def map_of_setitem assms(1))
  show "getitem out ''Parish'' = Inr (filter (\<lambda>c. fips_cell c \<noteq> Null) parish)"
    unfolding a using getitem_loc[OF p, of ?keep] by (simp add: select_map_self)
  show "getitem out ''fips'' = Inr (map fips_cell (filter (\<lambda>c. fips_cell c \<noteq> Null) parish))"
    unfolding a using getitem_loc[OF getitem_setitem_same, of ?keep df "''fips''" "map fips_cell parish"]
    by (simp add: select_map_both)
  show "\<And>name col. name \<noteq> ''fips'' \<Longrightarrow> map_of df name = Some col \<Longrightarrow>
           getitem out name = Inr (select ?keep col)"
  proof -
    fix name col assume n: "name \<noteq> ''fips''" and c: "map_of df name = Some col"
    then have "getitem (setitem df ''fips'' (map fips_cell parish)) name = Inr col"
      by (simp add: getitem_def map_of_setitem)
    from getitem_loc[OF this, of ?keep] show "getitem out name = Inr (select ?keep col)"
      unfolding a .
  qed
  show "\<And>name. name \<noteq> ''fips'' \<Longrightarrow> map_of df name = None \<Longrightarrow> map_of out name = None"
    unfolding a by (simp add: map_of_loc map_of_setitem)
qed

lemma add_fips_returns:
  "map_of df ''Parish'' = Some parish \<Longrightarrow> \<exists>out. add_fips df = Inr out"
  by (simp add: add_fips_def getitem_def)

section \<open>The loader's result\<close>

text \<open>The frame \<open>load_county_data\<close> hands to the year derivation: names stripped, the
  Parish column stripped, the rate column renamed.\<close>

definition prepared :: "frame \<Rightarrow> cell list \<Rightarrow> frame" where
  "prepared raw stripped =
     rename ''Unemployment rate'' ''Unemployment Rate'' (setitem (strip_columns raw) ''Parish'' stripped)"

lemma prepared_columns:
  "map_of (prepared raw stripped) ''Parish'' = Some stripped"
  "map_of (prepared raw stripped) ''Date'' = map_of (strip_columns raw) ''Date''"
  "map_of (prepared raw stripped) ''year'' = map_of (strip_columns raw) ''year''"
  by (simp_all add: prepared_def map_of_rename_other map_of_setitem)

lemma derive_year_parish:
  "derive_year parse_date parse_num df = Inr df' \<Longrightarrow> map_of df' ''Parish'' = map_of df ''Parish''"
  by (auto simp: derive_year_def map_of_setitem split: option.splits if_splits)

lemma derive_year_no_date:
  "map_of df ''Date'' = None \<Longrightarrow> derive_year parse_date parse_num df = Inr df' \<Longrightarrow>
   map_of df' ''Date'' = None"
  by (auto simp: derive_year_def map_of_setitem split: option.splits)

lemma derive_year_with_date:
  "map_of df ''Date'' = Some dates \<Longrightarrow>
   derive_year parse_date parse_num df =
     (if list_all (\<lambda>c. c = Null) (to_datetime parse_date dates) then Inl NoDateParsed
      else Inr (setitem (setitem df ''Date'' (to_datetime parse_date dates))
                  ''year'' (dt_year (to_datetime parse_date dates))))"
  by (simp add: derive_year_def)

text \<open>The loader's result, case by case.\<close>

lemma load_county_data_cases:
  assumes "load_county_data parse_date parse_num csv = Inr (county_df, reports)"
  shows "(county_df = DataFrame \<and> (\<exists>r. reports = [r])) \<or>
         (\<exists>raw parish stripped df.
            csv = Some raw \<and> map_of (strip_columns raw) ''Parish'' = Some parish \<and>
            str_strip_col parish = Inr stripped \<and>
            derive_year parse_date parse_num (prepared raw stripped) = Inr df \<and>
            add_fips df = Inr county_df \<and> reports = [])"
  using assms
  by (auto simp: load_county_data_def prepared_def split: option.splits sum.splits)

lemma str_strip_col_cells: "str_strip_col parish = Inr stripped \<Longrightarrow> stripped = map strip_cell parish"
  by (auto simp: str_strip_col_def split: if_splits)

text \<open>
  Claim C8. Whenever the loader returns, either it returns the empty frame with one
  message (no row at all), or it reports nothing and the frame has a Parish and a
  fips column: the Parish column holds exactly the stripped names of the file that
  are keys of the catalog, in order, and the fips column holds the code of each, so
  no row has a null code. The rows whose name has no mapping are gone.
\<close>

theorem loaded_rows_have_fips:
  assumes "load_county_data parse_date parse_num csv = Inr (county_df, reports)"
  shows "(county_df = DataFrame \<and> nrows county_df = 0 \<and> (\<exists>r. reports = [r])) \<or>
         (reports = [] \<and>
          (\<exists>raw parish kept.
             csv = Some raw \<and> map_of (strip_columns raw) ''Parish'' = Some parish \<and>
             kept = filter (\<lambda>c. fips_cell c \<noteq> Null) (map strip_cell parish) \<and>
             getitem county_df ''Parish'' = Inr kept \<and>
             getitem county_df ''fips'' = Inr (map fips_cell kept) \<and>
             list_all (\<lambda>c. \<exists>name code. c = Str name \<and> map_of LA_PARISH_FIPS name = Some code \<and>
                                        fips_cell c = Str code) kept \<and>
             list_all (\<lambda>c. c \<noteq> Null) (map fips_cell kept)))"
proof -
  from load_county_data_cases[OF assms] show ?thesis
  proof
    assume "county_df = DataFrame \<and> (\<exists>r. reports = [r])"
    then show ?thesis by (simp add: DataFrame_def nrows_def)
  next
    assume "\<exists>raw parish stripped df.
            csv = Some raw \<and> map_of (strip_columns raw) ''Parish'' = Some parish \<and>
            str_strip_col parish = Inr stripped \<and>
            derive_year parse_date parse_num (prepared raw stripped) = Inr df \<and>
            add_fips df = Inr county_df \<and> reports = []"
    then obtain raw parish stripped df where
      c: "csv = Some raw" "map_of (strip_columns raw) ''Parish'' = Some parish"
      and st: "str_strip_col parish = Inr stripped"
      and dy: "derive_year parse_date parse_num (prepared raw stripped) = Inr df"
      and r: "add_fips df = Inr county_df" "reports = []" by blast
    let ?kept = "filter (\<lambda>c. fips_cell c \<noteq> Null) (map strip_cell parish)"
    from derive_year_parish[OF dy] prepared_columns(1) str_strip_col_cells[OF st]
    have p: "map_of df ''Parish'' = Some (map strip_cell parish)" by simp
    from add_fips_columns(1,2)[OF p r(1)]
    have g: "getitem county_df ''Parish'' = Inr ?kept" "getitem county_df ''fips'' = Inr (map fips_cell ?kept)"
      by simp_all
    have k1: "list_all (\<lambda>c. \<exists>name code. c = Str name \<and> map_of LA_PARISH_FIPS name = Some code \<and>
                                        fips_cell c = Str code) ?kept"
      unfolding list_all_iff using fips_cell_Str by auto
    have k2: "list_all (\<lambda>c. c \<noteq> Null) (map fips_cell ?kept)"
      unfolding list_all_iff by auto
    from c r(2) g k1 k2 show ?thesis by blast
  qed
qed

section \<open>Dates that cannot be parsed\<close>

text \<open>
  A sample file: a padded column name, a padded parish name, a statewide row that the
  catalog does not know, and a date that cannot be parsed.
\<close>

definition parse_sample :: date_parser where
  "parse_sample col c =
     (if c = Str ''2020-01-01'' then Some (Date 2020 1 1)
      else if c = Str ''2021-06-01'' then Some (Date 2021 6 1)
      else None)"

definition num_sample :: num_parser where
  "num_sample s = (if s = ''2020'' then Some 2020 else None)"

definition csv_sample :: frame where
  "csv_sample =
     [(''Parish '', [Str ''Acadia'', Str '' Allen '', Str ''Louisiana'']),
      (''Date'', [Str ''2020-01-01'', Str ''not a date'', Str ''2021-06-01'']),
      (''Unemployment rate'', [Num 5, Num 6, Num 7])]"

definition loaded_sample :: frame where
  "loaded_sample =
     [(''Parish'', [Str ''Acadia'', Str ''Allen'']),
      (''Date'', [Dt (Date 2020 1 1), Null]),
      (''Unemployment Rate'', [Num 5, Num 6]),
      (''year'', [Num 2020, Null]),
      (''fips'', [Str ''22001'', Str ''22003''])]"

lemma strip_sample:
  "str_strip ''Parish '' = ''Parish''" "str_strip ''Date'' = ''Date''"
  "str_strip ''Unemployment rate'' = ''Unemployment rate''"
  "str_strip ''Acadia'' = ''Acadia''" "str_strip '' Allen '' = ''Allen''"
  "str_strip ''Louisiana'' = ''Louisiana''"
  by (simp_all add: str_strip_def is_space_def)

lemma fips_sample:
  "fips_cell (Str ''Acadia'') = Str ''22001''" "fips_cell (Str ''Allen'') = Str ''22003''"
  "fips_cell (Str ''Louisiana'') = Null"
  by (simp_all add: fips_cell_def LA_PARISH_FIPS_def)

lemma load_sample:
  "load_county_data parse_sample num_sample (Some csv_sample) = Inr (loaded_sample, [])"
  by (simp add: load_county_data_def csv_sample_def strip_columns_def strip_sample
        str_strip_col_def is_text_def strip_cell_def rename_def derive_year_def to_datetime_def
        parse_sample_def dt_year_def add_fips_def getitem_def fips_sample loc_def select_def loaded_sample_def)


theorem loaded_rows_have_fips_witness:
  "load_county_data parse_sample num_sample (Some csv_sample) = Inr (loaded_sample, []) \<and>
   getitem loaded_sample ''Parish'' = Inr [Str ''Acadia'', Str ''Allen''] \<and>
   getitem loaded_sample ''fips'' = Inr [Str ''22001'', Str ''22003'']"
  using loaded_rows_have_fips [OF load_sample] load_sample
  by (simp add: loaded_sample_def getitem_def)

text \<open>
  Claim C7, amended. For a file with a (text) Parish column and a Date column: when
  no date parses (also when the file has no row), the loader reports it and returns
  the empty frame. Otherwise it returns, reporting nothing, the rows whose parish
  is in the catalog, whatever their date: a row whose date failed to parse stays,
  with a null date and a null year.
\<close>

theorem unparsable_dates_and_year:
  assumes "map_of (strip_columns raw) ''Parish'' = Some parish"
    and "str_strip_col parish = Inr stripped"
    and "map_of (strip_columns raw) ''Date'' = Some dates"
  shows "if list_all (\<lambda>c. c = Null) (to_datetime parse_date dates)
         then load_county_data parse_date parse_num (Some raw) = Inr (DataFrame, [NoDateParsed])
         else (\<exists>county_df.
                 load_county_data parse_date parse_num (Some raw) = Inr (county_df, []) \<and>
                 getitem county_df ''Parish'' = Inr (filter (\<lambda>c. fips_cell c \<noteq> Null) stripped) \<and>
                 getitem county_df ''Date'' =
                   Inr (select (map (\<lambda>c. fips_cell c \<noteq> Null) stripped) (to_datetime parse_date dates)) \<and>
                 getitem county_df ''year'' =
                   Inr (select (map (\<lambda>c. fips_cell c \<noteq> Null) stripped)
                          (dt_year (to_datetime parse_date dates))))"
proof (cases "list_all (\<lambda>c. c = Null) (to_datetime parse_date dates)")
  case True
  have "derive_year parse_date parse_num (prepared raw stripped) = Inl NoDateParsed"
    using derive_year_with_date[of "prepared raw stripped" dates parse_date parse_num] True assms(3)
    by (simp add: prepared_columns)
  then have "load_county_data parse_date parse_num (Some raw) = Inr (DataFrame, [NoDateParsed])"
    using assms(1,2) by (simp add: load_county_data_def prepared_def)
  with True show ?thesis by simp
next
  case False
  let ?d = "to_datetime parse_date dates"
  let ?df = "setitem (setitem (prepared raw stripped) ''Date'' ?d) ''year'' (dt_year ?d)"
  have dy: "derive_year parse_date parse_num (prepared raw stripped) = Inr ?df"
    using derive_year_with_date[of "prepared raw stripped" dates parse_date parse_num] False assms(3)
    by (simp add: prepared_columns)
  have p: "map_of ?df ''Parish'' = Some stripped"
    by (simp add: map_of_setitem prepared_columns)
  from add_fips_returns[OF p] obtain out where o: "add_fips ?df = Inr out" by blast
  from dy o have l: "load_county_data parse_date parse_num (Some raw) = Inr (out, [])"
    using assms(1,2) by (simp add: load_county_data_def prepared_def)
  have d: "map_of ?df ''Date'' = Some ?d" and y: "map_of ?df ''year'' = Some (dt_year ?d)"
    by (simp_all add: map_of_setitem)
  from add_fips_columns(1)[OF p o] add_fips_columns(3)[OF p o _ d] add_fips_columns(3)[OF p o _ y]
    l False
  show ?thesis by simp
qed

theorem unparsable_dates_witness:
  "load_county_data parse_sample num_sample (Some csv_sample) = Inr (loaded_sample, []) \<and>
   to_datetime parse_sample [Str ''2020-01-01'', Str ''not a date'', Str ''2021-06-01'']
     = [Dt (Date 2020 1 1), Null, Dt (Date 2021 6 1)] \<and>
   getitem loaded_sample ''Date'' = Inr [Dt (Date 2020 1 1), Null] \<and>
   getitem loaded_sample ''year'' = Inr [Num 2020, Null]"
proof -
  have p: "map_of (strip_columns csv_sample) ''Parish''
      = Some [Str ''Acadia'', Str '' Allen '', Str ''Louisiana'']"
    by (simp add: strip_columns_def csv_sample_def strip_sample)
  have s: "str_strip_col [Str ''Acadia'', Str '' Allen '', Str ''Louisiana'']
      = Inr [Str ''Acadia'', Str ''Allen'', Str ''Louisiana'']"
    by (simp add: str_strip_col_def is_text_def strip_cell_def strip_sample)
  have d: "map_of (strip_columns csv_sample) ''Date''
      = Some [Str ''2020-01-01'', Str ''not a date'', Str ''2021-06-01'']"
    by (simp add: strip_columns_def csv_sample_def strip_sample)
  have t: "to_datetime parse_sample [Str ''2020-01-01'', Str ''not a date'', Str ''2021-06-01'']
     = [Dt (Date 2020 1 1), Null, Dt (Date 2021 6 1)]"
    by (simp add: to_datetime_def parse_sample_def)
  from unparsable_dates_and_year [OF p s d, of parse_sample num_sample] load_sample t
  show ?thesis by (simp add: fips_sample select_def dt_year_def)
qed

text \<open>
  The claim as stated fails: the row of Allen parish, whose date cannot be parsed,
  is in the dataset returned.
\<close>

theorem unparsable_date_row_is_kept:
  "load_county_data parse_sample num_sample (Some csv_sample) = Inr (loaded_sample, []) \<and>
   parse_sample [Str ''2020-01-01'', Str ''not a date'', Str ''2021-06-01''] (Str ''not a date'') = None \<and>
   getitem loaded_sample ''Parish'' = Inr [Str ''Acadia'', Str ''Allen''] \<and>
   getitem loaded_sample ''Date'' = Inr [Dt (Date 2020 1 1), Null] \<and>
   nrows loaded_sample = 2"
  using load_sample by (simp add: loaded_sample_def getitem_def nrows_def parse_sample_def)

section \<open>Name normalization and the county view\<close>

text \<open>A file with the two spellings of the scenario.\<close>

definition csv_tammany :: frame where
  "csv_tammany =
     [(''Parish'', [Str ''St.Tammany '', Str ''St. Tammany '']),
      (''year'', [Num 2020, Num 2020])]"

lemma strip_tammany:
  "str_strip ''St.Tammany '' = ''St.Tammany''" "str_strip ''St. Tammany '' = ''St. Tammany''"
  "str_strip ''St. Tammany'' = ''St. Tammany''"
  "str_strip ''Parish'' = ''Parish''" "str_strip ''year'' = ''year''"
  by (simp_all add: str_strip_def is_space_def)

lemma lookup_tammany:
  "map_of LA_PARISH_FIPS ''St.Tammany'' = None" "map_of LA_PARISH_FIPS ''St. Tammany'' = Some ''22103''"
  by (simp_all add: LA_PARISH_FIPS_def)

text \<open>
  Claim C9, amended. The normalization only trims whitespace at both ends, and the
  catalog lookup is exact: a name gets the code of its trimmed form, or none. The
  name "St.Tammany " trims to "St.Tammany", which is not a key: it gets no code and
  its row is dropped. "St. Tammany " and "St. Tammany" get 22103.
\<close>

theorem trimmed_name_lookup_is_exact:
  "fips_cell (strip_cell (Str name)) =
     (case map_of LA_PARISH_FIPS (str_strip name) of None \<Rightarrow> Null | Some code \<Rightarrow> Str code) \<and>
   str_strip ''St.Tammany '' = ''St.Tammany'' \<and>
   map_of LA_PARISH_FIPS ''St.Tammany'' = None \<and>
   fips_cell (strip_cell (Str ''St.Tammany '')) = Null \<and>
   fips_cell (strip_cell (Str ''St. Tammany '')) = Str ''22103'' \<and>
   fips_cell (strip_cell (Str ''St. Tammany'')) = Str ''22103'' \<and>
   load_county_data parse_date parse_num (Some csv_tammany) =
     Inr ([(''Parish'', [Str ''St. Tammany'']), (''year'', [Num 2020]), (''fips'', [Str ''22103''])], [])"
proof -
  have f: "fips_cell (Str ''St.Tammany'') = Null" "fips_cell (Str ''St. Tammany'') = Str ''22103''"
    by (simp_all add: fips_cell_def lookup_tammany)
  have l: "load_county_data parse_date parse_num (Some csv_tammany) =
     Inr ([(''Parish'', [Str ''St. Tammany'']), (''year'', [Num 2020]), (''fips'', [Str ''22103''])], [])"
    by (simp add: load_county_data_def csv_tammany_def strip_columns_def strip_tammany
        str_strip_col_def is_text_def strip_cell_def rename_def derive_year_def to_numeric_def
        add_fips_def getitem_def f loc_def select_def)
  show ?thesis
    by (simp add: l strip_cell_def fips_cell_def strip_tammany lookup_tammany)
qed

text \<open>The claim as stated fails: the two names do not resolve to the same code.\<close>

theorem st_tammany_without_space_has_no_code:
  "fips_cell (strip_cell (Str ''St.Tammany '')) \<noteq> fips_cell (strip_cell (Str ''St. Tammany'')) \<and>
   fips_cell (strip_cell (Str ''St.Tammany '')) \<noteq> Str ''22103''"
  by (simp add: strip_cell_def fips_cell_def strip_tammany lookup_tammany)

section \<open>The county view and the Date column\<close>

lemma columns_map_of: "name \<notin> set (columns df) \<longleftrightarrow> map_of df name = None"
  by (simp add: columns_def map_of_eq_None_iff)

lemma names_of_map_Str: "names_of (map Str names) = Inr names"
  by (induction names) auto

lemma text_cells:
  "\<forall>c \<in> set cs. \<exists>name. c = Str name \<Longrightarrow> \<exists>names. cs = map Str names"
proof (induction cs)
  case Nil
  then show ?case by simp
next
  case (Cons c cs)
  then obtain name names where c: "c = Str name" "cs = map Str names" by auto
  show ?case unfolding c by (rule exI[of _ "name # names"]) simp
qed

text \<open>
  The sidebar of the county view on a frame whose Parish column holds names: the
  parish widget raises unless the five default parishes are among them, and the
  date range is read after it.
\<close>

lemma county_view_names:
  assumes "\<not> is_empty county_df" and "getitem county_df ''Parish'' = Inr (map Str names)"
  shows "county_view render picked county_df =
     (if set default_parishes \<subseteq> set names
      then (case county_date_range county_df of
              Inl e \<Rightarrow> Inl e
            | Inr bounds \<Rightarrow>
                (case render
                        (case picked of
                           None \<Rightarrow> default_parishes
                         | Some p \<Rightarrow> if ''Select All Parishes'' \<in> set p
                                      then sort (remdups names) else p)
                        bounds county_df of
                   Inl e \<Rightarrow> Inl e
                 | Inr v \<Rightarrow> Inr (Rendered v)))
      else Inl StreamlitAPIException)"
proof -
  have d: "''Select All Parishes'' \<notin> set default_parishes"
    by (simp add: default_parishes_def)
  have m: "list_all (\<lambda>d. d \<in> set (''Select All Parishes'' # sort (remdups names))) default_parishes
      = (set default_parishes \<subseteq> set names)"
    using d by (auto simp: list_all_iff)
  have ms: "multiselect (''Select All Parishes'' # sort (remdups names)) default_parishes picked =
      (if set default_parishes \<subseteq> set names
       then Inr (case picked of None \<Rightarrow> default_parishes | Some p \<Rightarrow> p)
       else Inl StreamlitAPIException)"
    unfolding multiselect_def m by simp
  show ?thesis
    using assms d
    by (simp add: county_view_def names_of_map_Str ms Let_def split: sum.splits option.splits)
qed

lemma loaded_parish_names:
  assumes "load_county_data parse_date parse_num (Some raw) = Inr (county_df, reports)"
    and "\<not> is_empty county_df"
  shows "\<exists>names. getitem county_df ''Parish'' = Inr (map Str names)"
proof -
  from load_county_data_cases[OF assms(1)] assms(2) obtain parish stripped df where
    dy: "derive_year parse_date parse_num (prepared raw stripped) = Inr df"
    and r: "add_fips df = Inr county_df"
    by (auto simp: is_empty_def DataFrame_def)
  from derive_year_parish[OF dy] have p: "map_of df ''Parish'' = Some stripped"
    by (simp add: prepared_columns)
  let ?kept = "filter (\<lambda>c. fips_cell c \<noteq> Null) stripped"
  from add_fips_columns(1)[OF p r] have g: "getitem county_df ''Parish'' = Inr ?kept" .
  have "\<forall>c \<in> set ?kept. \<exists>name. c = Str name" using fips_cell_Str by auto
  from text_cells[OF this] g show ?thesis by auto
qed

text \<open>
  Claim C10. For a dataset the loader returns from a file without a Date column
  (so through the year branch): the dataset has no Date column and reading the date
  range raises KeyError. When the dataset is not empty the county view never gets
  to render anything, whatever the rest of the view does and whatever the user
  selects: it ends with that KeyError at the date range when the five default
  parishes of the parish widget are in the data, and with the parish widget's
  StreamlitAPIException, one statement earlier, when they are not. Conversely, a
  county view that is rendered comes from a file with a Date column, and from data
  that holds the five default parishes.
\<close>

theorem county_view_needs_date_column:
  assumes "load_county_data parse_date parse_num (Some raw) = Inr (county_df, reports)"
  shows "(''Date'' \<notin> set (columns (strip_columns raw)) \<longrightarrow>
            ''Date'' \<notin> set (columns county_df) \<and>
            county_date_range county_df = Inl (KeyError ''Date'') \<and>
            (\<not> is_empty county_df \<longrightarrow>
               (\<exists>names. getitem county_df ''Parish'' = Inr (map Str names) \<and>
                  county_view render picked county_df =
                    (if set default_parishes \<subseteq> set names then Inl (KeyError ''Date'')
                     else Inl StreamlitAPIException)))) \<and>
         (county_view render picked county_df = Inr (Rendered v) \<longrightarrow>
            ''Date'' \<in> set (columns (strip_columns raw)) \<and>
            (\<exists>names. getitem county_df ''Parish'' = Inr (map Str names) \<and>
               set default_parishes \<subseteq> set names))"
proof -
  have main: "''Date'' \<notin> set (columns (strip_columns raw)) \<Longrightarrow> map_of county_df ''Date'' = None"
  proof -
    assume "''Date'' \<notin> set (columns (strip_columns raw))"
    then have nd: "map_of (strip_columns raw) ''Date'' = None" by (simp add: columns_map_of)
    from load_county_data_cases[OF assms] show "map_of county_df ''Date'' = None"
    proof
      assume "county_df = DataFrame \<and> (\<exists>r. reports = [r])"
      then show ?thesis by (simp add: DataFrame_def)
    next
      assume "\<exists>raw' parish stripped df.
            Some raw = Some raw' \<and> map_of (strip_columns raw') ''Parish'' = Some parish \<and>
            str_strip_col parish = Inr stripped \<and>
            derive_year parse_date parse_num (prepared raw' stripped) = Inr df \<and>
            add_fips df = Inr county_df \<and> reports = []"
      then obtain parish stripped df where
        st: "str_strip_col parish = Inr stripped"
        and dy: "derive_year parse_date parse_num (prepared raw stripped) = Inr df"
        and r: "add_fips df = Inr county_df" by auto
      from derive_year_parish[OF dy] have p: "map_of df ''Parish'' = Some stripped"
        by (simp add: prepared_columns)
      from derive_year_no_date[OF _ dy] nd have "map_of df ''Date'' = None"
        by (simp add: prepared_columns)
      from add_fips_columns(4)[OF p r _ this] show ?thesis by simp
    qed
  qed
  have range: "''Date'' \<notin> set (columns (strip_columns raw)) \<Longrightarrow>
      county_date_range county_df = Inl (KeyError ''Date'')"
    using main by (simp add: county_date_range_def getitem_def)
  have a: "''Date'' \<notin> set (columns (strip_columns raw)) \<longrightarrow>
            ''Date'' \<notin> set (columns county_df) \<and>
            county_date_range county_df = Inl (KeyError ''Date'') \<and>
            (\<not> is_empty county_df \<longrightarrow>
               (\<exists>names. getitem county_df ''Parish'' = Inr (map Str names) \<and>
                  county_view render picked county_df =
                    (if set default_parishes \<subseteq> set names then Inl (KeyError ''Date'')
                     else Inl StreamlitAPIException)))"
  proof (intro impI conjI)
    assume nd: "''Date'' \<notin> set (columns (strip_columns raw))"
    from main[OF nd] show "''Date'' \<notin> set (columns county_df)" by (simp add: columns_map_of)
    from range[OF nd] show "county_date_range county_df = Inl (KeyError ''Date'')" .
    assume ne: "\<not> is_empty county_df"
    from loaded_parish_names[OF assms ne] obtain names where
      g: "getitem county_df ''Parish'' = Inr (map Str names)" by blast
    from county_view_names[OF ne g, of render picked] range[OF nd]
    have "county_view render picked county_df =
        (if set default_parishes \<subseteq> set names then Inl (KeyError ''Date'')
         else Inl StreamlitAPIException)" by simp
    with g show "\<exists>names. getitem county_df ''Parish'' = Inr (map Str names) \<and>
                  county_view render picked county_df =
                    (if set default_parishes \<subseteq> set names then Inl (KeyError ''Date'')
                     else Inl StreamlitAPIException)" by blast
  qed
  have b: "county_view render picked county_df = Inr (Rendered v) \<longrightarrow>
            ''Date'' \<in> set (columns (strip_columns raw)) \<and>
            (\<exists>names. getitem county_df ''Parish'' = Inr (map Str names) \<and>
               set default_parishes \<subseteq> set names)"
  proof
    assume rv: "county_view render picked county_df = Inr (Rendered v)"
    then have ne: "\<not> is_empty county_df" by (auto simp: county_view_def split: if_splits)
    from loaded_parish_names[OF assms ne] obtain names where
      g: "getitem county_df ''Parish'' = Inr (map Str names)" by blast
    note cv = county_view_names[OF ne g, of render picked]
    from rv cv have sub: "set default_parishes \<subseteq> set names" by (auto split: if_splits)
    have "''Date'' \<in> set (columns (strip_columns raw))"
    proof (rule ccontr)
      assume "''Date'' \<notin> set (columns (strip_columns raw))"
      from range[OF this] rv cv sub show False by simp
    qed
    with g sub show "''Date'' \<in> set (columns (strip_columns raw)) \<and>
            (\<exists>names. getitem county_df ''Parish'' = Inr (map Str names) \<and>
               set default_parishes \<subseteq> set names)" by blast
  qed
  from a b show ?thesis by blast
qed

text \<open>
  Three files: the five default parishes with a year column and no Date column, two
  other parishes with a year column, and the five default parishes with a Date column;
  and what the loader makes of them.
\<close>

definition csv_parishes_year :: frame where
  "csv_parishes_year =
     [(''Parish'', [Str ''St. Tammany'', Str ''Tangipahoa'', Str ''Livingston'', Str ''Washington'',
                    Str ''St. Helena'']),
      (''year'', [Num 2020, Num 2020, Num 2020, Num 2020, Str ''2020''])]"

definition loaded_parishes_year :: frame where
  "loaded_parishes_year =
     [(''Parish'', [Str ''St. Tammany'', Str ''Tangipahoa'', Str ''Livingston'', Str ''Washington'',
                    Str ''St. Helena'']),
      (''year'', [Num 2020, Num 2020, Num 2020, Num 2020, Num 2020]),
      (''fips'', [Str ''22103'', Str ''22105'', Str ''22063'', Str ''22117'', Str ''22091''])]"

definition csv_year_only :: frame where
  "csv_year_only = [(''Parish'', [Str ''Acadia'', Str ''Allen'']), (''year'', [Num 2020, Str ''2020''])]"

definition loaded_year_only :: frame where
  "loaded_year_only =
     [(''Parish'', [Str ''Acadia'', Str ''Allen'']), (''year'', [Num 2020, Num 2020]),
      (''fips'', [Str ''22001'', Str ''22003''])]"

definition csv_parishes_dates :: frame where
  "csv_parishes_dates =
     [(''Parish'', [Str ''St. Tammany'', Str ''Tangipahoa'', Str ''Livingston'', Str ''Washington'',
                    Str ''St. Helena'']),
      (''Date'', [Str ''2020-01-01'', Str ''2021-06-01'', Str ''2020-01-01'', Str ''2021-06-01'',
                  Str ''2020-01-01''])]"

definition loaded_parishes_dates :: frame where
  "loaded_parishes_dates =
     [(''Parish'', [Str ''St. Tammany'', Str ''Tangipahoa'', Str ''Livingston'', Str ''Washington'',
                    Str ''St. Helena'']),
      (''Date'', [Dt (Date 2020 1 1), Dt (Date 2021 6 1), Dt (Date 2020 1 1), Dt (Date 2021 6 1),
                  Dt (Date 2020 1 1)]),
      (''year'', [Num 2020, Num 2021, Num 2020, Num 2021, Num 2020]),
      (''fips'', [Str ''22103'', Str ''22105'', Str ''22063'', Str ''22117'', Str ''22091''])]"

text \<open>A stand-in for the rest of the county view: it shows the selected parishes and
  the date bounds.\<close>

definition show_view ::
    "string list \<Rightarrow> (cell \<times> cell) \<Rightarrow> frame \<Rightarrow> error + (string list \<times> (cell \<times> cell))" where
  "show_view selected_parishes bounds county_df = Inr (selected_parishes, bounds)"

lemma strip_parishes:
  "str_strip ''Parish'' = ''Parish''" "str_strip ''year'' = ''year''" "str_strip ''Date'' = ''Date''"
  "str_strip ''St. Tammany'' = ''St. Tammany''" "str_strip ''Tangipahoa'' = ''Tangipahoa''"
  "str_strip ''Livingston'' = ''Livingston''" "str_strip ''Washington'' = ''Washington''"
  "str_strip ''St. Helena'' = ''St. Helena''"
  "str_strip ''Acadia'' = ''Acadia''" "str_strip ''Allen'' = ''Allen''"
  by (simp_all add: str_strip_def is_space_def)

lemma fips_parishes:
  "fips_cell (Str ''St. Tammany'') = Str ''22103''" "fips_cell (Str ''Tangipahoa'') = Str ''22105''"
  "fips_cell (Str ''Livingston'') = Str ''22063''" "fips_cell (Str ''Washington'') = Str ''22117''"
  "fips_cell (Str ''St. Helena'') = Str ''22091''"
  by (simp_all add: fips_cell_def LA_PARISH_FIPS_def)

lemma load_parishes_year:
  "load_county_data parse_sample num_sample (Some csv_parishes_year) = Inr (loaded_parishes_year, [])"
  by (simp add: load_county_data_def csv_parishes_year_def strip_columns_def strip_parishes
        str_strip_col_def is_text_def strip_cell_def rename_def derive_year_def to_numeric_def
        num_sample_def add_fips_def getitem_def fips_parishes loc_def select_def
        loaded_parishes_year_def)

lemma load_year_only:
  "load_county_data parse_sample num_sample (Some csv_year_only) = Inr (loaded_year_only, [])"
  by (simp add: load_county_data_def csv_year_only_def strip_columns_def strip_parishes
        str_strip_col_def is_text_def strip_cell_def rename_def derive_year_def to_numeric_def
        num_sample_def add_fips_def getitem_def fips_sample loc_def select_def loaded_year_only_def)

lemma load_parishes_dates:
  "load_county_data parse_sample num_sample (Some csv_parishes_dates) = Inr (loaded_parishes_dates, [])"
  by (simp add: load_county_data_def csv_parishes_dates_def strip_columns_def strip_parishes
        str_strip_col_def is_text_def strip_cell_def rename_def derive_year_def to_datetime_def
        parse_sample_def dt_year_def add_fips_def getitem_def fips_parishes loc_def select_def
        loaded_parishes_dates_def)

lemma map_Str_inj: "map Str xs = map Str ys \<Longrightarrow> xs = ys"
  by (simp add: inj_map_eq_map inj_on_def)

theorem county_view_needs_date_witness:
  "load_county_data parse_sample num_sample (Some csv_parishes_year) = Inr (loaded_parishes_year, []) \<and>
   ''Date'' \<notin> set (columns (strip_columns csv_parishes_year)) \<and>
   \<not> is_empty loaded_parishes_year \<and>
   county_view show_view None loaded_parishes_year = Inl (KeyError ''Date'') \<and>
   load_county_data parse_sample num_sample (Some csv_year_only) = Inr (loaded_year_only, []) \<and>
   ''Date'' \<notin> set (columns (strip_columns csv_year_only)) \<and>
   \<not> is_empty loaded_year_only \<and>
   county_view show_view None loaded_year_only = Inl StreamlitAPIException \<and>
   load_county_data parse_sample num_sample (Some csv_parishes_dates) = Inr (loaded_parishes_dates, []) \<and>
   county_view show_view None loaded_parishes_dates =
     Inr (Rendered (default_parishes, (Dt (Date 2020 1 1), Dt (Date 2021 6 1)))) \<and>
   ''Date'' \<in> set (columns (strip_columns csv_parishes_dates))"
proof -
  have c1: "''Date'' \<notin> set (columns (strip_columns csv_parishes_year))"
    by (simp add: columns_def strip_columns_def csv_parishes_year_def strip_parishes)
  have e1: "\<not> is_empty loaded_parishes_year"
    by (simp add: is_empty_def loaded_parishes_year_def nrows_def)
  have g1: "getitem loaded_parishes_year ''Parish'' =
      Inr (map Str [''St. Tammany'', ''Tangipahoa'', ''Livingston'', ''Washington'', ''St. Helena''])"
    by (simp add: getitem_def loaded_parishes_year_def)
  from county_view_needs_date_column [OF load_parishes_year, of show_view None] c1 e1
  obtain names1 where n1: "getitem loaded_parishes_year ''Parish'' = Inr (map Str names1)"
    and v1: "county_view show_view None loaded_parishes_year =
        (if set default_parishes \<subseteq> set names1 then Inl (KeyError ''Date'')
         else Inl StreamlitAPIException)" by blast
  from n1 g1 have "map Str names1 =
      map Str [''St. Tammany'', ''Tangipahoa'', ''Livingston'', ''Washington'', ''St. Helena'']"
    by simp
  then have "names1 = [''St. Tammany'', ''Tangipahoa'', ''Livingston'', ''Washington'', ''St. Helena'']"
    by (rule map_Str_inj)
  with v1 have r1: "county_view show_view None loaded_parishes_year = Inl (KeyError ''Date'')"
    by (simp add: default_parishes_def)
  have c2: "''Date'' \<notin> set (columns (strip_columns csv_year_only))"
    by (simp add: columns_def strip_columns_def csv_year_only_def strip_parishes)
  have e2: "\<not> is_empty loaded_year_only"
    by (simp add: is_empty_def loaded_year_only_def nrows_def)
  have g2: "getitem loaded_year_only ''Parish'' = Inr (map Str [''Acadia'', ''Allen''])"
    by (simp add: getitem_def loaded_year_only_def)
  from county_view_needs_date_column [OF load_year_only, of show_view None] c2 e2
  obtain names2 where n2: "getitem loaded_year_only ''Parish'' = Inr (map Str names2)"
    and v2: "county_view show_view None loaded_year_only =
        (if set default_parishes \<subseteq> set names2 then Inl (KeyError ''Date'')
         else Inl StreamlitAPIException)" by blast
  from n2 g2 have "map Str names2 = map Str [''Acadia'', ''Allen'']" by simp
  then have "names2 = [''Acadia'', ''Allen'']" by (rule map_Str_inj)
  with v2 have r2: "county_view show_view None loaded_year_only = Inl StreamlitAPIException"
    by (simp add: default_parishes_def)
  have e3: "\<not> is_empty loaded_parishes_dates"
    by (simp add: is_empty_def loaded_parishes_dates_def nrows_def)
  have g3: "getitem loaded_parishes_dates ''Parish'' =
      Inr (map Str [''St. Tammany'', ''Tangipahoa'', ''Livingston'', ''Washington'', ''St. Helena''])"
    by (simp add: getitem_def loaded_parishes_dates_def)
  have d3: "county_date_range loaded_parishes_dates = Inr (Dt (Date 2020 1 1), Dt (Date 2021 6 1))"
    by (simp add: county_date_range_def getitem_def loaded_parishes_dates_def
          series_min_def series_max_def min_def max_def less_eq_date_def)
  have r3: "county_view show_view None loaded_parishes_dates =
     Inr (Rendered (default_parishes, (Dt (Date 2020 1 1), Dt (Date 2021 6 1))))"
    unfolding county_view_names[OF e3 g3] d3
    by (simp add: default_parishes_def show_view_def)
  from county_view_needs_date_column [OF load_parishes_dates, of show_view None
      "(default_parishes, (Dt (Date 2020 1 1), Dt (Date 2021 6 1)))"] r3
  have c3: "''Date'' \<in> set (columns (strip_columns csv_parishes_dates))" by blast
  from load_parishes_year c1 e1 r1 load_year_only c2 e2 r2 load_parishes_dates r3 c3
  show ?thesis by (intro conjI)
qed


end
